(* ===== verification/Py_Prelude.thy ===== *)
theory Py_Prelude
  imports Complex_Main "HOL-Library.List_Lexorder" "HOL-Library.Product_Lexorder"
    "HOL-Library.Multiset" "HOL-Library.Char_ord"
begin

text \<open>
  The Python runtime the analysis code relies on, as plain HOL, and the
  lemmas every query theory shares: exceptions as a datatype of errors, a
  fallible result as a sum, and a \<open>dict\<close> as an association list that keeps
  insertion order. \<open>Py_Sort\<close>, \<open>Py_Decimal\<close> and \<open>Py_Text\<close> build on it.
\<close>

named_theorems py_defs "Python builtin models, unfolded to evaluate concrete queries"

datatype py_error =
    ValueError      \<comment> \<open>\<open>int('x')\<close>, \<open>max([])\<close>, \<open>round(nan)\<close>, ambiguous truth value\<close>
  | KeyError        \<comment> \<open>\<open>d[k]\<close> with \<open>k\<close> missing\<close>
  | TypeError       \<comment> \<open>\<open>len(None)\<close>\<close>
  | IndexError      \<comment> \<open>\<open>.iloc[0]\<close> on an empty frame\<close>
  | ZeroDivisionError
  | UnboundLocalError  \<comment> \<open>a local read before any assignment\<close>

type_synonym 'a py_result = "py_error + 'a"

text \<open>
  A loop whose body may raise: the results of the iterations in order, or the
  exception of the first iteration that raises.
\<close>

fun py_map :: "('a \<Rightarrow> 'b py_result) \<Rightarrow> 'a list \<Rightarrow> 'b list py_result" where
  "py_map f [] = Inr []"
| "py_map f (x # xs) = (case f x of Inl e \<Rightarrow> Inl e | Inr y \<Rightarrow> map_sum id (Cons y) (py_map f xs))"

text \<open>
  A Python \<open>dict\<close> is an association list with distinct keys. Assigning to a
  present key replaces its value where it stands; a new key goes to the end.
\<close>

type_synonym ('k, 'v) dict = "('k \<times> 'v) list"

fun dict_set :: "('k, 'v) dict \<Rightarrow> 'k \<Rightarrow> 'v \<Rightarrow> ('k, 'v) dict" where
  "dict_set [] k v = [(k, v)]"
| "dict_set ((k', v') # d) k v =
     (if k' = k then (k, v) # d else (k', v') # dict_set d k v)"

text \<open>
  The counting idiom of the source,
  \<open>if k in d.keys(): d[k] += 1 else: d[k] = 1\<close>.
\<close>

definition dict_incr :: "('k, nat) dict \<Rightarrow> 'k \<Rightarrow> ('k, nat) dict" where
  "dict_incr d k = dict_set d k (case map_of d k of Some c \<Rightarrow> c + 1 | None \<Rightarrow> 1)"

definition count_dict :: "'k list \<Rightarrow> ('k, nat) dict" where
  "count_dict ks = fold (\<lambda>k d. dict_incr d k) ks []"

text \<open>Keys in order of first occurrence, as a dict built by a loop keeps them.\<close>

definition first_occ :: "'a list \<Rightarrow> 'a list" where
  "first_occ xs = rev (remdups (rev xs))"

text \<open>A dict comprehension \<open>{k: v for (k, v) in xs}\<close>: later pairs overwrite.\<close>

definition dict_of :: "('k \<times> 'v) list \<Rightarrow> ('k, 'v) dict" where
  "dict_of xs = fold (\<lambda>(k, v) d. dict_set d k v) xs []"

lemma py_map_Inr:
  "\<forall>x \<in> set xs. f x = Inr (g x) \<Longrightarrow> py_map f xs = Inr (map g xs)"
  by (induction xs) auto

lemma py_map_Inl:
  "x \<in> set xs \<Longrightarrow> f x = Inl e \<Longrightarrow> \<exists>e'. py_map f xs = Inl e'"
  by (induction xs) (auto split: sum.splits)

lemma py_map_length:
  "py_map f xs = Inr ys \<Longrightarrow> length ys = length xs"
proof (induction xs arbitrary: ys)
  case (Cons x xs)
  then show ?case by (cases "f x"; cases "py_map f xs") auto
qed simp

lemma map_of_dict_set [simp]: "map_of (dict_set d k v) = (map_of d)(k \<mapsto> v)"
  by (induction d) (auto simp: fun_eq_iff)

lemma keys_dict_set:
  "map fst (dict_set d k v) = (if k \<in> set (map fst d) then map fst d else map fst d @ [k])"
  by (induction d) (auto simp: rev_image_eqI)

lemma distinct_dict_set [simp]:
  "distinct (map fst d) \<Longrightarrow> distinct (map fst (dict_set d k v))"
  by (simp add: keys_dict_set)

lemma map_of_count_dict_gen:
  "map_of (fold (\<lambda>k d. dict_incr d k) ks d) k =
     (case map_of d k of
        None \<Rightarrow> (if k \<in> set ks then Some (count_list ks k) else None)
      | Some c \<Rightarrow> Some (c + count_list ks k))"
  by (induction ks arbitrary: d) (auto simp: dict_incr_def split: option.splits)

lemma map_of_count_dict:
  "map_of (count_dict ks) k = (if k \<in> set ks then Some (count_list ks k) else None)"
  by (simp add: count_dict_def map_of_count_dict_gen)

lemma keys_count_dict: "map fst (count_dict ks) = first_occ ks"
proof (induction ks rule: rev_induct)
  case Nil
  show ?case by (simp add: count_dict_def first_occ_def)
next
  case (snoc x xs)
  have "set (map fst (count_dict xs)) = set xs"
    using snoc.IH by (simp add: first_occ_def)
  with snoc.IH show ?case
    by (simp add: count_dict_def dict_incr_def keys_dict_set first_occ_def)
qed

lemma distinct_first_occ [simp]: "distinct (first_occ xs)"
  by (simp add: first_occ_def)

lemma set_first_occ [simp]: "set (first_occ xs) = set xs"
  by (simp add: first_occ_def)

lemma map_of_map_key_fun:
  "i \<in> fst ` set xs \<Longrightarrow> map_of (map (\<lambda>(k, v). (k, g k)) xs) i = Some (g i)"
  by (induction xs) auto

lemma dict_as_map_keys:
  assumes "distinct (map fst d)"
  shows "d = map (\<lambda>k. (k, the (map_of d k))) (map fst d)"
proof -
  have "map (\<lambda>p. (fst p, the (map_of d (fst p)))) d = d"
    by (rule map_idI) (auto simp: map_of_is_SomeI [OF assms])
  then show ?thesis by (simp add: comp_def)
qed

lemma count_dict_eq_map: "count_dict ks = map (\<lambda>k. (k, count_list ks k)) (first_occ ks)"
proof -
  have "distinct (map fst (count_dict ks))" by (simp add: keys_count_dict)
  then have "count_dict ks = map (\<lambda>k. (k, the (map_of (count_dict ks) k))) (first_occ ks)"
    by (subst dict_as_map_keys) (simp_all add: keys_count_dict)
  then show ?thesis by (simp add: map_of_count_dict)
qed

lemma dict_set_fresh: "k \<notin> set (map fst d) \<Longrightarrow> dict_set d k v = d @ [(k, v)]"
  by (induction d) auto

lemma fold_dict_set_fresh:
  "distinct (map fst xs) \<Longrightarrow> set (map fst xs) \<inter> set (map fst d) = {} \<Longrightarrow>
   fold (\<lambda>(k, v) d. dict_set d k v) xs d = d @ xs"
proof (induction xs arbitrary: d)
  case Nil
  then show ?case by simp
next
  case (Cons p xs)
  then show ?case by (cases p) (auto simp: dict_set_fresh)
qed

lemma dict_of_distinct: "distinct (map fst xs) \<Longrightarrow> dict_of xs = xs"
  using fold_dict_set_fresh [of xs "[]"] by (simp add: dict_of_def)

lemma keys_set_dict_set [simp]: "fst ` set (dict_set d k v) = insert k (fst ` set d)"
proof -
  have "set (map fst (dict_set d k v)) = insert k (set (map fst d))"
    by (simp only: keys_dict_set) auto
  then show ?thesis by simp
qed

lemma keys_fold_dict_set:
  "set (map fst (fold (\<lambda>(k, v) d. dict_set d k v) xs d)) = set (map fst d) \<union> set (map fst xs)"
proof (induction xs arbitrary: d)
  case Nil
  then show ?case by simp
next
  case (Cons p xs)
  then show ?case by (cases p) auto
qed

lemma keys_dict_of: "fst ` set (dict_of xs) = fst ` set xs"
  using keys_fold_dict_set [of xs "[]"] by (simp add: dict_of_def)

end
