(* ===== verification/Py_Decimal.thy ===== *)
theory Py_Decimal
  imports Py_Prelude
begin

text \<open>
  Numbers as the CSV fields and the reports write them: \<open>str.isdigit\<close>,
  \<open>int()\<close> and \<open>str()\<close> on decimal strings with their round trip, \<open>float()\<close>
  on decimal strings as rationals, truncation, \<open>max\<close> of a possibly empty
  sequence and the round-half-to-even \<open>round\<close>.
\<close>

text \<open>
  The CSV reader hands every field over as a string. \<open>int(s)\<close> is modelled on an
  optional sign followed by ASCII digits (\<open>None\<close> is the \<open>ValueError\<close>); the
  whitespace and digit separators that CPython also accepts do not occur in the
  dataset's numeric columns.
\<close>

definition ascii_digit :: "char \<Rightarrow> bool" where
  [py_defs]: "ascii_digit c \<longleftrightarrow> (48::nat) \<le> of_char c \<and> of_char c \<le> (57::nat)"

definition digit_of :: "char \<Rightarrow> nat" where
  [py_defs]: "digit_of c = of_char c - (48::nat)"

definition digit_char :: "nat \<Rightarrow> char" where
  [py_defs]: "digit_char d = char_of (48 + d)"

definition py_isdigit :: "string \<Rightarrow> bool" where
  [py_defs]: "py_isdigit s \<longleftrightarrow> s \<noteq> [] \<and> list_all ascii_digit s"

fun digits_acc :: "nat \<Rightarrow> string \<Rightarrow> nat" where
  "digits_acc acc [] = acc"
| "digits_acc acc (c # cs) = digits_acc (10 * acc + digit_of c) cs"

definition parse_nat :: "string \<Rightarrow> nat option" where
  [py_defs]: "parse_nat s = (if py_isdigit s then Some (digits_acc 0 s) else None)"

definition py_int :: "string \<Rightarrow> int option" where
  [py_defs]: "py_int s =
     (if s \<noteq> [] \<and> hd s = CHR ''-'' then map_option (\<lambda>n. - int n) (parse_nat (tl s))
      else if s \<noteq> [] \<and> hd s = CHR ''+'' then map_option int (parse_nat (tl s))
      else map_option int (parse_nat s))"

fun nat_str :: "nat \<Rightarrow> string" where
  "nat_str n = (if n < 10 then [digit_char n] else nat_str (n div 10) @ [digit_char (n mod 10)])"

definition int_str :: "int \<Rightarrow> string" where
  [py_defs]: "int_str i = (if i < 0 then CHR ''-'' # nat_str (nat (- i)) else nat_str (nat i))"

text \<open>
  A field is canonical when it is what \<open>str()\<close> prints for the integer
  \<open>int()\<close> reads from it: no leading zeros, no \<open>+\<close>, no \<open>-0\<close>.
\<close>

definition canonical_int :: "string \<Rightarrow> bool" where
  [py_defs]: "canonical_int s \<longleftrightarrow> (case py_int s of Some i \<Rightarrow> int_str i = s | None \<Rightarrow> False)"

text \<open>
  \<open>float(s)\<close> on the decimal fields of the dataset (\<open>25\<close>, \<open>12.5\<close>,
  \<open>-3\<close>), as the exact rational the text denotes: an optional minus sign,
  digits, and an optional dot followed by digits. The floats the program computes
  with are the nearest doubles; for these short decimals order and equality
  agree. \<open>int(x)\<close> on a float truncates towards zero.
\<close>

definition parse_decimal :: "string \<Rightarrow> rat option" where
  [py_defs]: "parse_decimal s =
     (let ip = takeWhile (\<lambda>c. c \<noteq> CHR ''.'') s; rest = dropWhile (\<lambda>c. c \<noteq> CHR ''.'') s in
      case rest of
        [] \<Rightarrow> map_option of_nat (parse_nat ip)
      | _ # fr \<Rightarrow> (case (parse_nat ip, parse_nat fr) of
                     (Some a, Some b) \<Rightarrow> Some (of_nat a + of_nat b / 10 ^ length fr)
                   | _ \<Rightarrow> None))"

definition py_float :: "string \<Rightarrow> rat option" where
  [py_defs]: "py_float s =
     (if s \<noteq> [] \<and> hd s = CHR ''-'' then map_option uminus (parse_decimal (tl s))
      else parse_decimal s)"

definition py_trunc :: "rat \<Rightarrow> int" where
  [py_defs]: "py_trunc x = (if 0 \<le> x then \<lfloor>x\<rfloor> else \<lceil>x\<rceil>)"

text \<open>\<open>max(xs)\<close> raises \<open>ValueError\<close> on an empty sequence.\<close>

fun py_max :: "'a::linorder list \<Rightarrow> 'a py_result" where
  "py_max [] = Inl ValueError"
| "py_max (x # xs) = Inr (fold max xs x)"

text \<open>
  \<open>round(x)\<close> rounds half to even. Floating-point means are modelled exactly, as
  rationals; they differ from the floats only beyond the precision the data uses.
\<close>

definition py_round :: "rat \<Rightarrow> int" where
  [py_defs]: "py_round x =
     (let f = \<lfloor>x\<rfloor>; d = x - of_int f in
      if d < 1/2 then f else if 1/2 < d then f + 1 else if even f then f else f + 1)"

text \<open>\<open>round(x, 2)\<close>.\<close>

definition py_round2 :: "rat \<Rightarrow> rat" where
  [py_defs]: "py_round2 x = of_int (py_round (x * 100)) / 100"

declare nat_str.simps [simp del]

lemma digits_acc_append: "digits_acc acc (xs @ ys) = digits_acc (digits_acc acc xs) ys"
  by (induction xs arbitrary: acc) auto

lemma digit_char_props:
  assumes "d < 10"
  shows "digit_of (digit_char d) = d" and "ascii_digit (digit_char d)"
  using assms by (simp_all add: digit_of_def digit_char_def ascii_digit_def)

lemma nat_str_Cons: "\<exists>c cs. nat_str n = c # cs \<and> ascii_digit c"
proof (induction n rule: nat_str.induct)
  case (1 n)
  then show ?case
    by (cases "n < 10") (auto simp: nat_str.simps [of n] digit_char_props)
qed

lemma nat_str_digits: "list_all ascii_digit (nat_str n)"
proof (induction n rule: nat_str.induct)
  case (1 n)
  then show ?case
    by (cases "n < 10") (auto simp: nat_str.simps [of n] digit_char_props)
qed

lemma digits_acc_nat_str: "digits_acc acc (nat_str n) = acc * 10 ^ length (nat_str n) + n"
proof (induction n arbitrary: acc rule: nat_str.induct)
  case (1 n)
  show ?case
  proof (cases "n < 10")
    case True
    then show ?thesis by (simp add: nat_str.simps [of n] digit_char_props)
  next
    case False
    then have "digits_acc acc (nat_str n)
        = 10 * (acc * 10 ^ length (nat_str (n div 10)) + n div 10) + n mod 10"
      using "1.IH" by (simp add: nat_str.simps [of n] digits_acc_append digit_char_props)
    also have "\<dots> = acc * 10 ^ length (nat_str n) + n"
      using False by (simp add: nat_str.simps [of n] algebra_simps)
    finally show ?thesis .
  qed
qed

lemma parse_nat_str [simp]: "parse_nat (nat_str n) = Some n"
proof -
  have "nat_str n \<noteq> []" using nat_str_Cons [of n] by auto
  moreover have "digits_acc 0 (nat_str n) = n" by (simp add: digits_acc_nat_str)
  ultimately show ?thesis
    by (simp add: parse_nat_def py_isdigit_def nat_str_digits)
qed

lemma py_int_nat_str [simp]: "py_int (nat_str n) = Some (int n)"
proof -
  obtain c cs where ncs: "nat_str n = c # cs" and "ascii_digit c" using nat_str_Cons by blast
  then have "c \<noteq> CHR ''-''" and "c \<noteq> CHR ''+''" by (auto simp: ascii_digit_def)
  with ncs show ?thesis using parse_nat_str [of n] by (simp add: py_int_def)
qed

lemma py_int_str [simp]: "py_int (int_str i) = Some i"
proof (cases "i < 0")
  case True
  then show ?thesis by (simp add: int_str_def py_int_def)
next
  case False
  then show ?thesis by (simp add: int_str_def)
qed

lemma canonical_int_str [simp]: "canonical_int (int_str i)"
  by (simp add: canonical_int_def)

lemma canonical_int_inj:
  "canonical_int s \<Longrightarrow> canonical_int t \<Longrightarrow> py_int s = py_int t \<Longrightarrow> s = t"
  by (auto simp: canonical_int_def split: option.splits)

lemma canonical_int_iff:
  assumes "canonical_int s"
  shows "py_int s = Some i \<longleftrightarrow> s = int_str i"
proof
  assume "py_int s = Some i"
  with assms show "s = int_str i" by (simp add: canonical_int_def)
next
  assume "s = int_str i"
  then show "py_int s = Some i" by simp
qed

lemma canonical_int_Some: "canonical_int s \<Longrightarrow> py_int s \<noteq> None"
  by (auto simp: canonical_int_def split: option.splits)

lemma canonical_int_the_inj: "inj_on (\<lambda>s. the (py_int s)) {s. canonical_int s}"
proof (rule inj_onI)
  fix s t
  assume "s \<in> {s. canonical_int s}" "t \<in> {s. canonical_int s}"
    and "the (py_int s) = the (py_int t)"
  then show "s = t"
    using canonical_int_Some canonical_int_inj by (metis mem_Collect_eq option.expand)
qed

lemma canonical_int_eq_lit:
  "canonical_int s \<Longrightarrow> py_int s = Some i \<longleftrightarrow> s = int_str i"
  by (rule canonical_int_iff)

lemma int_str_one [simp]: "int_str 1 = ''1''"
  by code_simp

lemma parse_decimal_nat_str [simp]: "parse_decimal (nat_str n) = Some (of_nat n)"
proof -
  have "\<forall>c \<in> set (nat_str n). c \<noteq> CHR ''.''"
    using nat_str_digits [of n] by (auto simp: list_all_iff ascii_digit_def)
  then have tw: "takeWhile (\<lambda>c. c \<noteq> CHR ''.'') (nat_str n) = nat_str n"
    and dw: "dropWhile (\<lambda>c. c \<noteq> CHR ''.'') (nat_str n) = []"
    by (simp_all add: takeWhile_eq_all_conv dropWhile_eq_Nil_conv)
  show ?thesis unfolding parse_decimal_def Let_def tw dw by simp
qed

lemma py_max_Inr: "py_max xs = Inr m \<longleftrightarrow> xs \<noteq> [] \<and> m = Max (set xs)"
  by (cases xs) (auto simp: Max.set_eq_fold [symmetric])

lemma py_round_error: "\<bar>x - of_int (py_round x)\<bar> \<le> 1/2"
proof -
  have "of_int \<lfloor>x\<rfloor> \<le> x" "x < of_int \<lfloor>x\<rfloor> + 1" by linarith+
  then show ?thesis by (auto simp: py_round_def Let_def abs_if; linarith)
qed

lemma py_round_of_int [simp]: "py_round (of_int i) = i"
  by (simp add: py_round_def)

text \<open>Rounding stays within any integer bounds of its argument.\<close>

lemma py_round_lower: "of_int a \<le> x \<Longrightarrow> a \<le> py_round x"
proof -
  assume "of_int a \<le> x"
  then have "a \<le> \<lfloor>x\<rfloor>" by (simp add: le_floor_iff)
  then show ?thesis by (auto simp: py_round_def Let_def)
qed

lemma py_round_upper: "x \<le> of_int b \<Longrightarrow> py_round x \<le> b"
proof -
  assume b: "x \<le> of_int b"
  have f: "of_int \<lfloor>x\<rfloor> \<le> x" "x < of_int \<lfloor>x\<rfloor> + 1" by linarith+
  with b have "\<lfloor>x\<rfloor> \<le> b" by linarith
  moreover have "\<lfloor>x\<rfloor> + 1 \<le> b" if "0 < x - of_int \<lfloor>x\<rfloor>"
  proof -
    from that have "of_int \<lfloor>x\<rfloor> < (of_int b :: rat)" using b by linarith
    then show ?thesis by linarith
  qed
  ultimately show ?thesis by (auto simp: py_round_def Let_def)
qed

text \<open>The mean of integers lies between their minimum and maximum.\<close>

lemma sum_list_lower:
  "\<forall>g \<in> set gs. a \<le> g \<Longrightarrow> of_nat (length gs) * a \<le> sum_list (gs :: int list)"
  by (induction gs) (auto simp: algebra_simps intro: add_mono)

lemma sum_list_upper:
  "\<forall>g \<in> set gs. g \<le> b \<Longrightarrow> sum_list (gs :: int list) \<le> of_nat (length gs) * b"
  by (induction gs) (auto simp: algebra_simps intro: add_mono)

lemma mean_bounds:
  fixes gs :: "int list"
  assumes "gs \<noteq> []"
  shows "of_int (Min (set gs)) \<le> (of_int (sum_list gs) / of_nat (length gs) :: rat)"
    and "(of_int (sum_list gs) / of_nat (length gs) :: rat) \<le> of_int (Max (set gs))"
proof -
  have n: "(0 :: rat) < of_nat (length gs)" using assms by simp
  have "of_nat (length gs) * Min (set gs) \<le> sum_list gs"
    using assms by (intro sum_list_lower) simp
  then have "of_nat (length gs) * (of_int (Min (set gs)) :: rat) \<le> of_int (sum_list gs)"
    by (metis of_int_le_iff of_int_mult of_int_of_nat_eq)
  then show "of_int (Min (set gs)) \<le> (of_int (sum_list gs) / of_nat (length gs) :: rat)"
    using n by (simp add: le_divide_eq mult.commute)
  have "sum_list gs \<le> of_nat (length gs) * Max (set gs)"
    using assms by (intro sum_list_upper) simp
  then have "of_int (sum_list gs) \<le> of_nat (length gs) * (of_int (Max (set gs)) :: rat)"
    by (metis of_int_le_iff of_int_mult of_int_of_nat_eq)
  then show "(of_int (sum_list gs) / of_nat (length gs) :: rat) \<le> of_int (Max (set gs))"
    using n by (simp add: divide_le_eq mult.commute)
qed

text \<open>Round half to even is monotone, and so is rounding to two decimals.\<close>

lemma py_round_mono:
  assumes "x \<le> y"
  shows "py_round x \<le> py_round y"
proof (cases "\<lfloor>x\<rfloor> < \<lfloor>y\<rfloor>")
  case True
  have "py_round x \<le> \<lfloor>x\<rfloor> + 1" "\<lfloor>y\<rfloor> \<le> py_round y"
    by (auto simp: py_round_def Let_def)
  with True show ?thesis by linarith
next
  case False
  with assms have f: "\<lfloor>x\<rfloor> = \<lfloor>y\<rfloor>" by (meson floor_mono le_less not_less)
  then have "x - of_int \<lfloor>x\<rfloor> \<le> y - of_int \<lfloor>y\<rfloor>" using assms by simp
  with f show ?thesis by (auto simp: py_round_def Let_def)
qed

lemma py_round2_mono: "x \<le> y \<Longrightarrow> py_round2 x \<le> py_round2 y"
  by (simp add: py_round2_def divide_right_mono py_round_mono)

text \<open>Evaluating \<open>round\<close> on a quotient of numerals by \<open>simp\<close>.\<close>

lemma floor_numeral_div [simp]: "\<lfloor>(numeral a / numeral b :: rat)\<rfloor> = numeral a div numeral b"
  using floor_divide_of_int_eq [of "numeral a" "numeral b", where 'a = rat] by simp

end
