(* ===== verification/F1_Tables.thy ===== *)
theory F1_Tables
  imports Py_Decimal
begin

text \<open>
  The tabular store. \<open>parse_csv\<close> (src/src/parsers/parse_csv.py) returns every CSV
  file as a list of rows, one \<open>dict\<close> from column name to string per line, in file
  order; \<open>pd.read_csv\<close> reads the same files. A row is a record with the columns
  the analysis code reads, every field the string the file holds; the pandas
  queries convert a numeric column with \<open>py_int\<close> where they use it. The whole
  dataset is the record \<open>f1_db\<close>, one list per file under \<open>./data/\<close>. It never
  changes while a query runs: every query is a function of it.
\<close>

record driver_row =
  driverId :: string
  forename :: string
  surname :: string
  nationality :: string

record result_row =
  res_raceId :: string
  res_driverId :: string
  res_constructorId :: string
  grid :: string
  position :: string         \<comment> \<open>\<open>\N\<close> when the driver was not classified\<close>
  positionOrder :: string
  res_statusId :: string

record race_row =
  raceId :: string
  year :: string
  race_round :: string       \<comment> \<open>the CSV column \<open>round\<close>\<close>
  race_circuitId :: string

record driver_standing_row =
  ds_raceId :: string
  ds_driverId :: string
  points :: string

record constructor_standing_row =
  cs_raceId :: string
  cs_constructorId :: string
  cs_position :: string

record constructor_row =
  constructorId :: string
  constructor_name :: string

record circuit_row =
  circuitId :: string
  circuit_name :: string
  country :: string

record status_row =
  statusId :: string
  status :: string

record pit_stop_row =
  ps_driverId :: string
  ps_milliseconds :: string

record lap_time_row =
  lt_driverId :: string
  lt_milliseconds :: string

record qualifying_row =
  q_driverId :: string
  q1 :: string
  q2 :: string
  q3 :: string

record f1_db =
  drivers :: "driver_row list"
  results :: "result_row list"
  races :: "race_row list"
  driver_standings :: "driver_standing_row list"
  constructor_standings :: "constructor_standing_row list"
  constructors :: "constructor_row list"
  circuits :: "circuit_row list"
  statuses :: "status_row list"
  pit_stops :: "pit_stop_row list"
  lap_times :: "lap_time_row list"
  qualifying :: "qualifying_row list"

text \<open>
  \<open>f"{forename} {surname}"\<close> and \<open>forename + ' ' + surname\<close>: the display name both
  strategies build.
\<close>

definition full_name :: "driver_row \<Rightarrow> string" where
  "full_name d = forename d @ '' '' @ surname d"

text \<open>The driver row with a given id, the first one when the file repeats an id.\<close>

definition driver_by_id :: "driver_row list \<Rightarrow> string \<Rightarrow> driver_row option" where
  "driver_by_id ds i = find (\<lambda>d. driverId d = i) ds"

text \<open>
  Under distinct ids, the last row with an id and the first are the same row:
  what a loop that overwrites and a lookup that stops at the first match find.
\<close>

lemma filter_id_distinct:
  assumes "distinct (map driverId ds)"
  shows "filter (\<lambda>d. driverId d = i) ds = (case driver_by_id ds i of None \<Rightarrow> [] | Some d \<Rightarrow> [d])"
  using assms
proof (induction ds)
  case Nil
  then show ?case by (simp add: driver_by_id_def)
next
  case (Cons d ds)
  show ?case
  proof (cases "driverId d = i")
    case True
    with Cons.prems have "filter (\<lambda>d. driverId d = i) ds = []"
      by (auto simp: filter_empty_conv image_iff)
    with True show ?thesis by (simp add: driver_by_id_def)
  next
    case False
    with Cons show ?thesis by (simp add: driver_by_id_def)
  qed
qed

lemma last_match_distinct:
  assumes "distinct (map driverId ds)"
  shows "(if filter (\<lambda>d. driverId d = i) ds = [] then None
          else Some (full_name (last (filter (\<lambda>d. driverId d = i) ds))))
         = map_option full_name (driver_by_id ds i)"
  by (simp add: filter_id_distinct [OF assms] split: option.splits)

lemma driver_by_id_present:
  "i \<in> set (map driverId ds) \<Longrightarrow> \<exists>d. driver_by_id ds i = Some d \<and> d \<in> set ds \<and> driverId d = i"
  by (induction ds) (auto simp: driver_by_id_def)

lemma names_by_id_distinct:
  assumes "distinct (map full_name ds)" "distinct is" "set is \<subseteq> set (map driverId ds)"
  shows "distinct (map (\<lambda>i. map_option full_name (driver_by_id ds i)) is)"
proof -
  have "inj_on full_name (set ds)" using assms(1) by (simp add: distinct_map)
  have "inj_on (\<lambda>i. map_option full_name (driver_by_id ds i)) (set is)"
  proof (rule inj_onI)
    fix i j
    assume i: "i \<in> set is" and j: "j \<in> set is"
      and eq: "map_option full_name (driver_by_id ds i) = map_option full_name (driver_by_id ds j)"
    obtain di where di: "driver_by_id ds i = Some di" "di \<in> set ds" "driverId di = i"
      using i assms(3) driver_by_id_present by blast
    obtain dj where dj: "driver_by_id ds j = Some dj" "dj \<in> set ds" "driverId dj = j"
      using j assms(3) driver_by_id_present by blast
    from eq di dj have "full_name di = full_name dj" by simp
    with \<open>inj_on full_name (set ds)\<close> di dj have "di = dj" by (simp add: inj_on_eq_iff)
    with di dj show "i = j" by simp
  qed
  with assms(2) show ?thesis by (simp add: distinct_map)
qed

text \<open>
  pandas matches the integer \<open>driverId\<close> column; on canonical fields that is the
  string match of the iterative code.
\<close>

lemma py_int_match_canonical:
  assumes "canonical_int s" "canonical_int i"
  shows "py_int s = Some (the (py_int i)) \<longleftrightarrow> s = i"
proof
  assume "py_int s = Some (the (py_int i))"
  moreover have "py_int i = Some (the (py_int i))" using assms(2) canonical_int_Some by auto
  ultimately show "s = i" using assms canonical_int_inj by metis
next
  assume "s = i"
  then show "py_int s = Some (the (py_int i))" using assms(2) canonical_int_Some by auto
qed

lemma filter_py_id_canonical:
  assumes "\<forall>d \<in> set ds. canonical_int (driverId d)" "distinct (map driverId ds)"
    and "canonical_int i" "i \<in> set (map driverId ds)"
  shows "filter (\<lambda>dr. py_int (driverId dr) = Some (the (py_int i))) ds = [the (driver_by_id ds i)]"
proof -
  have "filter (\<lambda>dr. py_int (driverId dr) = Some (the (py_int i))) ds = filter (\<lambda>dr. driverId dr = i) ds"
    using assms(1,3) py_int_match_canonical by (auto intro: filter_cong)
  also have "\<dots> = [the (driver_by_id ds i)]"
    using driver_by_id_present [OF assms(4)] by (auto simp: filter_id_distinct [OF assms(2)])
  finally show ?thesis .
qed

end
