(* ===== verification/Py_Sort.thy ===== *)
theory Py_Sort
  imports Py_Prelude
begin

text \<open>
  \<open>sorted(xs, key=f, reverse=True)\<close> as the stable descending sort
  \<open>sorted_desc\<close>, with its permutation, order and stability lemmas, its
  decorate-sort-undecorate code equation, and \<open>enumerate(xs, 1)\<close>.
\<close>

text \<open>
  CPython sorts with \<open>reverse=True\<close> by reversing, sorting stably and reversing
  back, so that items with equal keys keep their original order. The same
  definition serves pandas' \<open>sort_values(ascending=False)\<close> and
  \<open>value_counts()\<close>, taken with a stable sort kind.
\<close>

definition sorted_desc :: "('a \<Rightarrow> 'k::linorder) \<Rightarrow> 'a list \<Rightarrow> 'a list" where
  [py_defs]: "sorted_desc f xs = rev (sort_key f (rev xs))"

abbreviation desc_by :: "('a \<Rightarrow> 'k::linorder) \<Rightarrow> 'a list \<Rightarrow> bool" where
  "desc_by f xs \<equiv> sorted_wrt (\<lambda>a b. f b \<le> f a) xs"

lemma mset_sorted_desc [simp]: "mset (sorted_desc f xs) = mset xs"
  by (simp add: sorted_desc_def)

lemma set_sorted_desc [simp]: "set (sorted_desc f xs) = set xs"
  by (simp add: sorted_desc_def)

lemma length_sorted_desc [simp]: "length (sorted_desc f xs) = length xs"
  by (simp add: sorted_desc_def)

lemma sorted_desc_sorted: "desc_by f (sorted_desc f xs)"
proof -
  have "sorted_wrt (\<le>) (map f (sort_key f (rev xs)))"
    using sorted_sort_key [of f "rev xs"] by simp
  then show ?thesis
    by (simp add: sorted_desc_def sorted_wrt_rev sorted_wrt_map)
qed

lemma sorted_desc_stable:
  "filter (\<lambda>y. f y = k) (sorted_desc f xs) = filter (\<lambda>y. f y = k) xs"
  by (simp add: sorted_desc_def sort_key_stable flip: rev_filter)

lemma sorted_desc_id: "desc_by f xs \<Longrightarrow> sorted_desc f xs = xs"
  by (simp add: sorted_desc_def sort_key_id_if_sorted sorted_wrt_rev sorted_wrt_map)

lemma sorted_desc_idem [simp]: "sorted_desc f (sorted_desc f xs) = sorted_desc f xs"
  by (rule sorted_desc_id [OF sorted_desc_sorted])

text \<open>
  Evaluation computes every key once: sorting the pairs \<open>(f x, x)\<close> by their first
  component and dropping the keys is the same sort (decorate, sort, undecorate).
  This is the code equation of \<open>sorted_desc\<close>.
\<close>

lemma insort_key_decorated:
  "\<forall>z \<in> set zs. fst z = f (snd z) \<Longrightarrow>
   map snd (insort_key fst (f x, x) zs) = insort_key f x (map snd zs)"
  by (induction zs) auto

lemma sort_key_decorated: "sort_key f xs = map snd (sort_key fst (map (\<lambda>x. (f x, x)) xs))"
proof (induction xs)
  case Nil
  then show ?case by simp
next
  case (Cons x xs)
  have "\<forall>z \<in> set (sort_key fst (map (\<lambda>x. (f x, x)) xs)). fst z = f (snd z)" by auto
  then show ?case using Cons by (simp add: insort_key_decorated)
qed

lemma sorted_desc_code [code]:
  "sorted_desc f xs = map snd (rev (sort_key fst (rev (map (\<lambda>x. (f x, x)) xs))))"
  by (simp add: sorted_desc_def sort_key_decorated [of f "rev xs"] rev_map)

text \<open>A lexicographic key orders by its first component first.\<close>

lemma prod_le_fst: "(a :: 'a::linorder \<times> 'b::linorder) \<le> b \<Longrightarrow> fst a \<le> fst b"
  by (cases a; cases b) (auto simp: less_eq_prod_def)

lemma desc_by_fst: "desc_by f xs \<Longrightarrow> desc_by (\<lambda>x. fst (f x)) xs"
  by (erule sorted_wrt_mono_rel [rotated]) (simp add: prod_le_fst)

text \<open>\<open>enumerate(xs, 1)\<close>: ranks \<open>1, 2, \<dots>\<close> paired with the items.\<close>

lemma zip_map_fst:
  "length ks = length xs \<Longrightarrow> map fst (map (\<lambda>(k, i). (k, f i)) (zip ks xs)) = ks"
  by (induction ks xs rule: list_induct2) auto

lemma zip_map_snd:
  "length ks = length xs \<Longrightarrow> map snd (map (\<lambda>(k, i). (k, f i)) (zip ks xs)) = map f xs"
  by (induction ks xs rule: list_induct2) auto

lemma enumerate_fst:
  "map fst (map (\<lambda>(k, i). (k, f i)) (zip [1..<Suc (length xs)] xs)) = [1..<Suc (length xs)]"
  by (rule zip_map_fst) (simp only: length_upt diff_Suc_1)

lemma desc_by_enumerate:
  assumes "desc_by g (map f xs)"
  shows "desc_by (\<lambda>p. g (snd p)) (map (\<lambda>(k, i). (k, f i)) (zip [1..<Suc (length xs)] xs))"
proof -
  have "map snd (map (\<lambda>(k, i). (k, f i)) (zip [1..<Suc (length xs)] xs)) = map f xs"
    by (rule zip_map_snd) (simp only: length_upt diff_Suc_1)
  with assms have "desc_by g (map snd (map (\<lambda>(k, i). (k, f i)) (zip [1..<Suc (length xs)] xs)))"
    by simp
  then show ?thesis by (simp only: sorted_wrt_map)
qed

text \<open>\<open>sorted(...)[:n]\<close> and \<open>head(n)\<close>: nothing left out ranks above what is kept.\<close>

lemma take_sorted_desc_top:
  assumes "x \<in> set (take n (sorted_desc f xs))" "y \<in> set xs" "y \<notin> set (take n (sorted_desc f xs))"
  shows "f y \<le> f x"
proof -
  let ?L = "sorted_desc f xs"
  have "y \<in> set (drop n ?L)"
    using assms(2,3) append_take_drop_id [of n ?L] set_append [of "take n ?L" "drop n ?L"]
    by (metis Un_iff set_sorted_desc)
  moreover have "desc_by f (take n ?L @ drop n ?L)"
    unfolding append_take_drop_id by (rule sorted_desc_sorted)
  then have "\<forall>a \<in> set (take n ?L). \<forall>b \<in> set (drop n ?L). f b \<le> f a"
    by (simp only: sorted_wrt_append) blast
  ultimately show ?thesis using assms(1) by blast
qed

text \<open>Renaming the items without changing their keys commutes with the sort.\<close>

lemma insort_key_map: "insort_key f (h x) (map h xs) = map h (insort_key (\<lambda>y. f (h y)) x xs)"
  by (induction xs) auto

lemma sort_key_map: "sort_key f (map h xs) = map h (sort_key (\<lambda>y. f (h y)) xs)"
  by (induction xs) (simp_all add: insort_key_map)

lemma sorted_desc_map:
  "(\<And>x. f (h x) = g x) \<Longrightarrow> sorted_desc f (map h xs) = map h (sorted_desc g xs)"
proof -
  assume fg: "\<And>x. f (h x) = g x"
  have "(\<lambda>y. f (h y)) = g" using fg by (rule ext)
  then show ?thesis by (simp add: sorted_desc_def rev_map sort_key_map)
qed

end
