(* ===== verification/Frames.thy ===== *)
theory Frames
  imports Py_Sort Py_Decimal
begin

text \<open>
  The pandas operations the library strategy composes, on lists of rows:
  \<open>groupby(key).size()\<close> (groups in ascending key order), \<open>value_counts()\<close> (counts
  in descending order, ties in order of first occurrence), an inner \<open>merge\<close>
  (left row order, then right row order) and the numeric reading of a column
  (\<open>read_csv\<close> parses an integer column; a cell that does not parse is a missing
  value, which \<open>groupby\<close> and \<open>value_counts\<close> drop). The lemmas relate them to the
  dictionary idioms of the iterative strategy.
\<close>

definition pd_keys :: "('r \<Rightarrow> string) \<Rightarrow> 'r list \<Rightarrow> int list" where
  [py_defs]: "pd_keys f rs = List.map_filter (\<lambda>r. py_int (f r)) rs"

definition group_size :: "'k::linorder list \<Rightarrow> ('k \<times> nat) list" where
  [py_defs]: "group_size ks = map (\<lambda>k. (k, count_list ks k)) (sort (remdups ks))"

definition value_counts :: "'k list \<Rightarrow> ('k \<times> nat) list" where
  [py_defs]: "value_counts ks = sorted_desc snd (count_dict ks)"

definition merge_inner :: "('a \<Rightarrow> 'k) \<Rightarrow> ('b \<Rightarrow> 'k) \<Rightarrow> 'a list \<Rightarrow> 'b list \<Rightarrow> ('a \<times> 'b) list" where
  [py_defs]: "merge_inner f g xs ys = concat (map (\<lambda>x. map (\<lambda>y. (x, y)) (filter (\<lambda>y. g y = f x) ys)) xs)"

text \<open>A left \<open>merge\<close>: every left row, with each matching right row or with none.\<close>

definition merge_left :: "('a \<Rightarrow> 'k) \<Rightarrow> ('b \<Rightarrow> 'k) \<Rightarrow> 'a list \<Rightarrow> 'b list \<Rightarrow> ('a \<times> 'b option) list" where
  [py_defs]: "merge_left f g xs ys =
     concat (map (\<lambda>x. case filter (\<lambda>y. g y = f x) ys of
                        [] \<Rightarrow> [(x, None)]
                      | ms \<Rightarrow> map (\<lambda>y. (x, Some y)) ms) xs)"

text \<open>
  \<open>Series.mean()\<close>, \<open>min()\<close>, \<open>max()\<close> over the cells that parsed: NaN (\<open>None\<close>) for no
  cell. The mean is the exact rational.
\<close>

definition pd_mean :: "int list \<Rightarrow> rat option" where
  "pd_mean xs = (if xs = [] then None else Some (of_int (sum_list xs) / of_nat (length xs)))"

definition pd_min :: "int list \<Rightarrow> int option" where
  "pd_min xs = (if xs = [] then None else Some (Min (set xs)))"

definition pd_max :: "int list \<Rightarrow> int option" where
  "pd_max xs = (if xs = [] then None else Some (Max (set xs)))"

text \<open>\<open>df[df[col].isin(vals)]\<close> on an integer column; a NaN cell is in no list.\<close>

definition pd_isin :: "('r \<Rightarrow> string) \<Rightarrow> 'r list \<Rightarrow> int list \<Rightarrow> 'r list" where
  "pd_isin f rs vals = filter (\<lambda>r. case py_int (f r) of Some i \<Rightarrow> i \<in> set vals | None \<Rightarrow> False) rs"

text \<open>
  The cells \<open>read_csv\<close> reads as NaN in a text column: its default \<open>na_values\<close>
  (the field \<open>\N\<close> of the dataset is not among them).
\<close>

definition pd_na_values :: "string list" where
  "pd_na_values = [[], ''#N/A'', ''#N/A N/A'', ''#NA'', ''-1.#IND'', ''-1.#QNAN'', ''-NaN'', ''-nan'',
                   ''1.#IND'', ''1.#QNAN'', ''<NA>'', ''N/A'', ''NA'', ''NULL'', ''NaN'', ''None'', ''n/a'',
                   ''nan'', ''null'']"

definition pd_str :: "string \<Rightarrow> string option" where
  "pd_str s = (if s \<in> set pd_na_values then None else Some s)"

text \<open>The values of a text column, NaN cells dropped.\<close>

definition pd_strs :: "('r \<Rightarrow> string) \<Rightarrow> 'r list \<Rightarrow> string list" where
  "pd_strs f rs = List.map_filter (\<lambda>r. pd_str (f r)) rs"

text \<open>\<open>head(n)\<close>: the first \<open>n\<close> rows; a negative \<open>n\<close> drops the last \<open>-n\<close> rows.\<close>

definition pd_head :: "int \<Rightarrow> 'a list \<Rightarrow> 'a list" where
  "pd_head n xs = (if 0 \<le> n then take (nat n) xs else take (length xs - nat (- n)) xs)"

lemma find_filter_Cons: "filter P ys = y # zs \<Longrightarrow> find P ys = Some y"
  by (induction ys) (auto split: if_splits)

lemma merge_left_unique:
  assumes "\<forall>x \<in> set xs. length (filter (\<lambda>y. g y = f x) ys) \<le> 1"
  shows "merge_left f g xs ys = map (\<lambda>x. (x, find (\<lambda>y. g y = f x) ys)) xs"
  using assms
proof (induction xs)
  case Nil
  then show ?case by (simp add: merge_left_def)
next
  case (Cons x xs)
  show ?case
  proof (cases "filter (\<lambda>y. g y = f x) ys")
    case Nil
    then have "find (\<lambda>y. g y = f x) ys = None"
      by (simp add: find_None_iff filter_empty_conv)
    with Nil Cons show ?thesis by (simp add: merge_left_def)
  next
    case (Cons y zs)
    with Cons.prems have "zs = []" by simp
    moreover from Cons have "find (\<lambda>y. g y = f x) ys = Some y"
      by (rule find_filter_Cons)
    ultimately show ?thesis using Cons Cons.IH Cons.prems by (simp add: merge_left_def)
  qed
qed

lemma pd_keys_canonical:
  "\<forall>r \<in> set rs. canonical_int (f r) \<Longrightarrow> pd_keys f rs = map (\<lambda>r. the (py_int (f r))) rs"
proof -
  assume "\<forall>r \<in> set rs. canonical_int (f r)"
  then have "\<forall>r \<in> set rs. \<exists>y. py_int (f r) = Some y"
    using canonical_int_Some by blast
  then show ?thesis by (simp add: pd_keys_def List.map_filter_def comp_def)
qed

lemma mset_group_size_count_dict: "mset (group_size ks) = mset (count_dict ks)"
proof -
  have "mset (sort (remdups ks)) = mset (first_occ ks)"
    by (simp add: set_eq_iff_mset_eq_distinct [symmetric])
  then show ?thesis
    by (simp add: group_size_def count_dict_eq_map)
qed

lemma group_size_keys: "map fst (group_size ks) = sort (remdups ks)"
  by (simp add: group_size_def comp_def)

lemma merge_inner_unique:
  assumes "\<forall>x \<in> set xs. length (filter (\<lambda>y. g y = f x) ys) = 1"
  shows "merge_inner f g xs ys = map (\<lambda>x. (x, hd (filter (\<lambda>y. g y = f x) ys))) xs"
  using assms
proof (induction xs)
  case Nil
  then show ?case by (simp add: merge_inner_def)
next
  case (Cons x xs)
  then obtain y where "filter (\<lambda>y. g y = f x) ys = [y]"
    by (auto simp: length_Suc_conv)
  with Cons show ?case by (simp add: merge_inner_def)
qed

text \<open>Counting commutes with a renaming of the keys that is injective on them.\<close>

lemma remdups_map_inj:
  "inj_on g (set xs) \<Longrightarrow> remdups (map g xs) = map g (remdups xs)"
proof (induction xs)
  case Nil
  then show ?case by simp
next
  case (Cons x xs)
  then have "g x \<in> g ` set xs \<longleftrightarrow> x \<in> set xs" by (auto simp: inj_on_def)
  with Cons show ?case by simp
qed

lemma first_occ_map_inj:
  "inj_on g (set xs) \<Longrightarrow> first_occ (map g xs) = map g (first_occ xs)"
  using remdups_map_inj [of g "rev xs"] by (simp add: first_occ_def rev_map)

lemma count_list_map_inj_gen:
  "inj_on g (insert k (set xs)) \<Longrightarrow> count_list (map g xs) (g k) = count_list xs k"
proof (induction xs)
  case Nil
  then show ?case by simp
next
  case (Cons x xs)
  then have "g x = g k \<longleftrightarrow> x = k" and "inj_on g (insert k (set xs))"
    by (auto simp: inj_on_def)
  with Cons.IH show ?case by simp
qed

lemma count_list_map_inj:
  "inj_on g (set xs) \<Longrightarrow> k \<in> set xs \<Longrightarrow> count_list (map g xs) (g k) = count_list xs k"
  by (simp add: count_list_map_inj_gen insert_absorb)

lemma count_dict_map_inj:
  assumes "inj_on g (set xs)"
  shows "count_dict (map g xs) = map (\<lambda>(k, c). (g k, c)) (count_dict xs)"
proof -
  have "first_occ (map g xs) = map g (first_occ xs)"
    using assms by (rule first_occ_map_inj)
  moreover have "\<forall>k \<in> set (first_occ xs). count_list (map g xs) (g k) = count_list xs k"
    using assms count_list_map_inj by auto
  ultimately show ?thesis
    by (simp add: count_dict_eq_map comp_def)
qed

lemma set_merge_inner:
  "set (merge_inner f g xs ys) = {(x, y). x \<in> set xs \<and> y \<in> set ys \<and> g y = f x}"
  by (auto simp: merge_inner_def)

lemma length_pd_keys: "length (pd_keys f rs) \<le> length rs"
  by (induction rs) (auto simp: pd_keys_def List.map_filter_simps split: option.splits)

lemma group_size_bound: "(k, c) \<in> set (group_size ks) \<Longrightarrow> c \<le> length ks"
  by (auto simp: group_size_def count_le_length)

lemma count_dict_bound: "(k, c) \<in> set (count_dict ks) \<Longrightarrow> c \<le> length ks"
  by (auto simp: count_dict_eq_map count_le_length)

lemma pd_keys_all_parse:
  "list_all (\<lambda>r. py_int (f r) \<noteq> None) rs \<Longrightarrow> pd_keys f rs = map (\<lambda>r. the (py_int (f r))) rs"
  by (induction rs) (auto simp: pd_keys_def List.map_filter_simps)

lemma value_counts_map_inj:
  "inj_on g (set xs) \<Longrightarrow> value_counts (map g xs) = map (\<lambda>(k, c). (g k, c)) (value_counts xs)"
  by (simp add: value_counts_def count_dict_map_inj sorted_desc_map split_def)

lemma distinct_keys_value_counts: "distinct (map fst (value_counts ks))"
proof -
  have "mset (map fst (value_counts ks)) = mset (map fst (count_dict ks))"
    by (simp add: value_counts_def)
  moreover have "distinct (map fst (count_dict ks))" by (simp add: keys_count_dict)
  ultimately show ?thesis by (metis mset_eq_imp_distinct_iff)
qed

text \<open>\<open>value_counts()\<close> counts every value once, in non-increasing order.\<close>

lemma value_counts_count: "(k, c) \<in> set (value_counts ks) \<Longrightarrow> c = count_list ks k"
  by (auto simp: value_counts_def count_dict_eq_map)

lemma keys_value_counts: "fst ` set (value_counts ks) = set ks"
  by (force simp: value_counts_def count_dict_eq_map)

lemma value_counts_desc: "desc_by snd (value_counts ks)"
  by (simp add: value_counts_def sorted_desc_sorted)

lemma sum_count_list_distinct:
  "distinct ds \<Longrightarrow> set ks \<subseteq> set ds \<Longrightarrow> sum_list (map (count_list ks) ds) = length ks"
proof (induction ks arbitrary: ds)
  case Nil
  then show ?case by (simp add: sum_list_eq_0_iff)
next
  case (Cons k ks)
  have "sum_list (map (count_list (k # ks)) ds) = sum_list (map (\<lambda>d. (if k = d then 1 else 0) + count_list ks d) ds)"
    by (intro arg_cong [where f = sum_list] map_cong) auto
  also have "\<dots> = sum_list (map (\<lambda>d. if k = d then 1 else 0) ds) + sum_list (map (count_list ks) ds)"
    by (simp add: sum_list_addf)
  also have "sum_list (map (\<lambda>d. if k = d then 1 else 0) ds) = (1 :: nat)"
    using Cons.prems by (simp add: sum_list_distinct_conv_sum_set)
  finally show ?case using Cons by simp
qed

lemma sum_value_counts: "sum_list (map snd (value_counts ks)) = length ks"
proof -
  have "mset (map snd (value_counts ks)) = mset (map (count_list ks) (first_occ ks))"
    by (simp add: value_counts_def count_dict_eq_map multiset.map_comp comp_def)
  then have "sum_list (map snd (value_counts ks)) = sum_list (map (count_list ks) (first_occ ks))"
    by (metis sum_mset_sum_list)
  also have "\<dots> = length ks" by (rule sum_count_list_distinct) simp_all
  finally show ?thesis .
qed

text \<open>\<open>idxmax()\<close> of the counts: the first key of \<open>value_counts\<close> has the largest count.\<close>

lemma value_counts_Nil_iff: "value_counts ks = [] \<longleftrightarrow> ks = []"
proof -
  have "fst ` set (value_counts ks) = set ks" by (rule keys_value_counts)
  then show ?thesis by auto
qed

lemma hd_value_counts_max:
  assumes "ks \<noteq> []"
  shows "count_list ks m \<le> count_list ks (fst (hd (value_counts ks)))"
proof (cases "m \<in> set ks")
  case True
  obtain k c L where L: "value_counts ks = (k, c) # L"
    using assms by (cases "value_counts ks") (auto simp: value_counts_Nil_iff)
  have "m \<in> fst ` set (value_counts ks)" using True by (simp add: keys_value_counts)
  then obtain c' where m: "(m, c') \<in> set (value_counts ks)" by auto
  then have "c' = count_list ks m" by (rule value_counts_count)
  moreover have "(k, c) \<in> set (value_counts ks)" using L by simp
  then have "c = count_list ks k" by (rule value_counts_count)
  moreover have "c' \<le> c"
    using m value_counts_desc [of ks] L by auto
  ultimately show ?thesis using L by simp
next
  case False
  then show ?thesis by (simp add: count_list_0_iff)
qed

lemma merge_left_Some:
  assumes "(x, Some y) \<in> set (merge_left f g xs ys)"
  shows "x \<in> set xs \<and> y \<in> set ys \<and> g y = f x"
proof -
  obtain x' where x': "x' \<in> set xs"
    and mem: "(x, Some y) \<in> set (case filter (\<lambda>y. g y = f x') ys of
                                  [] \<Rightarrow> [(x', None)] | ms \<Rightarrow> map (\<lambda>y. (x', Some y)) ms)"
    using assms by (auto simp: merge_left_def)
  show ?thesis
  proof (cases "filter (\<lambda>y. g y = f x') ys")
    case Nil
    with mem show ?thesis by simp
  next
    case (Cons z zs)
    with mem have "x = x'" "y \<in> set (filter (\<lambda>y. g y = f x') ys)" by auto
    with x' show ?thesis by simp
  qed
qed

lemma set_map_filter_iff: "y \<in> set (List.map_filter f xs) \<longleftrightarrow> (\<exists>x \<in> set xs. f x = Some y)"
  by (induction xs) (auto simp: List.map_filter_simps split: option.splits)

end
