(* ===== verification/Py_Text.thy ===== *)
theory Py_Text
  imports Py_Prelude
begin

text \<open>
  The \<open>str\<close> methods the reports are laid out with: \<open>ljust\<close>, \<open>rjust\<close>,
  \<open>center\<close> (CPython puts the odd space of the margin on the left when margin
  and width are both odd) and \<open>sep.join\<close>. Strings are byte strings here, so a
  width counts bytes where Python counts code points; the two agree on ASCII
  names.
\<close>

text \<open>
  \<open>str.ljust\<close>, \<open>str.rjust\<close>, \<open>str.center\<close> (CPython puts the odd space of
  the margin on the left when margin and width are both odd) and
  \<open>sep.join(xs)\<close>. Strings are byte strings here, so a width counts bytes where
  Python counts code points; the two agree on ASCII names.
\<close>

definition py_ljust :: "string \<Rightarrow> nat \<Rightarrow> string" where
  [py_defs]: "py_ljust s w = s @ replicate (w - length s) CHR '' ''"

definition py_rjust :: "string \<Rightarrow> nat \<Rightarrow> string" where
  [py_defs]: "py_rjust s w = replicate (w - length s) CHR '' '' @ s"

definition py_center :: "string \<Rightarrow> nat \<Rightarrow> string" where
  [py_defs]: "py_center s w =
     (let marg = w - length s;
          left = marg div 2 + (if odd marg \<and> odd w then 1 else 0)
      in replicate left CHR '' '' @ s @ replicate (marg - left) CHR '' '')"

fun py_join :: "string \<Rightarrow> string list \<Rightarrow> string" where
  "py_join sep [] = []"
| "py_join sep [x] = x"
| "py_join sep (x # y # zs) = x @ sep @ py_join sep (y # zs)"

lemma length_py_ljust [simp]: "length (py_ljust s w) = max w (length s)"
  by (simp add: py_ljust_def)

lemma length_py_rjust [simp]: "length (py_rjust s w) = max w (length s)"
  by (simp add: py_rjust_def)

lemma length_py_center [simp]: "length (py_center s w) = max w (length s)"
proof -
  let ?m = "w - length s"
  have "?m div 2 + (if odd ?m \<and> odd w then 1 else 0) \<le> ?m"
  proof (cases "odd ?m")
    case True
    then have "Suc (?m div 2) \<le> ?m" by presburger
    with True show ?thesis by simp
  qed simp
  then show ?thesis by (simp add: py_center_def Let_def)
qed

end
