(* ===== verification/Report_Format.thy ===== *)
theory Report_Format
  imports Py_Sort Py_Text Py_Decimal
begin

text \<open>
  The text layout of the iterative strategy's reports: \<open>format_dict\<close>, the nested
  function that \<open>at_least_n_races_nopd\<close> (homemade/mandatory1.py) and
  \<open>get_driver_with_most_dnfs_nopd\<close> (homemade/q2.py) both define, the same code
  but for the label of the second column header. Its keys are names or
  \<open>None\<close> (a driver id missing from drivers.csv). It re-sorts the items, measures
  the widest name and count, and joins title, rules, header and rows. The widths
  come from \<open>max\<close> over the dict, so an empty dict raises \<open>ValueError\<close>, and a
  \<open>None\<close> key raises \<open>TypeError\<close> at \<open>len(None)\<close>.
\<close>

definition format_dict ::
  "string \<Rightarrow> (string option, nat) dict \<Rightarrow> string \<Rightarrow> string py_result" where
  "format_dict label dico title =
     (if None \<in> set (map fst dico) then Inl TypeError
      else case py_max (map (\<lambda>(k, v). length (the k)) dico) of
        Inl e \<Rightarrow> Inl e
      | Inr name_max \<Rightarrow>
          (case py_max (map (\<lambda>(k, v). length (nat_str v)) dico) of
            Inl e \<Rightarrow> Inl e
          | Inr count_max \<Rightarrow>
              let sorted_items = sorted_desc snd dico;
                  driver_width = max (length ''Driver'') name_max;
                  wins_width = max (length ''Wins'') count_max;
                  line = replicate (2 * (driver_width + wins_width + 5)) CHR ''-'';
                  header = py_center ''Driver'' driver_width @ replicate 8 CHR '' ''
                           @ py_center label wins_width;
                  rows = map (\<lambda>(name, wins). py_ljust (the name) driver_width
                                 @ replicate 9 CHR '' '' @ py_rjust (nat_str wins) wins_width)
                           sorted_items
              in Inr (py_join ''\<newline>'' ([title, line, header, line] @ rows @ [line]))))"

lemma format_dict_empty: "format_dict label [] title = Inl ValueError"
  by (simp add: format_dict_def)

lemma format_dict_None: "None \<in> fst ` set dico \<Longrightarrow> format_dict label dico title = Inl TypeError"
  by (simp add: format_dict_def)

lemma format_dict_Inr_iff:
  "(\<exists>out. format_dict label dico title = Inr out) \<longleftrightarrow> dico \<noteq> [] \<and> None \<notin> fst ` set dico"
  by (cases dico) (auto simp: format_dict_def Let_def split: sum.splits)

end
