(* ===== verification/Wins.thy ===== *)
theory Wins
  imports F1_Tables Frames Report_Format
begin

text \<open>
  "Which drivers have won at least n races?" in its two strategies:
  \<open>at_least_n_races_nopd\<close> (src/src/analysis/homemade/mandatory1.py), which counts
  the rows of results.csv whose \<open>positionOrder\<close> is the string \<open>'1'\<close> in a dict
  keyed by driver id string, and \<open>at_least_n_races\<close>
  (src/src/analysis/pandas/mandatory1.py), which filters the integer column, groups,
  merges with drivers.csv and sorts. The groups of definitions follow the
  statements of each function; the lemmas relate the two and describe the
  report.
\<close>

section \<open>Iterative strategy\<close>

definition wins_by_driver_nopd :: "result_row list \<Rightarrow> (string, nat) dict" where
  "wins_by_driver_nopd rs =
     count_dict (map res_driverId (filter (\<lambda>line. positionOrder line = ''1'') rs))"

definition more_than_n_nopd :: "(string, nat) dict \<Rightarrow> int \<Rightarrow> (string, nat) dict" where
  "more_than_n_nopd wins_by_driver n = filter (\<lambda>(driver, c). n \<le> int c) wins_by_driver"

text \<open>
  \<open>drivers_fullnames\<close> starts with \<open>None\<close> for every selected id; the double loop
  over drivers.csv and the selected ids writes the name of every matching driver,
  so the last row with that id wins.
\<close>

definition fullnames_nopd ::
  "driver_row list \<Rightarrow> (string, nat) dict \<Rightarrow> (string, string option) dict" where
  "fullnames_nopd ds sel =
     fold (\<lambda>driver names.
             map (\<lambda>(i, v). if driverId driver = i then (i, Some (full_name driver)) else (i, v)) names)
          ds (map (\<lambda>(i, c). (i, None)) sel)"

text \<open>
  The dict comprehension keyed by name, over the items sorted by count: two
  selected drivers with the same full name share one key.
\<close>

definition named_nopd ::
  "(string, string option) dict \<Rightarrow> (string, nat) dict \<Rightarrow> (string option, nat) dict" where
  "named_nopd names sel =
     dict_of (map (\<lambda>(i, c). (case map_of names i of Some v \<Rightarrow> v | None \<Rightarrow> None, c))
                  (sorted_desc snd sel))"

definition winners_nopd :: "f1_db \<Rightarrow> int \<Rightarrow> (string option, nat) dict" where
  "winners_nopd db n =
     (let sel = more_than_n_nopd (wins_by_driver_nopd (results db)) n
      in named_nopd (fullnames_nopd (drivers db) sel) sel)"

definition at_least_n_races_nopd :: "f1_db \<Rightarrow> int \<Rightarrow> string py_result" where
  "at_least_n_races_nopd db n =
     format_dict ''Wins'' (winners_nopd db n)
       (''Drivers who won more than '' @ int_str n @ '' races'')"

section \<open>Library strategy\<close>

definition wins_by_driver_pd :: "result_row list \<Rightarrow> (int \<times> nat) list" where
  "wins_by_driver_pd rs =
     group_size (pd_keys res_driverId (filter (\<lambda>r. py_int (positionOrder r) = Some 1) rs))"

definition top_winners_pd :: "(int \<times> nat) list \<Rightarrow> int \<Rightarrow> (int \<times> nat) list" where
  "top_winners_pd wins_by_driver n = filter (\<lambda>(d, c). n \<le> int c) wins_by_driver"

definition top_winners_named_pd ::
  "driver_row list \<Rightarrow> (int \<times> nat) list \<Rightarrow> (string \<times> string \<times> nat) list" where
  "top_winners_named_pd ds tw =
     sorted_desc (\<lambda>(f, s, c). c)
       (map (\<lambda>((d, c), dr). (forename dr, surname dr, c))
          (merge_inner (\<lambda>(d, c). Some d) (\<lambda>dr. py_int (driverId dr)) tw ds))"

definition winners_pd :: "f1_db \<Rightarrow> int \<Rightarrow> (string \<times> nat) list" where
  "winners_pd db n =
     map (\<lambda>(f, s, c). (f @ '' '' @ s, c))
       (top_winners_named_pd (drivers db) (top_winners_pd (wins_by_driver_pd (results db)) n))"

definition rule48 :: string where
  "rule48 = replicate 48 CHR ''-''"

definition at_least_n_races :: "f1_db \<Rightarrow> int \<Rightarrow> string" where
  "at_least_n_races db n =
     py_join ''\<newline>''
       ([''Drivers who won more than '' @ int_str n @ '' races'', rule48,
         py_ljust ''Driver'' 30 @ ''Wins'', rule48]
        @ map (\<lambda>(name, c). py_ljust name 30 @ py_rjust (nat_str c) 9) (winners_pd db n)
        @ [rule48])"

section \<open>Well-formed data and an example\<close>

text \<open>
  What both strategies need of the data: numeric fields as \<open>str()\<close> prints them,
  one row per driver id, distinct display names, and every result's driver in
  drivers.csv.
\<close>

definition wins_wf :: "f1_db \<Rightarrow> bool" where
  "wins_wf db \<longleftrightarrow>
     list_all (\<lambda>r. canonical_int (res_driverId r) \<and> canonical_int (positionOrder r)) (results db)
     \<and> list_all (\<lambda>d. canonical_int (driverId d)) (drivers db)
     \<and> distinct (map driverId (drivers db))
     \<and> distinct (map full_name (drivers db))
     \<and> list_all (\<lambda>r. res_driverId r \<in> set (map driverId (drivers db))) (results db)"


text \<open>A small dataset: two drivers, two races, one win each, the later id first.\<close>

definition wins_example_db :: f1_db where
  "wins_example_db =
     \<lparr>drivers = [\<lparr>driverId = ''1'', forename = ''Lewis'', surname = ''Hamilton'', nationality = ''British''\<rparr>,
                 \<lparr>driverId = ''2'', forename = ''Max'', surname = ''Verstappen'', nationality = ''Dutch''\<rparr>],
      results = [\<lparr>res_raceId = ''10'', res_driverId = ''2'', res_constructorId = ''9'', grid = ''1'',
                   position = ''1'', positionOrder = ''1'', res_statusId = ''1''\<rparr>,
                 \<lparr>res_raceId = ''10'', res_driverId = ''1'', res_constructorId = ''131'', grid = ''2'',
                   position = ''2'', positionOrder = ''2'', res_statusId = ''1''\<rparr>,
                 \<lparr>res_raceId = ''11'', res_driverId = ''1'', res_constructorId = ''131'', grid = ''1'',
                   position = ''1'', positionOrder = ''1'', res_statusId = ''1''\<rparr>],
      races = [], driver_standings = [], constructor_standings = [], constructors = [],
      circuits = [], statuses = [], pit_stops = [], lap_times = [], qualifying = []\<rparr>"

section \<open>What the iterative loops compute\<close>

lemma fullnames_nopd_fold:
  "fold (\<lambda>driver names.
          map (\<lambda>(i, v). if driverId driver = i then (i, Some (full_name driver)) else (i, v)) names)
        ds (map (\<lambda>(i, c). (i, v0 i)) sel)
   = map (\<lambda>(i, c). (i, if filter (\<lambda>d. driverId d = i) ds = [] then v0 i
                          else Some (full_name (last (filter (\<lambda>d. driverId d = i) ds))))) sel"
proof (induction ds rule: rev_induct)
  case Nil
  show ?case by simp
next
  case (snoc d ds)
  then show ?case
    by (auto simp: split_def intro!: map_cong)
qed

lemma fullnames_nopd_eq:
  "distinct (map driverId ds) \<Longrightarrow>
   fullnames_nopd ds sel = map (\<lambda>(i, c). (i, map_option full_name (driver_by_id ds i))) sel"
  using fullnames_nopd_fold [of ds "\<lambda>_. None" sel]
  by (simp add: fullnames_nopd_def last_match_distinct)

lemma named_nopd_eq:
  assumes "distinct (map (\<lambda>(i, c). nm i) sel)"
  shows "named_nopd (map (\<lambda>(i, c). (i, nm i)) sel) sel = map (\<lambda>(i, c). (nm i, c)) (sorted_desc snd sel)"
proof -
  have eq: "map (\<lambda>(i, c). (case map_of (map (\<lambda>(i, c). (i, nm i)) sel) i of Some v \<Rightarrow> v | None \<Rightarrow> None, c))
          (sorted_desc snd sel)
        = map (\<lambda>(i, c). (nm i, c)) (sorted_desc snd sel)"
    by (rule map_cong) (auto simp: map_of_map_key_fun rev_image_eqI)
  have "distinct (map (\<lambda>x. nm (fst x)) (sorted_desc snd sel)) = distinct (map (\<lambda>x. nm (fst x)) sel)"
    by (rule mset_eq_imp_distinct_iff) simp
  with assms have "distinct (map fst (map (\<lambda>(i, c). (nm i, c)) (sorted_desc snd sel)))"
    by (simp add: comp_def split_def)
  then show ?thesis
    unfolding named_nopd_def eq by (rule dict_of_distinct)
qed

lemma winners_nopd_eq:
  assumes "distinct (map driverId (drivers db))"
    and "distinct (map (\<lambda>(i, c). map_option full_name (driver_by_id (drivers db) i))
                       (more_than_n_nopd (wins_by_driver_nopd (results db)) n))"
  shows "winners_nopd db n =
           map (\<lambda>(i, c). (map_option full_name (driver_by_id (drivers db) i), c))
             (sorted_desc snd (more_than_n_nopd (wins_by_driver_nopd (results db)) n))"
  using assms by (simp add: winners_nopd_def fullnames_nopd_eq named_nopd_eq)

lemma distinct_keys_more_than_n_nopd:
  "distinct (map fst (more_than_n_nopd (wins_by_driver_nopd rs) n))"
  by (simp add: more_than_n_nopd_def wins_by_driver_nopd_def distinct_map_filter keys_count_dict)

lemma keys_more_than_n_nopd:
  "set (map fst (more_than_n_nopd (wins_by_driver_nopd rs) n)) \<subseteq> res_driverId ` set rs"
proof -
  have "set (map fst (wins_by_driver_nopd rs))
        = set (map res_driverId (filter (\<lambda>line. positionOrder line = ''1'') rs))"
    by (simp only: wins_by_driver_nopd_def keys_count_dict set_first_occ)
  then show ?thesis by (auto simp: more_than_n_nopd_def)
qed

section \<open>What the library pipeline computes\<close>

lemma wins_filter_canonical:
  "\<forall>r \<in> set rs. canonical_int (positionOrder r) \<Longrightarrow>
   filter (\<lambda>r. py_int (positionOrder r) = Some 1) rs = filter (\<lambda>l. positionOrder l = ''1'') rs"
  by (rule filter_cong) (simp_all add: canonical_int_iff)

lemma top_winners_pd_mset:
  assumes "\<forall>r \<in> set rs. canonical_int (res_driverId r) \<and> canonical_int (positionOrder r)"
  shows "mset (top_winners_pd (wins_by_driver_pd rs) n)
         = mset (map (\<lambda>(k, c). (the (py_int k), c)) (more_than_n_nopd (wins_by_driver_nopd rs) n))"
proof -
  let ?W = "filter (\<lambda>l. positionOrder l = ''1'') rs"
  let ?ids = "map res_driverId ?W"
  let ?g = "\<lambda>s. the (py_int s)"
  let ?h = "\<lambda>(k, c). (?g k, c::nat)"
  let ?P = "\<lambda>(d, c). n \<le> int c"
  have keys: "pd_keys res_driverId (filter (\<lambda>r. py_int (positionOrder r) = Some 1) rs) = map ?g ?ids"
    using assms by (simp add: wins_filter_canonical pd_keys_canonical)
  have "inj_on ?g (set ?ids)"
    using assms by (auto intro: inj_on_subset [OF canonical_int_the_inj])
  then have cd: "count_dict (map ?g ?ids) = map ?h (count_dict ?ids)"
    by (rule count_dict_map_inj)
  have "mset (wins_by_driver_pd rs) = mset (map ?h (count_dict ?ids))"
    by (simp only: wins_by_driver_pd_def keys mset_group_size_count_dict cd)
  then have "mset (filter ?P (wins_by_driver_pd rs)) = mset (filter ?P (map ?h (count_dict ?ids)))"
    by (simp add: mset_filter)
  also have "filter ?P (map ?h (count_dict ?ids)) = map ?h (filter ?P (count_dict ?ids))"
    by (simp add: filter_map comp_def split_def)
  finally show ?thesis
    by (simp add: top_winners_pd_def more_than_n_nopd_def wins_by_driver_nopd_def)
qed

lemma winners_pd_mset:
  assumes "\<forall>x \<in> set tw. length (filter (\<lambda>dr. py_int (driverId dr) = Some (fst x)) ds) = 1"
  shows "mset (map (\<lambda>(f, s, c). (f @ '' '' @ s, c)) (top_winners_named_pd ds tw))
         = image_mset (\<lambda>(d, c). (full_name (hd (filter (\<lambda>dr. py_int (driverId dr) = Some d) ds)), c))
             (mset tw)"
proof -
  have "merge_inner (\<lambda>(d, c). Some d) (\<lambda>dr. py_int (driverId dr)) tw ds
        = map (\<lambda>x. (x, hd (filter (\<lambda>dr. py_int (driverId dr) = Some (fst x)) ds))) tw"
    using assms by (simp add: merge_inner_unique split_def)
  then show ?thesis
    by (simp add: top_winners_named_pd_def multiset.map_comp comp_def split_def full_name_def)
qed

section \<open>The two strategies agree\<close>

lemma wins_pd_named_mset:
  assumes "wins_wf db"
  shows "mset (winners_pd db n) =
         image_mset (\<lambda>(i, c). (full_name (the (driver_by_id (drivers db) i)), c))
           (mset (more_than_n_nopd (wins_by_driver_nopd (results db)) n))"
proof -
  let ?ds = "drivers db" and ?rs = "results db"
  let ?sel = "more_than_n_nopd (wins_by_driver_nopd ?rs) n"
  let ?tw = "top_winners_pd (wins_by_driver_pd ?rs) n"
  let ?row = "\<lambda>d. hd (filter (\<lambda>dr. py_int (driverId dr) = Some d) ?ds)"
  have canon: "\<forall>r \<in> set ?rs. canonical_int (res_driverId r) \<and> canonical_int (positionOrder r)"
    and cd: "\<forall>d \<in> set ?ds. canonical_int (driverId d)" and dist: "distinct (map driverId ?ds)"
    and pres: "\<forall>r \<in> set ?rs. res_driverId r \<in> set (map driverId ?ds)"
    using assms by (simp_all add: wins_wf_def list_all_iff)
  have sel_ok: "canonical_int i \<and> i \<in> set (map driverId ?ds)" if "i \<in> fst ` set ?sel" for i
  proof -
    from that keys_more_than_n_nopd [of ?rs n] have "i \<in> res_driverId ` set ?rs"
      by (simp only: set_map) blast
    then obtain r where "r \<in> set ?rs" "i = res_driverId r" by blast
    with canon pres show ?thesis by blast
  qed
  have tw: "mset ?tw = image_mset (\<lambda>(k, c). (the (py_int k), c)) (mset ?sel)"
    using top_winners_pd_mset [OF canon, of n] by (simp only: mset_map)
  have one: "\<forall>x \<in> set ?tw. length (filter (\<lambda>dr. py_int (driverId dr) = Some (fst x)) ?ds) = 1"
  proof
    fix x assume "x \<in> set ?tw"
    then obtain i c where "(i, c) \<in> set ?sel" "x = (the (py_int i), c)"
      using tw by (metis (no_types, lifting) case_prod_conv imageE set_image_mset set_mset_mset surj_pair)
    with sel_ok show "length (filter (\<lambda>dr. py_int (driverId dr) = Some (fst x)) ?ds) = 1"
      by (force simp: filter_py_id_canonical [OF cd dist])
  qed
  have "mset (winners_pd db n) = image_mset (\<lambda>(d, c). (full_name (?row d), c)) (mset ?tw)"
    using winners_pd_mset [OF one] by (simp add: winners_pd_def)
  also have "\<dots> = image_mset (\<lambda>(i, c). (full_name (?row (the (py_int i))), c)) (mset ?sel)"
    by (simp add: tw multiset.map_comp comp_def split_def)
  also have "\<dots> = image_mset (\<lambda>(i, c). (full_name (the (driver_by_id ?ds i)), c)) (mset ?sel)"
    using sel_ok by (force intro: image_mset_cong simp: filter_py_id_canonical [OF cd dist])
  finally show ?thesis .
qed

lemma wins_nopd_named_mset:
  assumes "wins_wf db"
  shows "mset (winners_nopd db n) =
         image_mset (\<lambda>(i, c). (Some (full_name (the (driver_by_id (drivers db) i))), c))
           (mset (more_than_n_nopd (wins_by_driver_nopd (results db)) n))"
proof -
  let ?ds = "drivers db" and ?rs = "results db"
  let ?sel = "more_than_n_nopd (wins_by_driver_nopd ?rs) n"
  have dist: "distinct (map driverId ?ds)" and distn: "distinct (map full_name ?ds)"
    and pres: "\<forall>r \<in> set ?rs. res_driverId r \<in> set (map driverId ?ds)"
    using assms by (simp_all add: wins_wf_def list_all_iff)
  have sub: "set (map fst ?sel) \<subseteq> set (map driverId ?ds)"
    using keys_more_than_n_nopd [of ?rs n] pres by auto
  have "distinct (map (\<lambda>i. map_option full_name (driver_by_id ?ds i)) (map fst ?sel))"
    using names_by_id_distinct [OF distn distinct_keys_more_than_n_nopd sub] .
  then have names: "distinct (map (\<lambda>(i, c). map_option full_name (driver_by_id ?ds i)) ?sel)"
    by (simp add: comp_def split_def)
  have some: "map_option full_name (driver_by_id ?ds i) = Some (full_name (the (driver_by_id ?ds i)))"
    if "i \<in> fst ` set ?sel" for i
  proof -
    from that sub have "i \<in> set (map driverId ?ds)" by auto
    then obtain d where "driver_by_id ?ds i = Some d" using driver_by_id_present by blast
    then show ?thesis by simp
  qed
  have "mset (winners_nopd db n)
        = image_mset (\<lambda>(i, c). (map_option full_name (driver_by_id ?ds i), c)) (mset ?sel)"
    by (simp add: winners_nopd_eq [OF dist names])
  also have "\<dots> = image_mset (\<lambda>(i, c). (Some (full_name (the (driver_by_id ?ds i))), c)) (mset ?sel)"
  proof (rule image_mset_cong)
    fix x assume "x \<in># mset ?sel"
    then have "fst x \<in> fst ` set ?sel" by simp
    then show "(case x of (i, c) \<Rightarrow> (map_option full_name (driver_by_id ?ds i), c))
             = (case x of (i, c) \<Rightarrow> (Some (full_name (the (driver_by_id ?ds i))), c))"
      using some by (simp add: split_def)
  qed
  finally show ?thesis .
qed

lemma wins_example_wf: "wins_wf wins_example_db"
  by code_simp

text \<open>C1: on well-formed data both strategies report the same (name, wins) rows.\<close>

theorem wins_strategies_agree:
  assumes "wins_wf db"
  shows "mset (winners_nopd db n) = mset (map (\<lambda>(nm, c). (Some nm, c)) (winners_pd db n))"
  using wins_pd_named_mset [OF assms] wins_nopd_named_mset [OF assms]
  by (simp add: multiset.map_comp comp_def split_def)

theorem wins_strategies_agree_witness:
  "wins_wf wins_example_db \<and>
   mset (winners_nopd wins_example_db 1)
   = mset (map (\<lambda>(nm, c). (Some nm, c)) (winners_pd wins_example_db 1))"
  using wins_example_wf wins_strategies_agree [OF wins_example_wf, of 1] by simp

text \<open>C5: on well-formed data the iterative rows come in descending order of wins.\<close>

theorem winners_nopd_descending:
  assumes "wins_wf db"
  shows "desc_by snd (winners_nopd db n)"
proof -
  let ?ds = "drivers db" and ?rs = "results db"
  let ?sel = "more_than_n_nopd (wins_by_driver_nopd ?rs) n"
  have dist: "distinct (map driverId ?ds)" and distn: "distinct (map full_name ?ds)"
    and pres: "\<forall>r \<in> set ?rs. res_driverId r \<in> set (map driverId ?ds)"
    using assms by (simp_all add: wins_wf_def list_all_iff)
  have sub: "set (map fst ?sel) \<subseteq> set (map driverId ?ds)"
    using keys_more_than_n_nopd [of ?rs n] pres by auto
  have "distinct (map (\<lambda>i. map_option full_name (driver_by_id ?ds i)) (map fst ?sel))"
    using names_by_id_distinct [OF distn distinct_keys_more_than_n_nopd sub] .
  then have names: "distinct (map (\<lambda>(i, c). map_option full_name (driver_by_id ?ds i)) ?sel)"
    by (simp add: comp_def split_def)
  show ?thesis
    using sorted_desc_sorted [of snd ?sel]
    by (simp add: winners_nopd_eq [OF dist names] sorted_wrt_map split_def)
qed

theorem winners_nopd_descending_witness:
  "wins_wf wins_example_db \<and> desc_by snd (winners_nopd wins_example_db 1)"
  using wins_example_wf winners_nopd_descending [OF wins_example_wf, of 1] by simp

text \<open>The library rows are in descending order of wins on any data.\<close>

lemma winners_pd_descending: "desc_by snd (winners_pd db n)"
  using sorted_desc_sorted [of "\<lambda>(f, s, c). c"]
  by (simp add: winners_pd_def top_winners_named_pd_def sorted_wrt_map split_def)

section \<open>Monotonicity in the threshold\<close>







section \<open>An empty selection\<close>

lemma wins_by_driver_nopd_bound:
  assumes "(k, c) \<in> set (wins_by_driver_nopd rs)"
  shows "c \<le> length rs"
proof -
  from assms have "c \<le> length (map res_driverId (filter (\<lambda>line. positionOrder line = ''1'') rs))"
    unfolding wins_by_driver_nopd_def by (rule count_dict_bound)
  also have "\<dots> \<le> length rs" by simp
  finally show ?thesis .
qed

lemma wins_by_driver_pd_bound:
  assumes "(k, c) \<in> set (wins_by_driver_pd rs)"
  shows "c \<le> length rs"
proof -
  let ?W = "filter (\<lambda>r. py_int (positionOrder r) = Some 1) rs"
  from assms have "c \<le> length (pd_keys res_driverId ?W)"
    unfolding wins_by_driver_pd_def by (rule group_size_bound)
  also have "\<dots> \<le> length ?W" by (rule length_pd_keys)
  also have "\<dots> \<le> length rs" by simp
  finally show ?thesis .
qed

text \<open>
  C13: asking for more wins than there are results selects nobody. The iterative
  strategy then raises \<open>ValueError\<close> (\<open>max()\<close> of an empty sequence in
  \<open>format_dict\<close>), where the library strategy prints the title, the header and
  the rules with no row.
\<close>

theorem wins_empty_selection:
  assumes "int (length (results db)) < n"
  shows "at_least_n_races_nopd db n = Inl ValueError
         \<and> at_least_n_races db n =
             py_join ''\<newline>'' [''Drivers who won more than '' @ int_str n @ '' races'', rule48,
                              py_ljust ''Driver'' 30 @ ''Wins'', rule48, rule48]"
proof
  have "more_than_n_nopd (wins_by_driver_nopd (results db)) n = []"
    using assms wins_by_driver_nopd_bound by (fastforce simp: more_than_n_nopd_def filter_empty_conv)
  then show "at_least_n_races_nopd db n = Inl ValueError"
    by (simp add: at_least_n_races_nopd_def winners_nopd_def named_nopd_def dict_of_def
        sorted_desc_def format_dict_empty)
next
  have "top_winners_pd (wins_by_driver_pd (results db)) n = []"
    using assms wins_by_driver_pd_bound by (fastforce simp: top_winners_pd_def filter_empty_conv)
  then show "at_least_n_races db n =
             py_join ''\<newline>'' [''Drivers who won more than '' @ int_str n @ '' races'', rule48,
                              py_ljust ''Driver'' 30 @ ''Wins'', rule48, rule48]"
    by (simp add: at_least_n_races_def winners_pd_def top_winners_named_pd_def merge_inner_def
        sorted_desc_def)
qed

theorem wins_empty_selection_witness:
  "int (length (results wins_example_db)) < 4
   \<and> at_least_n_races_nopd wins_example_db 4 = Inl ValueError
   \<and> at_least_n_races wins_example_db 4 =
       py_join ''\<newline>'' [''Drivers who won more than '' @ int_str 4 @ '' races'', rule48,
                        py_ljust ''Driver'' 30 @ ''Wins'', rule48, rule48]"
proof -
  have h: "int (length (results wins_example_db)) < 4" by (simp add: wins_example_db_def)
  show ?thesis using h wins_empty_selection [OF h] by simp
qed

section \<open>Ties\<close>


end
