(* ===== verification/Ranking.thy ===== *)
theory Ranking
  imports F1_Tables Frames Py_Text "HOL-Library.Option_ord"
begin

text \<open>
  "What was the final drivers' ranking of season yy?" in its two strategies:
  \<open>ranking_nopd\<close> (src/src/analysis/homemade/mandatory2.py) and \<open>ranking\<close>
  (src/src/analysis/pandas/mandatory2.py). Both take the standings at the race of
  the season with the largest race id and break ties in points by counts of
  finishing positions; the iterative strategy compares the race ids as strings
  and counts the classified positions 1 to 10 (\<open>position\<close>), the library
  strategy compares integers and counts every value of \<open>positionOrder\<close>.
\<close>

section \<open>Iterative strategy\<close>

text \<open>\<open>int(line['year']) == yy\<close> over races.csv; \<open>int()\<close> raises on a bad year.\<close>

definition races_yy_nopd :: "race_row list \<Rightarrow> int \<Rightarrow> race_row list py_result" where
  "races_yy_nopd rs yy =
     (if list_all (\<lambda>line. py_int (year line) \<noteq> None) rs
      then Inr (filter (\<lambda>line. py_int (year line) = Some yy) rs) else Inl ValueError)"

text \<open>\<open>ranking_with_exaequos\<close>: driver id to points string at the chosen race.\<close>

definition standings_at_nopd :: "driver_standing_row list \<Rightarrow> string \<Rightarrow> (string, string) dict" where
  "standings_at_nopd ds last_id =
     fold (\<lambda>line d. if ds_raceId line = last_id then dict_set d (ds_driverId line) (points line) else d)
       ds []"

text \<open>\<open>finishes\<close>, a \<open>defaultdict(lambda: [0]*10)\<close>: per driver, how often they were
  classified 1st, \<dots>, 10th in a race of the season.\<close>

definition finish_vec :: "(string, nat list) dict \<Rightarrow> string \<Rightarrow> nat list" where
  "finish_vec d k = (case map_of d k of Some v \<Rightarrow> v | None \<Rightarrow> replicate 10 0)"

definition count_finish :: "(string, nat list) dict \<Rightarrow> string \<Rightarrow> nat \<Rightarrow> (string, nat list) dict" where
  "count_finish d k pos =
     (let v = finish_vec d k in dict_set d k (v[pos - 1 := v ! (pos - 1) + 1]))"

definition finishes_nopd :: "string list \<Rightarrow> result_row list \<Rightarrow> (string, nat list) dict" where
  "finishes_nopd races_yy_ids rs =
     fold (\<lambda>result d.
             if res_raceId result \<in> set races_yy_ids \<and> py_isdigit (position result)
             then (let pos = digits_acc 0 (position result) in
                   if 1 \<le> pos \<and> pos \<le> 10 then count_finish d (res_driverId result) pos else d)
             else d)
       rs []"

text \<open>The sort key \<open>(float(points), finishes[d])\<close>: a pair compared lexicographically.\<close>

definition ranking_key_nopd ::
  "(string, string) dict \<Rightarrow> (string, nat list) dict \<Rightarrow> string \<Rightarrow> rat \<times> nat list" where
  "ranking_key_nopd R F d = (the (py_float (the (map_of R d))), finish_vec F d)"

definition final_ranking_ids_nopd ::
  "(string, string) dict \<Rightarrow> (string, nat list) dict \<Rightarrow> string list" where
  "final_ranking_ids_nopd R F = sorted_desc (ranking_key_nopd R F) (map fst R)"

text \<open>
  The statements of \<open>ranking_nopd\<close> up to \<open>final_ranking_named\<close>, in order, with
  their exceptions: a bad year, a season without races (\<open>max\<close> of nothing), a
  points field \<open>float()\<close> rejects (raised while sorting \<open>ranking_sorted\<close>), a
  ranked driver missing from drivers.csv (\<open>id_to_name[driver_id]\<close>).
\<close>

definition ranking_rows_nopd :: "f1_db \<Rightarrow> int \<Rightarrow> (nat \<times> string \<times> rat) list py_result" where
  "ranking_rows_nopd db yy =
     (case races_yy_nopd (races db) yy of
        Inl e \<Rightarrow> Inl e
      | Inr races_yy \<Rightarrow>
          (let races_yy_ids = map raceId races_yy in
           case py_max races_yy_ids of
             Inl e \<Rightarrow> Inl e
           | Inr id_last_race_yy \<Rightarrow>
               (let R = standings_at_nopd (driver_standings db) id_last_race_yy in
                if \<not> list_all (\<lambda>(d, p). py_float p \<noteq> None) R then Inl ValueError
                else
                  let id_to_name = dict_of (map (\<lambda>d. (driverId d, full_name d)) (drivers db));
                      F = finishes_nopd races_yy_ids (results db);
                      ids = final_ranking_ids_nopd R F
                  in if \<not> list_all (\<lambda>i. i \<in> set (map fst id_to_name)) ids then Inl KeyError
                     else Inr (map (\<lambda>(rank, i). (rank, the (map_of id_to_name i),
                                                    the (py_float (the (map_of R i)))))
                                 (zip [1..<Suc (length ids)] ids)))))"

text \<open>\<open>format_list\<close>: three left/right aligned columns; \<open>max\<close> over an empty
  standings list raises.\<close>

definition format_list :: "(nat \<times> string \<times> rat) list \<Rightarrow> string \<Rightarrow> string py_result" where
  "format_list standings title =
     (case py_max (map (\<lambda>(rank, _, _). length (nat_str rank)) standings) of
        Inl e \<Rightarrow> Inl e
      | Inr rank_max \<Rightarrow>
     (case py_max (map (\<lambda>(_, name, _). length name) standings) of
        Inl e \<Rightarrow> Inl e
      | Inr name_max \<Rightarrow>
     (case py_max (map (\<lambda>(_, _, pts). length (int_str (py_trunc pts))) standings) of
        Inl e \<Rightarrow> Inl e
      | Inr points_max \<Rightarrow>
          let rank_width = max (length ''Rank'') rank_max;
              name_width = max (length ''Driver'') name_max;
              points_width = max (length ''Points'') points_max;
              header = py_ljust ''Rank'' rank_width @ ''   '' @ py_ljust ''Driver'' name_width
                       @ ''   '' @ py_rjust ''Points'' points_width;
              separator = replicate (length header) CHR ''-'';
              rows = map (\<lambda>(rank, name, pts).
                            py_ljust (nat_str rank) rank_width @ ''   '' @ py_ljust name name_width
                            @ ''   '' @ py_rjust (int_str (py_trunc pts)) points_width) standings
          in Inr (py_join ''\<newline>'' ([title, separator, header, separator] @ rows @ [separator])))))"

definition ranking_nopd :: "f1_db \<Rightarrow> int \<Rightarrow> string py_result" where
  "ranking_nopd db yy =
     (case ranking_rows_nopd db yy of
        Inl e \<Rightarrow> Inl e
      | Inr standings \<Rightarrow> format_list standings (''Drivers' ranking - Season '' @ int_str yy))"

section \<open>Library strategy\<close>

definition rule48_r :: string where
  "rule48_r = replicate 48 CHR ''-''"

definition races_yy_pd :: "race_row list \<Rightarrow> int \<Rightarrow> race_row list" where
  "races_yy_pd rs yy = filter (\<lambda>r. py_int (year r) = Some yy) rs"

text \<open>\<open>races_yy['raceId'].max()\<close>: the numeric maximum, NaN (\<open>None\<close>) when empty.\<close>

definition yy_last_race_id_pd :: "race_row list \<Rightarrow> int option" where
  "yy_last_race_id_pd races_yy =
     (if pd_keys raceId races_yy = [] then None else Some (Max (set (pd_keys raceId races_yy))))"

definition standings_pd :: "driver_standing_row list \<Rightarrow> int option \<Rightarrow> driver_standing_row list" where
  "standings_pd ds last_id = filter (\<lambda>l. last_id \<noteq> None \<and> py_int (ds_raceId l) = last_id) ds"

definition results_yy_pd :: "result_row list \<Rightarrow> int list \<Rightarrow> result_row list" where
  "results_yy_pd rs race_ids_yy =
     filter (\<lambda>r. case py_int (res_raceId r) of Some i \<Rightarrow> i \<in> set race_ids_yy | None \<Rightarrow> False) rs"

text \<open>
  \<open>groupby(['driverId', 'positionOrder']).size().unstack(fill_value=0)\<close>: one row
  per driver with a result in the season, one column per \<open>positionOrder\<close> value
  that occurs, in ascending order.
\<close>

definition pc_columns :: "result_row list \<Rightarrow> int list" where
  "pc_columns results_yy = sort (remdups (pd_keys positionOrder results_yy))"

definition pc_count :: "result_row list \<Rightarrow> int \<Rightarrow> int \<Rightarrow> nat" where
  "pc_count results_yy d p =
     length (filter (\<lambda>r. py_int (res_driverId r) = Some d \<and> py_int (positionOrder r) = Some p) results_yy)"

definition pc_has_row :: "result_row list \<Rightarrow> int \<Rightarrow> bool" where
  "pc_has_row results_yy d \<longleftrightarrow>
     (\<exists>r \<in> set results_yy. py_int (res_driverId r) = Some d \<and> py_int (positionOrder r) \<noteq> None)"

text \<open>
  A standing row after the left merge with the counts: its counts at the sort
  columns \<open>1 .. max\<close>, or NaN (\<open>None\<close>) for a driver without a result in the
  season. Sorting descending with NaN last is sorting by the option, \<open>None\<close>
  being the least.
\<close>

definition ranking_key_pd ::
  "result_row list \<Rightarrow> int \<Rightarrow> driver_standing_row \<Rightarrow> rat option \<times> nat list option" where
  "ranking_key_pd results_yy m l =
     (py_float (points l),
      case py_int (ds_driverId l) of
        Some d \<Rightarrow> if pc_has_row results_yy d then Some (map (pc_count results_yy d) [1..m]) else None
      | None \<Rightarrow> None)"

text \<open>
  \<open>cols_sort = ['points'] + list(range(1, position_counts.columns.max()+1))\<close>:
  with no column the maximum is NaN and \<open>range\<close> raises \<open>TypeError\<close>; a missing
  column among \<open>1 .. max\<close> makes \<open>sort_values\<close> raise \<open>KeyError\<close>.
\<close>

text \<open>One output row: \<open>f"{row['forename']} {row['surname']}"\<close> (\<open>nan nan\<close> when
  the left merge found no driver) and the points.\<close>

definition ranking_row_pd :: "driver_standing_row \<times> driver_row option \<Rightarrow> string \<times> rat option" where
  "ranking_row_pd ld =
     (case ld of (l, dr) \<Rightarrow> (case dr of Some d \<Rightarrow> full_name d | None \<Rightarrow> ''nan nan'', py_float (points l)))"

definition ranking_rows_pd :: "f1_db \<Rightarrow> int \<Rightarrow> (nat \<times> string \<times> rat option) list py_result" where
  "ranking_rows_pd db yy =
     (let races_yy = races_yy_pd (races db) yy;
          last_id = yy_last_race_id_pd races_yy;
          standings = standings_pd (driver_standings db) last_id;
          results_yy = results_yy_pd (results db) (pd_keys raceId races_yy);
          cols = pc_columns results_yy
      in if cols = [] then Inl TypeError
         else let m = Max (set cols) in
           if \<not> list_all (\<lambda>p. p \<in> set cols) [1..m] then Inl KeyError
           else
             let ranked = sorted_desc (\<lambda>(l, dr). ranking_key_pd results_yy m l)
                            (merge_left (\<lambda>l. py_int (ds_driverId l)) (\<lambda>d. py_int (driverId d))
                               standings (drivers db))
             in if \<not> list_all (\<lambda>p. p \<in> set cols) [1..10] then Inl KeyError
                else Inr (map (\<lambda>(rank, ld). (rank, ranking_row_pd ld))
                            (zip [1..<Suc (length ranked)] ranked)))"

text \<open>\<open>f"{x:.1f}"\<close>, rounding half to even; \<open>nan\<close> for a missing value.\<close>

definition fmt_1f :: "rat option \<Rightarrow> string" where
  "fmt_1f x = (case x of
      None \<Rightarrow> ''nan''
    | Some v \<Rightarrow> (let r = py_round (v * 10) in
                 (if r < 0 then ''-'' else []) @ nat_str (nat \<bar>r\<bar> div 10) @ ''.'' @ nat_str (nat \<bar>r\<bar> mod 10)))"

definition en_dash :: string where
  "en_dash = [CHR 0xE2, CHR 0x80, CHR 0x93]"

definition ranking :: "f1_db \<Rightarrow> int \<Rightarrow> string py_result" where
  "ranking db yy =
     (case ranking_rows_pd db yy of
        Inl e \<Rightarrow> Inl e
      | Inr rows \<Rightarrow>
          Inr (py_join ''\<newline>''
                ([''Drivers' ranking '' @ en_dash @ '' Season '' @ int_str yy, rule48_r,
                  py_ljust ''Rank'' 10 @ py_ljust ''Driver'' 25 @ ''Points'', rule48_r]
                 @ map (\<lambda>(rank, name, pts). py_ljust (nat_str rank) 10 @ py_ljust name 25 @ fmt_1f pts) rows
                 @ [rule48_r])))"

section \<open>Specification helpers and an example season\<close>

text \<open>A result that counts towards the \<open>p\<close>-th entry of driver \<open>k\<close>'s finishes.\<close>

definition classified_at :: "string list \<Rightarrow> string \<Rightarrow> nat \<Rightarrow> result_row \<Rightarrow> bool" where
  "classified_at ids k p r \<longleftrightarrow>
     res_raceId r \<in> set ids \<and> res_driverId r = k \<and> py_isdigit (position r) \<and> digits_acc 0 (position r) = p"

text \<open>
  A season of two races with ids 9 and 10, ten drivers, ten results per race and
  the standings after each race (points as the CSV writes them, \<open>43.0\<close>). The
  second race is the season's last; Max Verstappen, who won the first, is not
  classified in it.
\<close>

definition rk_driver :: "string \<Rightarrow> string \<Rightarrow> string \<Rightarrow> driver_row" where
  "rk_driver i f s = \<lparr>driverId = i, forename = f, surname = s, nationality = []\<rparr>"

definition rk_unclassified :: string where
  "rk_unclassified = [CHR 0x5C, CHR ''N'']"

definition rk_result :: "string \<Rightarrow> string \<Rightarrow> string \<Rightarrow> string \<Rightarrow> result_row" where
  "rk_result ra d p po = \<lparr>res_raceId = ra, res_driverId = d, res_constructorId = ''1'', grid = ''1'',
                          position = p, positionOrder = po, res_statusId = ''1''\<rparr>"

definition rk_standing :: "string \<Rightarrow> string \<Rightarrow> string \<Rightarrow> driver_standing_row" where
  "rk_standing r d p = \<lparr>ds_raceId = r, ds_driverId = d, points = p\<rparr>"

definition rk_db :: f1_db where
  "rk_db = \<lparr>drivers = [rk_driver ''1'' ''Lewis'' ''Hamilton'',
     rk_driver ''2'' ''Max'' ''Verstappen'',
     rk_driver ''3'' ''Sebastian'' ''Vettel'',
     rk_driver ''4'' ''Fernando'' ''Alonso'',
     rk_driver ''5'' ''Kimi'' ''Raikkonen'',
     rk_driver ''6'' ''Jenson'' ''Button'',
     rk_driver ''7'' ''Mark'' ''Webber'',
     rk_driver ''8'' ''Nico'' ''Rosberg'',
     rk_driver ''9'' ''Felipe'' ''Massa'',
     rk_driver ''10'' ''Robert'' ''Kubica''],
    results = [rk_result ''9'' ''2'' ''1'' ''1'',
     rk_result ''9'' ''1'' ''2'' ''2'',
     rk_result ''9'' ''3'' ''3'' ''3'',
     rk_result ''9'' ''4'' ''4'' ''4'',
     rk_result ''9'' ''5'' ''5'' ''5'',
     rk_result ''9'' ''6'' ''6'' ''6'',
     rk_result ''9'' ''7'' ''7'' ''7'',
     rk_result ''9'' ''8'' ''8'' ''8'',
     rk_result ''9'' ''9'' ''9'' ''9'',
     rk_result ''9'' ''10'' ''10'' ''10'',
     rk_result ''10'' ''1'' ''1'' ''1'',
     rk_result ''10'' ''3'' ''2'' ''2'',
     rk_result ''10'' ''4'' ''3'' ''3'',
     rk_result ''10'' ''5'' ''4'' ''4'',
     rk_result ''10'' ''6'' ''5'' ''5'',
     rk_result ''10'' ''7'' ''6'' ''6'',
     rk_result ''10'' ''8'' ''7'' ''7'',
     rk_result ''10'' ''9'' ''8'' ''8'',
     rk_result ''10'' ''10'' ''9'' ''9'',
     rk_result ''10'' ''2'' rk_unclassified ''10''],
    races = [\<lparr>raceId = ''9'', year = ''2009'', race_round = ''1'', race_circuitId = ''1''\<rparr>,
             \<lparr>raceId = ''10'', year = ''2009'', race_round = ''2'', race_circuitId = ''2''\<rparr>],
    driver_standings = [rk_standing ''9'' ''2'' ''25.0'',
     rk_standing ''9'' ''1'' ''18.0'',
     rk_standing ''9'' ''3'' ''15.0'',
     rk_standing ''9'' ''4'' ''12.0'',
     rk_standing ''9'' ''5'' ''10.0'',
     rk_standing ''9'' ''6'' ''8.0'',
     rk_standing ''9'' ''7'' ''6.0'',
     rk_standing ''9'' ''8'' ''4.0'',
     rk_standing ''9'' ''9'' ''2.0'',
     rk_standing ''9'' ''10'' ''1.0'',
     rk_standing ''10'' ''1'' ''43.0'',
     rk_standing ''10'' ''3'' ''33.0'',
     rk_standing ''10'' ''4'' ''27.0'',
     rk_standing ''10'' ''5'' ''22.0'',
     rk_standing ''10'' ''6'' ''18.0'',
     rk_standing ''10'' ''7'' ''14.0'',
     rk_standing ''10'' ''8'' ''10.0'',
     rk_standing ''10'' ''9'' ''6.0'',
     rk_standing ''10'' ''10'' ''3.0'',
     rk_standing ''10'' ''2'' ''25.0''],
    constructor_standings = [], constructors = [], circuits = [], statuses = [],
    pit_stops = [], lap_times = [], qualifying = []\<rparr>"

text \<open>The two rankings of the example season, evaluated once.\<close>

lemma rk_db_rows_nopd:
  "ranking_rows_nopd rk_db 2009 = Inr
     [(1, ''Max Verstappen'', 25), (2, ''Lewis Hamilton'', 18),
      (3, ''Sebastian Vettel'', 15), (4, ''Fernando Alonso'', 12),
      (5, ''Kimi Raikkonen'', 10), (6, ''Jenson Button'', 8),
      (7, ''Mark Webber'', 6), (8, ''Nico Rosberg'', 4),
      (9, ''Felipe Massa'', 2), (10, ''Robert Kubica'', 1)]"
  by code_simp

lemma rk_db_rows_pd:
  "ranking_rows_pd rk_db 2009 = Inr
     [(1, ''Lewis Hamilton'', Some 43), (2, ''Sebastian Vettel'', Some 33),
      (3, ''Fernando Alonso'', Some 27), (4, ''Max Verstappen'', Some 25),
      (5, ''Kimi Raikkonen'', Some 22), (6, ''Jenson Button'', Some 18),
      (7, ''Mark Webber'', Some 14), (8, ''Nico Rosberg'', Some 10),
      (9, ''Felipe Massa'', Some 6), (10, ''Robert Kubica'', Some 3)]"
  by code_simp

section \<open>Ranks and points\<close>

lemma ranking_rows_nopd_Inr:
  assumes "ranking_rows_nopd db yy = Inr st"
  obtains R F names where
    "st = map (\<lambda>(rank, i). (rank, the (map_of names i), the (py_float (the (map_of R i)))))
            (zip [1..<Suc (length (final_ranking_ids_nopd R F))] (final_ranking_ids_nopd R F))"
  using assms
  by (auto simp: ranking_rows_nopd_def Let_def simp del: upt_Suc split: sum.splits if_splits)

lemma ranking_rows_pd_Inr:
  assumes "ranking_rows_pd db yy = Inr st"
  obtains results_yy m merged where
    "st = map (\<lambda>(rank, ld). (rank, ranking_row_pd ld))
            (zip [1..<Suc (length (sorted_desc (\<lambda>(l, dr). ranking_key_pd results_yy m l) merged))]
                 (sorted_desc (\<lambda>(l, dr). ranking_key_pd results_yy m l) merged))"
  using assms
  by (auto simp: ranking_rows_pd_def Let_def simp del: upt_Suc split: if_splits)

text \<open>The points of a ranked driver are the first component of the sort key.\<close>

lemma ranked_points_desc_nopd:
  "desc_by (\<lambda>i. the (py_float (the (map_of R i)))) (final_ranking_ids_nopd R F)"
  using desc_by_fst [OF sorted_desc_sorted [of "ranking_key_nopd R F" "map fst R"]]
  by (simp add: final_ranking_ids_nopd_def ranking_key_nopd_def)

lemma ranked_points_desc_pd:
  "desc_by (\<lambda>(l, dr). py_float (points l)) (sorted_desc (\<lambda>(l, dr). ranking_key_pd results_yy m l) merged)"
  using desc_by_fst [OF sorted_desc_sorted [of "\<lambda>(l, dr). ranking_key_pd results_yy m l" merged]]
  by (simp add: ranking_key_pd_def split_def)

lemma ranked_rows_desc_pd:
  "desc_by snd (map ranking_row_pd (sorted_desc (\<lambda>(l, dr). ranking_key_pd results_yy m l) merged))"
  using ranked_points_desc_pd [of results_yy m merged]
  by (simp add: sorted_wrt_map ranking_row_pd_def split_def)

text \<open>
  C4: a ranking the iterative strategy returns numbers its rows 1, 2, \<dots>, N
  without gap or repeat, and its points never increase down the table.
\<close>

theorem ranking_nopd_ranks_points:
  assumes "ranking_rows_nopd db yy = Inr st"
  shows "map fst st = [1..<Suc (length st)] \<and> desc_by (\<lambda>(rank, name, pts). pts) st"
proof -
  obtain R F names where st:
    "st = map (\<lambda>(rank, i). (rank, the (map_of names i), the (py_float (the (map_of R i)))))
            (zip [1..<Suc (length (final_ranking_ids_nopd R F))] (final_ranking_ids_nopd R F))"
    using assms by (rule ranking_rows_nopd_Inr)
  let ?ids = "final_ranking_ids_nopd R F"
  have "length st = length ?ids" by (simp only: st length_map length_zip length_upt diff_Suc_1 min.idem)
  moreover have "map fst st = [1..<Suc (length ?ids)]"
    unfolding st by (rule enumerate_fst)
  moreover have "desc_by (\<lambda>(name, pts). pts)
                   (map (\<lambda>i. (the (map_of names i), the (py_float (the (map_of R i))))) ?ids)"
    using ranked_points_desc_nopd [of R F] by (simp add: sorted_wrt_map)
  then have "desc_by (\<lambda>p. (\<lambda>(name, pts). pts) (snd p)) st"
    unfolding st by (rule desc_by_enumerate)
  ultimately show ?thesis by (simp add: split_def)
qed

theorem ranking_nopd_ranks_points_witness:
  "\<exists>st. ranking_rows_nopd rk_db 2009 = Inr st \<and>
        map fst st = [1..<Suc (length st)] \<and> desc_by (\<lambda>(rank, name, pts). pts) st"
  using rk_db_rows_nopd ranking_nopd_ranks_points [OF rk_db_rows_nopd] by blast

text \<open>C8: the same holds of the library strategy (a missing points value last).\<close>

theorem ranking_pd_ranks_points:
  assumes "ranking_rows_pd db yy = Inr st"
  shows "map fst st = [1..<Suc (length st)] \<and> desc_by (\<lambda>(rank, name, pts). pts) st"
proof -
  obtain results_yy m merged where st:
    "st = map (\<lambda>(rank, ld). (rank, ranking_row_pd ld))
            (zip [1..<Suc (length (sorted_desc (\<lambda>(l, dr). ranking_key_pd results_yy m l) merged))]
                 (sorted_desc (\<lambda>(l, dr). ranking_key_pd results_yy m l) merged))"
    using assms by (rule ranking_rows_pd_Inr)
  let ?ranked = "sorted_desc (\<lambda>(l, dr). ranking_key_pd results_yy m l) merged"
  have "length st = length ?ranked"
    by (simp only: st length_map length_zip length_upt diff_Suc_1 min.idem)
  moreover have "map fst st = [1..<Suc (length ?ranked)]"
    unfolding st by (rule enumerate_fst)
  moreover have "desc_by (\<lambda>p. snd (snd p)) st"
    unfolding st using ranked_rows_desc_pd by (rule desc_by_enumerate)
  ultimately show ?thesis by (simp add: split_def)
qed

theorem ranking_pd_ranks_points_witness:
  "\<exists>st. ranking_rows_pd rk_db 2009 = Inr st \<and>
        map fst st = [1..<Suc (length st)] \<and> desc_by (\<lambda>(rank, name, pts). pts) st"
  using rk_db_rows_pd ranking_pd_ranks_points [OF rk_db_rows_pd] by blast

section \<open>The finishing-position counts\<close>

lemma finish_vec_count_finish:
  "finish_vec (count_finish d k pos) k' =
     (if k' = k then (finish_vec d k)[pos - 1 := finish_vec d k ! (pos - 1) + 1] else finish_vec d k')"
  by (simp add: count_finish_def finish_vec_def Let_def)

lemma finish_vec_Nil: "finish_vec [] k = replicate 10 0"
  by (simp add: finish_vec_def)

lemma finishes_nopd_snoc:
  "finishes_nopd ids (rs @ [r]) =
     (if res_raceId r \<in> set ids \<and> py_isdigit (position r)
           \<and> 1 \<le> digits_acc 0 (position r) \<and> digits_acc 0 (position r) \<le> 10
      then count_finish (finishes_nopd ids rs) (res_driverId r) (digits_acc 0 (position r))
      else finishes_nopd ids rs)"
  by (simp add: finishes_nopd_def Let_def)

lemma finishes_nopd_vec:
  "length (finish_vec (finishes_nopd ids rs) k) = 10 \<and>
   (\<forall>p. 1 \<le> p \<and> p \<le> 10 \<longrightarrow>
        finish_vec (finishes_nopd ids rs) k ! (p - 1) = length (filter (classified_at ids k p) rs))"
proof (induction rs rule: rev_induct)
  case Nil
  then show ?case by (auto simp: finishes_nopd_def finish_vec_Nil nth_replicate)
next
  case (snoc r rs)
  let ?v = "finish_vec (finishes_nopd ids rs) k"
  let ?q = "digits_acc 0 (position r)"
  show ?case
  proof (cases "res_raceId r \<in> set ids \<and> py_isdigit (position r) \<and> 1 \<le> ?q \<and> ?q \<le> 10 \<and> res_driverId r = k")
    case True
    then have "finish_vec (finishes_nopd ids (rs @ [r])) k = ?v[?q - 1 := ?v ! (?q - 1) + 1]"
      by (simp add: finishes_nopd_snoc finish_vec_count_finish)
    moreover have "\<And>p. classified_at ids k p r \<longleftrightarrow> p = ?q"
      using True by (auto simp: classified_at_def)
    ultimately show ?thesis using snoc True by (auto simp: nth_list_update)
  next
    case False
    then have "finish_vec (finishes_nopd ids (rs @ [r])) k = ?v"
      by (auto simp: finishes_nopd_snoc finish_vec_count_finish)
    moreover have "\<And>p. 1 \<le> p \<and> p \<le> 10 \<Longrightarrow> \<not> classified_at ids k p r"
      using False by (auto simp: classified_at_def)
    ultimately show ?thesis using snoc by simp
  qed
qed

text \<open>
  C7: for a finishing place p between 1 and 10, the iterative strategy's count
  \<open>finishes[k][p - 1]\<close> is the number of results of driver k in a race of the
  season with \<open>position\<close> the digits of p.
\<close>

theorem finishes_nopd_counts:
  assumes "1 \<le> p" "p \<le> 10"
  shows "finish_vec (finishes_nopd ids rs) k ! (p - 1) = length (filter (classified_at ids k p) rs)"
  using finishes_nopd_vec assms by blast

theorem finishes_nopd_counts_witness:
  "finish_vec (finishes_nopd [''9'', ''10''] (results rk_db)) ''1'' ! (2 - 1) = 1"
proof -
  have "finish_vec (finishes_nopd [''9'', ''10''] (results rk_db)) ''1'' ! (2 - 1) =
        length (filter (classified_at [''9'', ''10''] ''1'' 2) (results rk_db))"
    using finishes_nopd_counts [of 2] by simp
  also have "\<dots> = 1" by code_simp
  finally show ?thesis .
qed


text \<open>
  C12: for a season without races, on a races table whose years all parse, the
  iterative strategy raises \<open>ValueError\<close> (\<open>max\<close> of no race id) and the library
  strategy raises \<open>TypeError\<close> (\<open>range\<close> up to a missing maximum).
\<close>

theorem ranking_empty_season:
  assumes "\<forall>r \<in> set (races db). py_int (year r) \<noteq> None \<and> py_int (year r) \<noteq> Some yy"
  shows "ranking_rows_nopd db yy = Inl ValueError \<and> ranking_rows_pd db yy = Inl TypeError"
proof -
  have "races_yy_nopd (races db) yy = Inr []"
    using assms by (simp add: races_yy_nopd_def list_all_iff filter_empty_conv)
  moreover have "races_yy_pd (races db) yy = []"
    using assms by (simp add: races_yy_pd_def filter_empty_conv)
  then have "pc_columns (results_yy_pd (results db) (pd_keys raceId (races_yy_pd (races db) yy))) = []"
    by (simp add: pd_keys_def results_yy_pd_def pc_columns_def List.map_filter_simps
                  filter_empty_conv split: option.splits)
  then have "ranking_rows_pd db yy = Inl TypeError"
    unfolding ranking_rows_pd_def Let_def by (simp only: refl if_True)
  ultimately show ?thesis by (simp add: ranking_rows_nopd_def)
qed

theorem ranking_empty_season_witness:
  "ranking_rows_nopd rk_db 2010 = Inl ValueError \<and> ranking_rows_pd rk_db 2010 = Inl TypeError"
proof -
  have "\<forall>r \<in> set (races rk_db). py_int (year r) \<noteq> None \<and> py_int (year r) \<noteq> Some 2010"
    by code_simp
  then show ?thesis by (rule ranking_empty_season)
qed

end
