(* ===== verification/Mean_Grid.thy ===== *)
theory Mean_Grid
  imports F1_Tables Frames
begin

text \<open>
  "What is a driver's average starting position?" in its two strategies:
  \<open>driver_mean_grid_nopd\<close> (src/src/analysis/homemade/q1.py) and
  \<open>driver_mean_grid\<close> (src/src/analysis/pandas/q1.py). The iterative strategy
  takes the first driver with the given forename and surname and compares
  driver ids as strings; the library strategy requires exactly one such driver
  (\<open>squeeze()\<close> of several rows is a Series, whose truth value raises) and compares
  integers. The mean is exact (a rational) and rounded half to even.
\<close>

section \<open>Iterative strategy\<close>

text \<open>The first loop: the id of the first matching driver; none leaves \<open>driver_Id\<close> unbound.\<close>

definition driver_id_nopd :: "driver_row list \<Rightarrow> string \<Rightarrow> string \<Rightarrow> string option" where
  "driver_id_nopd ds first_name last_name =
     map_option driverId (find (\<lambda>line. forename line = first_name \<and> surname line = last_name) ds)"

text \<open>
  The second loop. Reading the unbound \<open>driver_Id\<close> raises \<open>UnboundLocalError\<close>
  at the first result row; \<open>int(line['grid'])\<close> raises \<open>ValueError\<close> on a bad field.
\<close>

fun grid_list_nopd :: "result_row list \<Rightarrow> string option \<Rightarrow> int list py_result" where
  "grid_list_nopd [] driver_Id = Inr []"
| "grid_list_nopd (line # ls) None = Inl UnboundLocalError"
| "grid_list_nopd (line # ls) (Some i) =
     (if res_driverId line = i then
        (case py_int (grid line) of
           None \<Rightarrow> Inl ValueError
         | Some g \<Rightarrow> map_sum id (Cons g) (grid_list_nopd ls (Some i)))
      else grid_list_nopd ls (Some i))"

definition mean_grid_sentence :: "string \<Rightarrow> string \<Rightarrow> int \<Rightarrow> string" where
  "mean_grid_sentence first_name last_name m =
     first_name @ '' '' @ last_name @ CHR 0x27 # ''s mean position on the grid is '' @ int_str m"

text \<open>\<open>round(sum(l) / len(l))\<close>: an empty list divides by zero.\<close>

definition round_mean :: "int list \<Rightarrow> int py_result" where
  "round_mean gs =
     (if gs = [] then Inl ZeroDivisionError
      else Inr (py_round (of_int (sum_list gs) / of_nat (length gs))))"

definition driver_mean_grid_nopd :: "f1_db \<Rightarrow> string \<Rightarrow> string \<Rightarrow> string py_result" where
  "driver_mean_grid_nopd db first_name last_name =
     (case grid_list_nopd (results db) (driver_id_nopd (drivers db) first_name last_name) of
        Inl e \<Rightarrow> Inl e
      | Inr gs \<Rightarrow> map_sum id (mean_grid_sentence first_name last_name) (round_mean gs))"

section \<open>Library strategy\<close>

text \<open>
  \<open>drivers[(forename == f) & (surname == s)]['driverId']\<close>: the ids of all
  matching rows, \<open>None\<close> for a cell \<open>read_csv\<close> could not parse.
\<close>

definition driver_ids_pd :: "driver_row list \<Rightarrow> string \<Rightarrow> string \<Rightarrow> int option list" where
  "driver_ids_pd ds first_name last_name =
     map (\<lambda>d. py_int (driverId d)) (filter (\<lambda>d. forename d = first_name \<and> surname d = last_name) ds)"

text \<open>\<open>results[results['driverId'] == driver_id]['grid']\<close>, NaN cells dropped by \<open>mean()\<close>.\<close>

definition grids_pd :: "result_row list \<Rightarrow> int \<Rightarrow> int list" where
  "grids_pd rs i = pd_keys grid (filter (\<lambda>r. py_int (res_driverId r) = Some i) rs)"

text \<open>
  \<open>squeeze()\<close> yields a scalar for exactly one row and a Series otherwise; a
  Series has no truth value and a NaN id raises \<open>'Driver not found'\<close>: both are
  \<open>ValueError\<close>. \<open>round()\<close> of the NaN mean of no grid raises \<open>ValueError\<close> too.
\<close>

definition driver_mean_grid :: "f1_db \<Rightarrow> string \<Rightarrow> string \<Rightarrow> string py_result" where
  "driver_mean_grid db first_name last_name =
     (case driver_ids_pd (drivers db) first_name last_name of
        [Some driver_id] \<Rightarrow>
          (let gs = grids_pd (results db) driver_id in
           if gs = [] then Inl ValueError
           else Inr (mean_grid_sentence first_name last_name
                       (py_round (of_int (sum_list gs) / of_nat (length gs)))))
      | _ \<Rightarrow> Inl ValueError)"

section \<open>Example data\<close>

definition mg_driver :: "string \<Rightarrow> string \<Rightarrow> string \<Rightarrow> driver_row" where
  "mg_driver i f l = \<lparr>driverId = i, forename = f, surname = l, nationality = []\<rparr>"

definition mg_result :: "string \<Rightarrow> string \<Rightarrow> string \<Rightarrow> result_row" where
  "mg_result ra d g = \<lparr>res_raceId = ra, res_driverId = d, res_constructorId = ''1'', grid = g,
                       position = ''1'', positionOrder = ''1'', res_statusId = ''1''\<rparr>"

text \<open>Lewis Hamilton started from grid places 1, 2 and 3; Max Verstappen once from 1.\<close>

definition mg_db :: f1_db where
  "mg_db = \<lparr>drivers = [mg_driver ''1'' ''Lewis'' ''Hamilton'', mg_driver ''830'' ''Max'' ''Verstappen''],
    results = [mg_result ''1'' ''1'' ''1'', mg_result ''1'' ''830'' ''1'', mg_result ''2'' ''1'' ''2'',
               mg_result ''3'' ''1'' ''3''],
    races = [], driver_standings = [], constructor_standings = [], constructors = [], circuits = [],
    statuses = [], pit_stops = [], lap_times = [], qualifying = []\<rparr>"


section \<open>The grid list and the mean\<close>

lemma grid_list_nopd_Some:
  "grid_list_nopd rs (Some i) =
     (if list_all (\<lambda>r. res_driverId r = i \<longrightarrow> py_int (grid r) \<noteq> None) rs
      then Inr (map (\<lambda>r. the (py_int (grid r))) (filter (\<lambda>r. res_driverId r = i) rs))
      else Inl ValueError)"
  by (induction rs) (auto split: option.splits)

lemma grid_list_nopd_None: "rs \<noteq> [] \<Longrightarrow> grid_list_nopd rs None = Inl UnboundLocalError"
  by (cases rs) simp_all


lemma driver_id_nopd_None:
  "driver_id_nopd ds f l = None \<longleftrightarrow> filter (\<lambda>d. forename d = f \<and> surname d = l) ds = []"
  by (auto simp: driver_id_nopd_def find_None_iff filter_empty_conv)

lemma driver_id_nopd_unique:
  "filter (\<lambda>d. forename d = f \<and> surname d = l) ds = [d] \<Longrightarrow> driver_id_nopd ds f l = Some (driverId d)"
  by (simp add: driver_id_nopd_def find_filter_Cons)

text \<open>
  On canonical ids, the library's integer match selects the results the
  iterative string match selects.
\<close>

lemma filter_res_driver_canonical:
  assumes "\<forall>r \<in> set rs. canonical_int (res_driverId r)" "canonical_int i"
  shows "filter (\<lambda>r. py_int (res_driverId r) = Some (the (py_int i))) rs = filter (\<lambda>r. res_driverId r = i) rs"
  using assms py_int_match_canonical by (auto intro: filter_cong)

section \<open>Properties\<close>

text \<open>
  C3: when exactly one driver has the given name, its id and the result's
  driver ids are canonical, its grid fields parse and it has a result, both
  strategies return the same sentence, with the rounded mean of its grid places.
\<close>

theorem mean_grid_strategies_agree:
  assumes uniq: "filter (\<lambda>d. forename d = f \<and> surname d = l) (drivers db) = [d]"
    and cid: "canonical_int (driverId d)"
    and cres: "\<forall>r \<in> set (results db). canonical_int (res_driverId r)"
    and grids: "list_all (\<lambda>r. res_driverId r = driverId d \<longrightarrow> py_int (grid r) \<noteq> None) (results db)"
    and raced: "driverId d \<in> set (map res_driverId (results db))"
  defines "gs \<equiv> map (\<lambda>r. the (py_int (grid r))) (filter (\<lambda>r. res_driverId r = driverId d) (results db))"
  shows "driver_mean_grid_nopd db f l = Inr (mean_grid_sentence f l (py_round (of_int (sum_list gs) / of_nat (length gs))))
       \<and> driver_mean_grid db f l = driver_mean_grid_nopd db f l"
proof -
  have ne: "gs \<noteq> []" using raced by (auto simp: gs_def filter_empty_conv)
  have nopd: "driver_mean_grid_nopd db f l = Inr (mean_grid_sentence f l (py_round (of_int (sum_list gs) / of_nat (length gs))))"
    using ne grids
    by (simp add: driver_mean_grid_nopd_def driver_id_nopd_unique [OF uniq] grid_list_nopd_Some
                  gs_def round_mean_def)
  have "driver_ids_pd (drivers db) f l = [Some (the (py_int (driverId d)))]"
    using uniq canonical_int_Some [OF cid] by (auto simp: driver_ids_pd_def)
  moreover have "grids_pd (results db) (the (py_int (driverId d))) = gs"
  proof -
    have "list_all (\<lambda>r. py_int (grid r) \<noteq> None) (filter (\<lambda>r. res_driverId r = driverId d) (results db))"
      using grids by (simp add: list_all_iff)
    then show ?thesis
      by (simp add: grids_pd_def filter_res_driver_canonical [OF cres cid] pd_keys_all_parse gs_def)
  qed
  ultimately have "driver_mean_grid db f l = Inr (mean_grid_sentence f l (py_round (of_int (sum_list gs) / of_nat (length gs))))"
    using ne by (simp add: driver_mean_grid_def)
  with nopd show ?thesis by simp
qed

theorem mean_grid_strategies_agree_witness:
  "driver_mean_grid_nopd mg_db ''Lewis'' ''Hamilton'' = Inr (mean_grid_sentence ''Lewis'' ''Hamilton'' 2)
   \<and> driver_mean_grid mg_db ''Lewis'' ''Hamilton'' = driver_mean_grid_nopd mg_db ''Lewis'' ''Hamilton''"
proof -
  have h: "filter (\<lambda>d. forename d = ''Lewis'' \<and> surname d = ''Hamilton'') (drivers mg_db) = [mg_driver ''1'' ''Lewis'' ''Hamilton'']"
    "canonical_int (driverId (mg_driver ''1'' ''Lewis'' ''Hamilton''))"
    "\<forall>r \<in> set (results mg_db). canonical_int (res_driverId r)"
    "list_all (\<lambda>r. res_driverId r = driverId (mg_driver ''1'' ''Lewis'' ''Hamilton'') \<longrightarrow> py_int (grid r) \<noteq> None) (results mg_db)"
    "driverId (mg_driver ''1'' ''Lewis'' ''Hamilton'') \<in> set (map res_driverId (results mg_db))"
    by code_simp+
  have m: "py_round (of_int (sum_list (map (\<lambda>r. the (py_int (grid r)))
              (filter (\<lambda>r. res_driverId r = driverId (mg_driver ''1'' ''Lewis'' ''Hamilton'')) (results mg_db)))) /
            of_nat (length (map (\<lambda>r. the (py_int (grid r)))
              (filter (\<lambda>r. res_driverId r = driverId (mg_driver ''1'' ''Lewis'' ''Hamilton'')) (results mg_db))))) = 2"
    by code_simp
  show ?thesis using mean_grid_strategies_agree [OF h] m by simp
qed

text \<open>
  C11: for a name no driver has, the iterative strategy raises
  \<open>UnboundLocalError\<close> (or \<open>ZeroDivisionError\<close> when there is no result at all,
  the loop body never reading \<open>driver_Id\<close>) and the library strategy raises
  \<open>ValueError\<close>; neither returns a sentence.
\<close>

theorem mean_grid_unknown_driver:
  assumes "filter (\<lambda>d. forename d = f \<and> surname d = l) (drivers db) = []"
  shows "driver_mean_grid_nopd db f l = Inl (if results db = [] then ZeroDivisionError else UnboundLocalError)
       \<and> driver_mean_grid db f l = Inl ValueError"
proof -
  have "driver_id_nopd (drivers db) f l = None" using assms by (simp add: driver_id_nopd_None)
  then have "driver_mean_grid_nopd db f l = Inl (if results db = [] then ZeroDivisionError else UnboundLocalError)"
    by (cases "results db") (simp_all add: driver_mean_grid_nopd_def round_mean_def)
  moreover have "driver_mean_grid db f l = Inl ValueError"
    using assms by (simp add: driver_mean_grid_def driver_ids_pd_def)
  ultimately show ?thesis by simp
qed

theorem mean_grid_unknown_driver_witness:
  "driver_mean_grid_nopd mg_db ''Ayrton'' ''Senna'' = Inl UnboundLocalError
   \<and> driver_mean_grid mg_db ''Ayrton'' ''Senna'' = Inl ValueError"
proof -
  have "filter (\<lambda>d. forename d = ''Ayrton'' \<and> surname d = ''Senna'') (drivers mg_db) = []"
       "results mg_db \<noteq> []"
    by code_simp+
  then show ?thesis using mean_grid_unknown_driver [of "''Ayrton''" "''Senna''" mg_db] by simp
qed



text \<open>
  The spec's example. A driver who started from places 1, 2 and 3 has the
  mean grid position 2 in both strategies.
\<close>

theorem mean_grid_spec_example:
  "driver_mean_grid_nopd mg_db ''Lewis'' ''Hamilton'' =
     Inr (''Lewis Hamilton'' @ CHR 0x27 # ''s mean position on the grid is 2'')
   \<and> driver_mean_grid mg_db ''Lewis'' ''Hamilton'' =
     Inr (''Lewis Hamilton'' @ CHR 0x27 # ''s mean position on the grid is 2'')"
  by code_simp


end
