(* ===== verification/Dnf.thy ===== *)
theory Dnf
  imports F1_Tables Frames Report_Format
begin

text \<open>
  "Which drivers have recorded the most DNFs?" in its two strategies:
  \<open>get_driver_with_most_dnfs_nopd\<close> (src/src/analysis/homemade/q2.py) and
  \<open>get_driver_with_most_dnfs\<close> (src/src/analysis/pandas/q2.py). A result is a DNF
  when its status is not a finishing or excluded one. The iterative strategy
  lists those statuses (\<open>+k Laps\<close> for k from 2 to 99); the library strategy
  matches them with a regular expression (\<open>+\<close>, any digits, \<open>Lap\<close> or \<open>Laps\<close>).
  Both count the DNF results per driver and keep the three largest counts, ties
  in order of the first DNF.
\<close>

section \<open>Iterative strategy\<close>

definition finished_and_excluded_status :: "string list" where
  "finished_and_excluded_status =
     [''Finished'', ''+1 Lap'', ''Withdrew'', ''Did not start'', ''Did not qualify'',
      ''Did not prequalify'', ''107% Rule'']
     @ map (\<lambda>i. ''+'' @ nat_str i @ '' Laps'') [2..<100]"

definition dnf_status_ids_nopd :: "status_row list \<Rightarrow> string list" where
  "dnf_status_ids_nopd st =
     map statusId (filter (\<lambda>line. status line \<notin> set finished_and_excluded_status) st)"

definition dnf_results_nopd :: "result_row list \<Rightarrow> string list \<Rightarrow> result_row list" where
  "dnf_results_nopd rs dnf_status_ids = filter (\<lambda>line. res_statusId line \<in> set dnf_status_ids) rs"

text \<open>The counting loop is the \<open>dict_incr\<close> idiom over the DNF results' driver ids.\<close>

definition dnf_counts_nopd :: "result_row list \<Rightarrow> (string, nat) dict" where
  "dnf_counts_nopd dnf_results = count_dict (map res_driverId dnf_results)"

definition top3_dnf_nopd :: "(string, nat) dict \<Rightarrow> (string, nat) dict" where
  "top3_dnf_nopd dnf_counts = dict_of (take 3 (sorted_desc snd dnf_counts))"

text \<open>\<open>id_to_name[driver_id]\<close> raises \<open>KeyError\<close> for an id missing from drivers.csv.\<close>

definition top3_dnf_named_nopd :: "driver_row list \<Rightarrow> (string, nat) dict \<Rightarrow> (string, nat) dict py_result" where
  "top3_dnf_named_nopd ds top3_dnf =
     (let id_to_name = dict_of (map (\<lambda>d. (driverId d, full_name d)) ds) in
      if list_all (\<lambda>(i, c). i \<in> set (map fst id_to_name)) top3_dnf
      then Inr (dict_of (map (\<lambda>(i, c). (the (map_of id_to_name i), c)) top3_dnf))
      else Inl KeyError)"

definition dnf_rows_nopd :: "f1_db \<Rightarrow> (string, nat) dict py_result" where
  "dnf_rows_nopd db =
     top3_dnf_named_nopd (drivers db)
       (top3_dnf_nopd (dnf_counts_nopd (dnf_results_nopd (results db) (dnf_status_ids_nopd (statuses db)))))"

definition get_driver_with_most_dnfs_nopd :: "f1_db \<Rightarrow> string py_result" where
  "get_driver_with_most_dnfs_nopd db =
     (case dnf_rows_nopd db of
        Inl e \<Rightarrow> Inl e
      | Inr named \<Rightarrow> format_dict ''DNFs'' (map (\<lambda>(k, v). (Some k, v)) named) ''Drivers with most DNFs'')"

section \<open>Library strategy\<close>

text \<open>
  \<open>str.match(r'^(Finished|\+\d+ Lap[s]?|Withdrew|...|107% Rule)$')\<close>. The
  alternatives other than the lap deficits are literal; \<open>\d+\<close> is read on ASCII
  digits; \<open>$\<close> also matches before a final newline.
\<close>

definition lap_deficit :: "string \<Rightarrow> bool" where
  "lap_deficit s \<longleftrightarrow>
     (case s of
        c # rest \<Rightarrow> c = CHR ''+'' \<and> takeWhile ascii_digit rest \<noteq> []
                   \<and> dropWhile ascii_digit rest \<in> {'' Lap'', '' Laps''}
      | [] \<Rightarrow> False)"

definition status_pattern :: "string \<Rightarrow> bool" where
  "status_pattern s \<longleftrightarrow>
     s \<in> {''Finished'', ''Withdrew'', ''Did not start'', ''Did not qualify'', ''Did not prequalify'',
          ''107% Rule''} \<or> lap_deficit s"

definition status_match :: "string \<Rightarrow> bool" where
  "status_match s \<longleftrightarrow>
     status_pattern s \<or> (s \<noteq> [] \<and> last s = CHR ''\<newline>'' \<and> status_pattern (butlast s))"

definition finished_and_excluded_status_pd :: "status_row list \<Rightarrow> string list" where
  "finished_and_excluded_status_pd st = map status (filter (\<lambda>r. status_match (status r)) st)"

definition dnf_status_ids_pd :: "status_row list \<Rightarrow> int list" where
  "dnf_status_ids_pd st =
     pd_keys statusId (filter (\<lambda>r. status r \<notin> set (finished_and_excluded_status_pd st)) st)"

definition dnf_results_pd :: "result_row list \<Rightarrow> int list \<Rightarrow> result_row list" where
  "dnf_results_pd rs dnf_status_ids =
     filter (\<lambda>r. case py_int (res_statusId r) of Some i \<Rightarrow> i \<in> set dnf_status_ids | None \<Rightarrow> False) rs"

text \<open>\<open>dnf_results['driverId'].value_counts().head(3)\<close>.\<close>

definition dnf_counts_pd :: "result_row list \<Rightarrow> (int \<times> nat) list" where
  "dnf_counts_pd dnf_results = take 3 (value_counts (pd_keys res_driverId dnf_results))"

text \<open>\<open>drivers[drivers['driverId'] == driver_id].iloc[0]\<close>: \<open>IndexError\<close> when absent.\<close>

definition dnf_line_pd :: "driver_row list \<Rightarrow> int \<times> nat \<Rightarrow> string py_result" where
  "dnf_line_pd ds dc =
     (case dc of (driver_id, cnt) \<Rightarrow>
        case find (\<lambda>d. py_int (driverId d) = Some driver_id) ds of
          None \<Rightarrow> Inl IndexError
        | Some driver \<Rightarrow> Inr (py_ljust (full_name driver) 25 @ '' '' @ py_rjust (nat_str cnt) 5 @ '' DNFs''))"

definition rule53 :: string where
  "rule53 = replicate 53 CHR ''-''"

definition get_driver_with_most_dnfs :: "f1_db \<Rightarrow> string py_result" where
  "get_driver_with_most_dnfs db =
     (case py_map (dnf_line_pd (drivers db))
             (dnf_counts_pd (dnf_results_pd (results db) (dnf_status_ids_pd (statuses db)))) of
        Inl e \<Rightarrow> Inl e
      | Inr rows \<Rightarrow> Inr (py_join ''\<newline>'' ([''Drivers with most DNFs'', rule53] @ rows @ [rule53])))"

section \<open>Well-formed status tables and example data\<close>

text \<open>
  A status table on which the allow-list and the regular expression agree:
  every lap-deficit status is on the list, and no status ends in a newline.
\<close>

definition plain_statuses :: "status_row list \<Rightarrow> bool" where
  "plain_statuses st \<longleftrightarrow>
     list_all (\<lambda>r. (lap_deficit (status r) \<longrightarrow> status r \<in> set finished_and_excluded_status)
                  \<and> (status r = [] \<or> last (status r) \<noteq> CHR ''\<newline>'')) st"

definition dnf_status :: "string \<Rightarrow> string \<Rightarrow> status_row" where
  "dnf_status i s = \<lparr>statusId = i, status = s\<rparr>"

definition dnf_result :: "string \<Rightarrow> string \<Rightarrow> result_row" where
  "dnf_result d st = \<lparr>res_raceId = ''1'', res_driverId = d, res_constructorId = ''1'', grid = ''1'',
                      position = [CHR 0x5C, CHR ''N''], positionOrder = ''20'', res_statusId = st\<rparr>"

definition dnf_db :: f1_db where
  "dnf_db = \<lparr>drivers = [\<lparr>driverId = ''1'', forename = ''Lewis'', surname = ''Hamilton'', nationality = []\<rparr>,
                        \<lparr>driverId = ''4'', forename = ''Fernando'', surname = ''Alonso'', nationality = []\<rparr>,
                        \<lparr>driverId = ''8'', forename = ''Kimi'', surname = ''Raikkonen'', nationality = []\<rparr>,
                        \<lparr>driverId = ''18'', forename = ''Jenson'', surname = ''Button'', nationality = []\<rparr>],
    results = [dnf_result ''4'' ''3'', dnf_result ''8'' ''5'', dnf_result ''1'' ''1'', dnf_result ''18'' ''4'',
               dnf_result ''8'' ''3'', dnf_result ''4'' ''11'', dnf_result ''18'' ''5'', dnf_result ''1'' ''3''],
    races = [], driver_standings = [], constructor_standings = [], constructors = [], circuits = [],
    statuses = [dnf_status ''1'' ''Finished'', dnf_status ''3'' ''Accident'', dnf_status ''4'' ''Collision'',
                dnf_status ''5'' ''Engine'', dnf_status ''11'' ''+1 Lap''],
    pit_stops = [], lap_times = [], qualifying = []\<rparr>"

section \<open>The classification of statuses\<close>

lemma finished_list_matches: "list_all status_match finished_and_excluded_status"
  by code_simp

lemma literals_finished:
  "{''Finished'', ''Withdrew'', ''Did not start'', ''Did not qualify'', ''Did not prequalify'', ''107% Rule''}
     \<subseteq> set finished_and_excluded_status"
  by code_simp

lemma status_match_no_newline:
  "s = [] \<or> last s \<noteq> CHR ''\<newline>'' \<Longrightarrow> status_match s = status_pattern s"
  by (auto simp: status_match_def)

lemma status_match_finished:
  assumes "lap_deficit s \<longrightarrow> s \<in> set finished_and_excluded_status" "s = [] \<or> last s \<noteq> CHR ''\<newline>''"
  shows "status_match s \<longleftrightarrow> s \<in> set finished_and_excluded_status"
proof
  assume "status_match s"
  then have "status_pattern s" using assms(2) by (simp add: status_match_no_newline)
  then show "s \<in> set finished_and_excluded_status"
    using assms(1) literals_finished by (auto simp: status_pattern_def)
next
  assume "s \<in> set finished_and_excluded_status"
  then show "status_match s" using finished_list_matches by (simp add: list_all_iff)
qed

text \<open>The library's two-step exclusion is a filter on the pattern.\<close>

lemma dnf_rows_pd:
  "filter (\<lambda>r. status r \<notin> set (finished_and_excluded_status_pd st)) st
     = filter (\<lambda>r. \<not> status_match (status r)) st"
  by (rule filter_cong) (auto simp: finished_and_excluded_status_pd_def)

lemma dnf_rows_agree:
  assumes "plain_statuses st"
  shows "filter (\<lambda>r. \<not> status_match (status r)) st
           = filter (\<lambda>line. status line \<notin> set finished_and_excluded_status) st"
  using assms status_match_finished by (auto simp: plain_statuses_def list_all_iff intro: filter_cong)

section \<open>Counting\<close>

lemma dnf_status_ids_agree:
  assumes "plain_statuses st" "\<forall>r \<in> set st. canonical_int (statusId r)"
  shows "dnf_status_ids_pd st = map (\<lambda>s. the (py_int s)) (dnf_status_ids_nopd st)"
proof -
  have "dnf_status_ids_pd st = pd_keys statusId (filter (\<lambda>line. status line \<notin> set finished_and_excluded_status) st)"
    by (simp add: dnf_status_ids_pd_def dnf_rows_pd dnf_rows_agree [OF assms(1)])
  also have "\<dots> = map (\<lambda>r. the (py_int (statusId r))) (filter (\<lambda>line. status line \<notin> set finished_and_excluded_status) st)"
    using assms(2) by (simp add: pd_keys_canonical)
  finally show ?thesis by (simp add: dnf_status_ids_nopd_def)
qed

lemma dnf_results_agree:
  assumes "\<forall>r \<in> set rs. canonical_int (res_statusId r)" "\<forall>i \<in> set ids. canonical_int i"
  shows "dnf_results_pd rs (map (\<lambda>s. the (py_int s)) ids) = dnf_results_nopd rs ids"
  unfolding dnf_results_pd_def dnf_results_nopd_def
proof (rule filter_cong)
  fix r assume r: "r \<in> set rs"
  then obtain j where j: "py_int (res_statusId r) = Some j" using assms(1) canonical_int_Some by blast
  have "j \<in> set (map (\<lambda>s. the (py_int s)) ids) \<longleftrightarrow> res_statusId r \<in> set ids"
  proof
    assume "j \<in> set (map (\<lambda>s. the (py_int s)) ids)"
    then obtain i where "i \<in> set ids" "j = the (py_int i)" by auto
    with j r assms py_int_match_canonical show "res_statusId r \<in> set ids" by metis
  next
    assume "res_statusId r \<in> set ids"
    then show "j \<in> set (map (\<lambda>s. the (py_int s)) ids)" using j by force
  qed
  with j show "(case py_int (res_statusId r) of Some i \<Rightarrow> i \<in> set (map (\<lambda>s. the (py_int s)) ids) | None \<Rightarrow> False)
               = (res_statusId r \<in> set ids)" by simp
qed simp

lemma top3_dnf_nopd_count_dict: "top3_dnf_nopd (count_dict xs) = take 3 (value_counts xs)"
proof -
  have "distinct (map fst (take 3 (value_counts xs)))"
    using distinct_keys_value_counts [of xs] by (simp add: take_map [symmetric])
  then show ?thesis by (simp add: top3_dnf_nopd_def value_counts_def dict_of_distinct)
qed

lemma dnf_counts_agree:
  assumes "\<forall>r \<in> set dnf. canonical_int (res_driverId r)"
  shows "dnf_counts_pd dnf = map (\<lambda>(k, c). (the (py_int k), c)) (top3_dnf_nopd (dnf_counts_nopd dnf))"
proof -
  have inj: "inj_on (\<lambda>s. the (py_int s)) (set (map res_driverId dnf))"
    using assms by (auto intro: inj_on_subset [OF canonical_int_the_inj])
  have "pd_keys res_driverId dnf = map (\<lambda>s. the (py_int s)) (map res_driverId dnf)"
    using assms by (simp add: pd_keys_canonical)
  then have "dnf_counts_pd dnf = take 3 (value_counts (map (\<lambda>s. the (py_int s)) (map res_driverId dnf)))"
    by (simp only: dnf_counts_pd_def)
  also have "\<dots> = map (\<lambda>(k, c). (the (py_int k), c)) (take 3 (value_counts (map res_driverId dnf)))"
    by (simp only: value_counts_map_inj [OF inj] take_map)
  finally show ?thesis
    by (simp only: dnf_counts_nopd_def top3_dnf_nopd_count_dict)
qed

section \<open>Properties\<close>

text \<open>
  C2: on a status table where the allow-list and the pattern agree, with
  canonical status and driver ids, both strategies select the same DNF results
  and report the same three (driver id, DNF count) pairs in the same order.
\<close>

theorem dnf_strategies_agree:
  assumes "plain_statuses (statuses db)"
    and "\<forall>r \<in> set (statuses db). canonical_int (statusId r)"
    and "\<forall>r \<in> set (results db). canonical_int (res_statusId r) \<and> canonical_int (res_driverId r)"
  shows "dnf_counts_pd (dnf_results_pd (results db) (dnf_status_ids_pd (statuses db)))
       = map (\<lambda>(k, c). (the (py_int k), c))
             (top3_dnf_nopd (dnf_counts_nopd (dnf_results_nopd (results db) (dnf_status_ids_nopd (statuses db)))))"
proof -
  let ?ids = "dnf_status_ids_nopd (statuses db)"
  have "\<forall>i \<in> set ?ids. canonical_int i" using assms(2) by (auto simp: dnf_status_ids_nopd_def)
  then have "dnf_results_pd (results db) (dnf_status_ids_pd (statuses db)) = dnf_results_nopd (results db) ?ids"
    using assms by (simp add: dnf_status_ids_agree dnf_results_agree)
  moreover have "\<forall>r \<in> set (dnf_results_nopd (results db) ?ids). canonical_int (res_driverId r)"
    using assms(3) by (simp add: dnf_results_nopd_def)
  ultimately show ?thesis by (simp add: dnf_counts_agree)
qed

theorem dnf_strategies_agree_witness:
  "dnf_counts_pd (dnf_results_pd (results dnf_db) (dnf_status_ids_pd (statuses dnf_db))) = [(8, 2), (18, 2), (4, 1)]
   \<and> map (\<lambda>(k, c). (the (py_int k), c))
         (top3_dnf_nopd (dnf_counts_nopd (dnf_results_nopd (results dnf_db) (dnf_status_ids_nopd (statuses dnf_db)))))
       = [(8, 2), (18, 2), (4, 1)]"
proof -
  have h: "plain_statuses (statuses dnf_db)"
    "\<forall>r \<in> set (statuses dnf_db). canonical_int (statusId r)"
    "\<forall>r \<in> set (results dnf_db). canonical_int (res_statusId r) \<and> canonical_int (res_driverId r)"
    by code_simp+
  have "dnf_counts_pd (dnf_results_pd (results dnf_db) (dnf_status_ids_pd (statuses dnf_db))) = [(8, 2), (18, 2), (4, 1)]"
    by code_simp
  with dnf_strategies_agree [OF h] show ?thesis by simp
qed



text \<open>
  C14: when every status is a finishing or excluded one there is no DNF; the
  iterative report then raises \<open>ValueError\<close> (\<open>max\<close> of the empty dict in
  \<open>format_dict\<close>), while the library report is the title between two rules.
\<close>

theorem dnf_none:
  assumes "\<forall>r \<in> set (statuses db). status r \<in> set finished_and_excluded_status"
  shows "get_driver_with_most_dnfs_nopd db = Inl ValueError
       \<and> get_driver_with_most_dnfs db = Inr (''Drivers with most DNFs'' @ ''\<newline>'' @ rule53 @ ''\<newline>'' @ rule53)"
proof -
  have ids: "dnf_status_ids_nopd (statuses db) = []"
    using assms by (simp add: dnf_status_ids_nopd_def filter_empty_conv)
  have "\<forall>r \<in> set (statuses db). status_match (status r)"
    using assms finished_list_matches by (simp add: list_all_iff)
  then have ids_pd: "dnf_status_ids_pd (statuses db) = []"
    by (simp add: dnf_status_ids_pd_def dnf_rows_pd filter_empty_conv pd_keys_def List.map_filter_simps)
  have "dnf_rows_nopd db = Inr []"
    by (simp add: dnf_rows_nopd_def ids dnf_results_nopd_def dnf_counts_nopd_def count_dict_def
                  top3_dnf_nopd_def sorted_desc_def dict_of_def top3_dnf_named_nopd_def Let_def)
  then have "get_driver_with_most_dnfs_nopd db = Inl ValueError"
    by (simp add: get_driver_with_most_dnfs_nopd_def format_dict_empty)
  moreover have "dnf_results_pd (results db) [] = []"
    by (simp add: dnf_results_pd_def filter_empty_conv split: option.splits)
  then have "get_driver_with_most_dnfs db = Inr (''Drivers with most DNFs'' @ ''\<newline>'' @ rule53 @ ''\<newline>'' @ rule53)"
    by (simp add: get_driver_with_most_dnfs_def ids_pd dnf_counts_pd_def pd_keys_def List.map_filter_simps
                  value_counts_def count_dict_def sorted_desc_def)
  ultimately show ?thesis by simp
qed

theorem dnf_none_witness:
  "get_driver_with_most_dnfs_nopd (dnf_db\<lparr>statuses := [dnf_status ''1'' ''Finished'', dnf_status ''11'' ''+1 Lap'']\<rparr>) = Inl ValueError
   \<and> get_driver_with_most_dnfs (dnf_db\<lparr>statuses := [dnf_status ''1'' ''Finished'', dnf_status ''11'' ''+1 Lap'']\<rparr>)
       = Inr (''Drivers with most DNFs'' @ ''\<newline>'' @ rule53 @ ''\<newline>'' @ rule53)"
proof -
  have "\<forall>r \<in> set (statuses (dnf_db\<lparr>statuses := [dnf_status ''1'' ''Finished'', dnf_status ''11'' ''+1 Lap'']\<rparr>)).
          status r \<in> set finished_and_excluded_status"
    by code_simp
  then show ?thesis by (rule dnf_none)
qed


end
