(* ===== verification/Pit_Stops.thy ===== *)
theory Pit_Stops
  imports F1_Tables Frames Py_Text
begin

text \<open>
  "What is the average pit stop time? The maximum? The minimum?":
  \<open>average_pit_stop_time\<close> (src/src/analysis/pandas/q8.py). Without
  \<open>outliers\<close>, stops longer than \<open>sup\<close> seconds are dropped; the mean, minimum and
  maximum in seconds are rounded to two decimals (half to even) and laid out in
  a table. No stop left gives NaN, printed \<open>nan\<close>.
\<close>

text \<open>\<open>pit_stops[pit_stops['milliseconds']/1000 <= sup]\<close> when \<open>not outliers\<close>.\<close>

definition stops_kept :: "bool \<Rightarrow> rat \<Rightarrow> pit_stop_row list \<Rightarrow> pit_stop_row list" where
  "stops_kept outliers sup_val ps =
     (if \<not> outliers
      then filter (\<lambda>r. case py_int (ps_milliseconds r) of Some m \<Rightarrow> of_int m / 1000 \<le> sup_val | None \<Rightarrow> False) ps
      else ps)"

text \<open>\<open>round(x / 1000, 2)\<close> of a statistic in milliseconds, NaN kept.\<close>

definition secs2 :: "rat option \<Rightarrow> rat option" where
  "secs2 x = map_option (\<lambda>v. py_round2 (v / 1000)) x"

definition pit_stats :: "bool \<Rightarrow> rat \<Rightarrow> pit_stop_row list \<Rightarrow> rat option \<times> rat option \<times> rat option" where
  "pit_stats outliers sup_val ps =
     (let ms = pd_keys ps_milliseconds (stops_kept outliers sup_val ps) in
      (secs2 (pd_mean ms), secs2 (map_option of_int (pd_min ms)), secs2 (map_option of_int (pd_max ms))))"

text \<open>\<open>f"{x:10.2f}"\<close>: two decimals, right-aligned in ten columns.\<close>

definition fmt_2f :: "rat option \<Rightarrow> string" where
  "fmt_2f x = (case x of
      None \<Rightarrow> ''nan''
    | Some v \<Rightarrow> (let r = py_round (v * 100); a = nat \<bar>r\<bar> in
                 (if r < 0 then ''-'' else []) @ nat_str (a div 100) @ ''.''
                 @ nat_str (a mod 100 div 10) @ nat_str (a mod 10)))"

definition fmt_10_2f :: "rat option \<Rightarrow> string" where
  "fmt_10_2f x = py_rjust (fmt_2f x) 10"

definition average_pit_stop_time :: "f1_db \<Rightarrow> bool \<Rightarrow> rat \<Rightarrow> string" where
  "average_pit_stop_time db outliers sup_val =
     (case pit_stats outliers sup_val (pit_stops db) of (avg, min_time, max_time) \<Rightarrow>
        replicate 37 CHR ''-'' @ ''\<newline>''
        @ '' Statistic                     Value \<newline>''
        @ replicate 38 CHR ''-'' @ ''\<newline>''
        @ '' Mean                      '' @ fmt_10_2f avg @ '' s \<newline>''
        @ '' Min                  '' @ fmt_10_2f min_time @ '' s \<newline>''
        @ '' Max                  '' @ fmt_10_2f max_time @ '' s \<newline>''
        @ replicate 37 CHR ''-'')"

definition ps_stop :: "string \<Rightarrow> pit_stop_row" where
  "ps_stop m = \<lparr>ps_driverId = ''1'', ps_milliseconds = m\<rparr>"

text \<open>The spec's example: stops of 10 s, 30 s and 90 s.\<close>

definition ps_example_db :: f1_db where
  "ps_example_db = \<lparr>drivers = [], results = [], races = [], driver_standings = [],
     constructor_standings = [], constructors = [], circuits = [], statuses = [],
     pit_stops = [ps_stop ''10000'', ps_stop ''30000'', ps_stop ''90000''], lap_times = [], qualifying = []\<rparr>"

lemmas ps_example_eval = pit_stats_def Let_def stops_kept_def secs2_def pd_mean_def pd_min_def
  pd_max_def ps_example_db_def ps_stop_def pd_keys_def List.map_filter_simps

lemma pit_stats_Some:
  assumes "pit_stats outliers sup_val ps = (Some a, Some mn, Some mx)"
  obtains ms where "ms = pd_keys ps_milliseconds (stops_kept outliers sup_val ps)" "ms \<noteq> []"
    "a = py_round2 ((of_int (sum_list ms) / of_nat (length ms)) / 1000)"
    "mn = py_round2 (of_int (Min (set ms)) / 1000)" "mx = py_round2 (of_int (Max (set ms)) / 1000)"
  using assms by (auto simp: pit_stats_def Let_def secs2_def pd_mean_def pd_min_def pd_max_def split: if_splits)


text \<open>C19: the reported mean lies between the reported minimum and maximum.\<close>

theorem pit_stats_ordered:
  assumes "pit_stats outliers sup_val ps = (Some a, Some mn, Some mx)"
  shows "mn \<le> a \<and> a \<le> mx"
proof -
  obtain ms where ms: "ms \<noteq> []"
    "a = py_round2 ((of_int (sum_list ms) / of_nat (length ms)) / 1000)"
    "mn = py_round2 (of_int (Min (set ms)) / 1000)" "mx = py_round2 (of_int (Max (set ms)) / 1000)"
    using pit_stats_Some [OF assms] by metis
  have "of_int (Min (set ms)) / 1000 \<le> (of_int (sum_list ms) / of_nat (length ms)) / (1000 :: rat)"
    using mean_bounds(1) [OF ms(1)] by (simp add: divide_right_mono)
  moreover have "(of_int (sum_list ms) / of_nat (length ms)) / 1000 \<le> of_int (Max (set ms)) / (1000 :: rat)"
    using mean_bounds(2) [OF ms(1)] by (simp add: divide_right_mono)
  ultimately show ?thesis using ms(2-4) py_round2_mono by simp
qed

theorem pit_stats_ordered_witness:
  "pit_stats True 60 (pit_stops ps_example_db) = (Some (4333 / 100), Some 10, Some 90)
   \<and> (10 :: rat) \<le> 4333 / 100 \<and> (4333 / 100 :: rat) \<le> 90"
proof -
  have h: "pit_stats True 60 (pit_stops ps_example_db) = (Some (4333 / 100), Some 10, Some 90)"
    by (simp add: ps_example_eval py_defs)
  show ?thesis using h pit_stats_ordered [OF h] by simp
qed



end
