(* ===== verification/Failures.thy ===== *)
theory Failures
  imports F1_Tables Frames Py_Text
begin

text \<open>
  Two counting queries of the library strategy. \<open>most_technical_issues_constructors\<close>
  (src/src/analysis/pandas/q7.py): the results whose status is a technical one,
  counted per constructor, the \<open>top_n\<close> largest named and laid out.
  \<open>nationalities\<close> (src/src/analysis/pandas/q6_graph.py): the number of drivers
  per nationality, whose bar chart is presentation and not modelled.
\<close>

section \<open>Technical failures per constructor\<close>

definition technical_statuses :: "string list" where
  "technical_statuses =
     [''Engine'', ''Transmission'', ''Clutch'', ''Hydraulics'', ''Electrical'',
      ''Suspension'', ''Overheating'', ''Fuel pressure'', ''Fuel system'',
      ''Oil leak'', ''Water leak'', ''Driveshaft'', ''Exhaust'',
      ''Power loss'', ''Wheel'', ''Brake failure'', ''Chassis'', ''Turbo'']"

definition tech_status_ids :: "status_row list \<Rightarrow> int list" where
  "tech_status_ids st = pd_keys statusId (filter (\<lambda>r. status r \<in> set technical_statuses) st)"

definition tech_failures :: "result_row list \<Rightarrow> int list \<Rightarrow> result_row list" where
  "tech_failures rs ids = pd_isin res_statusId rs ids"

definition failure_counts :: "result_row list \<Rightarrow> int \<Rightarrow> (int \<times> nat) list" where
  "failure_counts tf top_n = pd_head top_n (value_counts (pd_keys res_constructorId tf))"

text \<open>
  \<open>rename(index=lambda i: constructors.loc[constructorId == i, 'name'].values[0])\<close>:
  the first constructor row with the id; \<open>values[0]\<close> of none raises \<open>IndexError\<close>.
\<close>

definition constructor_name_pd :: "constructor_row list \<Rightarrow> int \<Rightarrow> string py_result" where
  "constructor_name_pd cs i =
     (case find (\<lambda>c. py_int (constructorId c) = Some i) cs of
        None \<Rightarrow> Inl IndexError
      | Some c \<Rightarrow> Inr (constructor_name c))"

definition failure_counts_named :: "constructor_row list \<Rightarrow> (int \<times> nat) list \<Rightarrow> (string \<times> nat) list py_result" where
  "failure_counts_named cs fc =
     py_map (\<lambda>(i, n). map_sum id (\<lambda>name. (name, n)) (constructor_name_pd cs i)) fc"

definition rule46 :: string where
  "rule46 = replicate 46 CHR ''-''"

definition most_technical_issues_constructors :: "f1_db \<Rightarrow> int \<Rightarrow> string py_result" where
  "most_technical_issues_constructors db top_n =
     (case failure_counts_named (constructors db)
             (failure_counts (tech_failures (results db) (tech_status_ids (statuses db))) top_n) of
        Inl e \<Rightarrow> Inl e
      | Inr named \<Rightarrow>
          Inr (py_join ''\<newline>''
                ([''Constructor                 Technical failures'', rule46]
                 @ map (\<lambda>(name, n). py_ljust name 25 @ '' '' @ py_rjust (nat_str n) 20) named
                 @ [rule46])))"

section \<open>Drivers per nationality\<close>

definition nationalities_counts :: "driver_row list \<Rightarrow> (string \<times> nat) list" where
  "nationalities_counts ds = value_counts (pd_strs nationality ds)"

section \<open>Example data\<close>

definition tf_result :: "string \<Rightarrow> string \<Rightarrow> result_row" where
  "tf_result c s = \<lparr>res_raceId = ''1'', res_driverId = ''1'', res_constructorId = c, grid = ''1'',
                    position = [CHR 0x5C, CHR ''N''], positionOrder = ''20'', res_statusId = s\<rparr>"

definition tf_db :: f1_db where
  "tf_db = \<lparr>drivers = [\<lparr>driverId = ''1'', forename = ''Lewis'', surname = ''Hamilton'', nationality = ''British''\<rparr>,
                       \<lparr>driverId = ''4'', forename = ''Fernando'', surname = ''Alonso'', nationality = ''Spanish''\<rparr>,
                       \<lparr>driverId = ''8'', forename = ''Jenson'', surname = ''Button'', nationality = ''British''\<rparr>],
    results = [tf_result ''6'' ''5'', tf_result ''1'' ''5'', tf_result ''6'' ''10'', tf_result ''3'' ''1'',
               tf_result ''1'' ''3'', tf_result ''6'' ''6'', tf_result ''3'' ''5''],
    races = [], driver_standings = [], constructor_standings = [],
    constructors = [\<lparr>constructorId = ''1'', constructor_name = ''McLaren''\<rparr>,
                    \<lparr>constructorId = ''3'', constructor_name = ''Williams''\<rparr>,
                    \<lparr>constructorId = ''6'', constructor_name = ''Ferrari''\<rparr>],
    circuits = [],
    statuses = [\<lparr>statusId = ''1'', status = ''Finished''\<rparr>, \<lparr>statusId = ''3'', status = ''Accident''\<rparr>,
                \<lparr>statusId = ''5'', status = ''Engine''\<rparr>, \<lparr>statusId = ''6'', status = ''Gearbox''\<rparr>,
                \<lparr>statusId = ''10'', status = ''Electrical''\<rparr>],
    pit_stops = [], lap_times = [], qualifying = []\<rparr>"

section \<open>Properties\<close>


lemma length_pd_strs: "length (pd_strs f rs) = length (filter (\<lambda>r. pd_str (f r) \<noteq> None) rs)"
  by (induction rs) (auto simp: pd_strs_def List.map_filter_simps split: option.splits)




text \<open>
  A negative \<open>top_n\<close> is not rejected: \<open>head(-1)\<close> reports every constructor
  with a technical failure but the last one.
\<close>

theorem failure_counts_negative_top_n:
  "failure_counts (tech_failures (results tf_db) (tech_status_ids (statuses tf_db))) 5 = [(6, 2), (1, 1), (3, 1)]
   \<and> failure_counts (tech_failures (results tf_db) (tech_status_ids (statuses tf_db))) (-1) = [(6, 2), (1, 1)]"
  by code_simp

text \<open>
  The nationality counts add up to the number of drivers whose nationality
  is not a missing value, and come in non-increasing order.
\<close>

theorem nationalities_counts_total:
  "sum_list (map snd (nationalities_counts ds)) = length (filter (\<lambda>d. pd_str (nationality d) \<noteq> None) ds)
   \<and> desc_by snd (nationalities_counts ds)"
  by (simp add: nationalities_counts_def sum_value_counts length_pd_strs value_counts_desc)

end
