(* ===== verification/Circuits.thy ===== *)
theory Circuits
  imports F1_Tables Frames
begin

text \<open>
  "Which circuit has been the most dangerous historically?":
  \<open>most_dangerous_circuit\<close> (src/src/analysis/pandas/q3.py). The results whose
  status is an accident are joined to their race and circuit by two left
  merges, optionally restricted to a country, and the circuit names counted;
  \<open>idxmax\<close> of the counts is the first name with the largest count. An empty
  count gives \<open>None\<close>. The parameter \<open>country\<close> (\<open>country_p\<close>) is \<open>None\<close> or a string, and
  \<open>if country:\<close> treats the empty string as no country.
\<close>

definition accident_statuses :: "string list" where
  "accident_statuses = [''Accident'', ''Collision'', ''Spun off'', ''Damage'', ''Debris'']"

definition accident_status_ids :: "status_row list \<Rightarrow> int list" where
  "accident_status_ids st = pd_keys statusId (filter (\<lambda>r. status r \<in> set accident_statuses) st)"

text \<open>The two left merges: with races on \<open>raceId\<close>, then with circuits on \<open>circuitId\<close>.\<close>

definition accidents_q3 ::
  "f1_db \<Rightarrow> ((result_row \<times> race_row option) \<times> circuit_row option) list" where
  "accidents_q3 db =
     merge_left (\<lambda>(r, ra). case ra of Some ra \<Rightarrow> py_int (race_circuitId ra) | None \<Rightarrow> None)
                (\<lambda>c. py_int (circuitId c))
       (merge_left (\<lambda>r. py_int (res_raceId r)) (\<lambda>ra. py_int (raceId ra))
          (pd_isin res_statusId (results db) (accident_status_ids (statuses db))) (races db))
       (circuits db)"

definition py_truthy :: "string option \<Rightarrow> bool" where
  "py_truthy x \<longleftrightarrow> x \<noteq> None \<and> x \<noteq> Some []"

text \<open>\<open>accidents[accidents['country'] == country]\<close>; a NaN country equals nothing.\<close>

definition accidents_in :: "string option \<Rightarrow> ((result_row \<times> race_row option) \<times> circuit_row option) list
                              \<Rightarrow> ((result_row \<times> race_row option) \<times> circuit_row option) list" where
  "accidents_in country_p acc =
     (if py_truthy country_p
      then filter (\<lambda>(rr, c). case c of Some c \<Rightarrow> pd_str (country c) = country_p | None \<Rightarrow> False) acc
      else acc)"

text \<open>The \<open>name\<close> column of the merged rows, NaN cells (no circuit) dropped.\<close>

definition accident_names :: "f1_db \<Rightarrow> string option \<Rightarrow> string list" where
  "accident_names db country_p =
     List.map_filter (\<lambda>(rr, c). case c of Some c \<Rightarrow> pd_str (circuit_name c) | None \<Rightarrow> None)
       (accidents_in country_p (accidents_q3 db))"

definition most_dangerous_circuit :: "f1_db \<Rightarrow> string option \<Rightarrow> string option" where
  "most_dangerous_circuit db country_p =
     (let circuits_counts = value_counts (accident_names db country_p) in
      if circuits_counts = [] then None
      else if \<not> py_truthy country_p
      then Some (''The most dangerous circuit in the world is the '' @ fst (hd circuits_counts))
      else Some (the country_p @ CHR 0x27 # ''s most dangerous circuit is the '' @ fst (hd circuits_counts)))"

section \<open>Example data\<close>

definition ci_result :: "string \<Rightarrow> string \<Rightarrow> result_row" where
  "ci_result ra st = \<lparr>res_raceId = ra, res_driverId = ''1'', res_constructorId = ''1'', grid = ''1'',
                      position = [CHR 0x5C, CHR ''N''], positionOrder = ''20'', res_statusId = st\<rparr>"

text \<open>Three races: at Monza and Imola (Italy) and at Spa (Belgium).\<close>

definition ci_db :: f1_db where
  "ci_db = \<lparr>drivers = [],
    results = [ci_result ''1'' ''3'', ci_result ''1'' ''1'', ci_result ''3'' ''4'', ci_result ''3'' ''3'',
               ci_result ''3'' ''20'', ci_result ''2'' ''3'', ci_result ''2'' ''4'', ci_result ''3'' ''1''],
    races = [\<lparr>raceId = ''1'', year = ''2020'', race_round = ''1'', race_circuitId = ''14''\<rparr>,
             \<lparr>raceId = ''2'', year = ''2020'', race_round = ''2'', race_circuitId = ''21''\<rparr>,
             \<lparr>raceId = ''3'', year = ''2020'', race_round = ''3'', race_circuitId = ''13''\<rparr>],
    driver_standings = [], constructor_standings = [], constructors = [],
    circuits = [\<lparr>circuitId = ''13'', circuit_name = ''Circuit de Spa-Francorchamps'', country = ''Belgium''\<rparr>,
                \<lparr>circuitId = ''14'', circuit_name = ''Autodromo Nazionale di Monza'', country = ''Italy''\<rparr>,
                \<lparr>circuitId = ''21'', circuit_name = ''Autodromo Enzo e Dino Ferrari'', country = ''Italy''\<rparr>],
    statuses = [\<lparr>statusId = ''1'', status = ''Finished''\<rparr>, \<lparr>statusId = ''3'', status = ''Accident''\<rparr>,
                \<lparr>statusId = ''4'', status = ''Collision''\<rparr>, \<lparr>statusId = ''20'', status = ''Spun off''\<rparr>],
    pit_stops = [], lap_times = [], qualifying = []\<rparr>"

section \<open>Properties\<close>

lemma pd_str_Some: "pd_str s = Some t \<Longrightarrow> s = t"
  by (simp add: pd_str_def split: if_splits)

lemma most_dangerous_circuit_Some:
  assumes "most_dangerous_circuit db country_p = Some s"
  shows "accident_names db country_p \<noteq> []
         \<and> s = (if py_truthy country_p then the country_p @ CHR 0x27 # ''s most dangerous circuit is the ''
                else ''The most dangerous circuit in the world is the '')
              @ fst (hd (value_counts (accident_names db country_p)))"
  using assms by (auto simp: most_dangerous_circuit_def Let_def value_counts_Nil_iff split: if_splits)

text \<open>
  C23: the circuit reported has the largest number of accidents among the
  circuits counted (all of them, or those of the given country).
\<close>

theorem most_dangerous_circuit_max:
  assumes "most_dangerous_circuit db country_p = Some s"
  shows "\<exists>n. s = (if py_truthy country_p then the country_p @ CHR 0x27 # ''s most dangerous circuit is the ''
                 else ''The most dangerous circuit in the world is the '') @ n
           \<and> (\<forall>m. count_list (accident_names db country_p) m \<le> count_list (accident_names db country_p) n)"
proof -
  let ?names = "accident_names db country_p"
  have ne: "?names \<noteq> []" and s: "s = (if py_truthy country_p then the country_p @ CHR 0x27 # ''s most dangerous circuit is the ''
                 else ''The most dangerous circuit in the world is the '') @ fst (hd (value_counts ?names))"
    using most_dangerous_circuit_Some [OF assms] by simp_all
  have "\<forall>m. count_list ?names m \<le> count_list ?names (fst (hd (value_counts ?names)))"
    using hd_value_counts_max [OF ne] by blast
  with s show ?thesis by blast
qed

theorem most_dangerous_circuit_max_witness:
  "most_dangerous_circuit ci_db None = Some (''The most dangerous circuit in the world is the '' @ ''Circuit de Spa-Francorchamps'')
   \<and> (\<forall>m. count_list (accident_names ci_db None) m \<le> count_list (accident_names ci_db None) ''Circuit de Spa-Francorchamps'')"
proof -
  have h: "most_dangerous_circuit ci_db None = Some (''The most dangerous circuit in the world is the '' @ ''Circuit de Spa-Francorchamps'')"
    by code_simp
  then obtain n where n: "''The most dangerous circuit in the world is the '' @ ''Circuit de Spa-Francorchamps''
                    = ''The most dangerous circuit in the world is the '' @ n"
      and "\<forall>m. count_list (accident_names ci_db None) m \<le> count_list (accident_names ci_db None) n"
    using most_dangerous_circuit_max [OF h] by (auto simp: py_truthy_def)
  moreover from n have "n = ''Circuit de Spa-Francorchamps''" by (simp only: same_append_eq)
  ultimately show ?thesis using h by simp
qed

text \<open>
  C24: with a country, the circuit reported is a circuit of that country.
\<close>

theorem most_dangerous_circuit_in_country:
  assumes "most_dangerous_circuit db (Some cty) = Some s" "cty \<noteq> []"
  shows "\<exists>c \<in> set (circuits db). country c = cty
           \<and> s = cty @ CHR 0x27 # ''s most dangerous circuit is the '' @ circuit_name c"
proof -
  let ?names = "accident_names db (Some cty)"
  have ne: "?names \<noteq> []" and s: "s = cty @ CHR 0x27 # ''s most dangerous circuit is the '' @ fst (hd (value_counts ?names))"
    using most_dangerous_circuit_Some [OF assms(1)] assms(2) by (simp_all add: py_truthy_def)
  have "fst (hd (value_counts ?names)) \<in> set ?names"
    using ne keys_value_counts [of ?names] by (metis hd_in_set image_eqI value_counts_Nil_iff)
  then obtain rc where rc: "rc \<in> set (accidents_in (Some cty) (accidents_q3 db))"
      and nm0: "(case rc of (rr, c) \<Rightarrow> case c of Some c \<Rightarrow> pd_str (circuit_name c) | None \<Rightarrow> None)
                 = Some (fst (hd (value_counts ?names)))"
    unfolding accident_names_def set_map_filter_iff by blast
  then obtain rr c where row: "(rr, Some c) \<in> set (accidents_in (Some cty) (accidents_q3 db))"
      and nm: "pd_str (circuit_name c) = Some (fst (hd (value_counts ?names)))"
    by (auto split: prod.splits option.splits)
  from row assms(2) have "pd_str (country c) = Some cty" and "(rr, Some c) \<in> set (accidents_q3 db)"
    by (auto simp: accidents_in_def py_truthy_def)
  then have "country c = cty" and "c \<in> set (circuits db)"
    by (auto simp: accidents_q3_def dest: pd_str_Some merge_left_Some)
  moreover from nm have "circuit_name c = fst (hd (value_counts ?names))" by (rule pd_str_Some)
  ultimately show ?thesis using s by metis
qed

theorem most_dangerous_circuit_in_country_witness:
  "most_dangerous_circuit ci_db (Some ''Italy'')
     = Some (''Italy'' @ CHR 0x27 # ''s most dangerous circuit is the '' @ ''Autodromo Enzo e Dino Ferrari'')
   \<and> (\<exists>c \<in> set (circuits ci_db). country c = ''Italy''
        \<and> ''Italy'' @ CHR 0x27 # ''s most dangerous circuit is the '' @ ''Autodromo Enzo e Dino Ferrari''
          = ''Italy'' @ CHR 0x27 # ''s most dangerous circuit is the '' @ circuit_name c)"
proof -
  have h: "most_dangerous_circuit ci_db (Some ''Italy'')
             = Some (''Italy'' @ CHR 0x27 # ''s most dangerous circuit is the '' @ ''Autodromo Enzo e Dino Ferrari'')"
    by code_simp
  have "\<exists>c \<in> set (circuits ci_db). country c = ''Italy''
          \<and> ''Italy'' @ CHR 0x27 # ''s most dangerous circuit is the '' @ ''Autodromo Enzo e Dino Ferrari''
            = ''Italy'' @ CHR 0x27 # ''s most dangerous circuit is the '' @ circuit_name c"
    by (rule most_dangerous_circuit_in_country [OF h]) simp
  with h show ?thesis by (rule conjI)
qed

text \<open>
  C25: the query returns \<open>None\<close> exactly when no accident is left to count, as
  for a country without a circuit.
\<close>

theorem most_dangerous_circuit_None:
  "most_dangerous_circuit db country_p = None \<longleftrightarrow> accident_names db country_p = []"
  by (simp add: most_dangerous_circuit_def Let_def value_counts_Nil_iff)

end
