(* ===== verification/Constructors.thy ===== *)
theory Constructors
  imports F1_Tables Frames
begin

text \<open>
  "Which constructor won the Constructors' Championship in a season?":
  \<open>constructor_winner\<close> (src/src/analysis/pandas/q4.py), and its tally over the
  seasons 1958 to 2024, the data part of \<open>most_constructor_championships_won\<close>
  (src/src/analysis/pandas/q5_graph.py; the bar chart is not modelled).
  \<open>constructor_winner\<close> twice calls \<open>squeeze()\<close>, which turns a one-row selection
  into a scalar and leaves any other selection a Series. Comparing a column with
  a Series compares row by row when the two indexes are the same and raises
  \<open>ValueError\<close> otherwise; a Series result is returned as it is.
\<close>

section \<open>Selections and \<open>squeeze()\<close>\<close>

text \<open>A selection with its index labels (row positions in the CSV file).\<close>

definition indexed :: "'a list \<Rightarrow> (nat \<times> 'a) list" where
  "indexed xs = zip [0..<length xs] xs"

datatype 'a squeezed = Scalar 'a | Series "(nat \<times> 'a) list"

fun pd_squeeze :: "(nat \<times> 'a) list \<Rightarrow> 'a squeezed" where
  "pd_squeeze [x] = Scalar (snd x)"
| "pd_squeeze xs = Series xs"

text \<open>
  \<open>column == value\<close> as a row mask: against a scalar, cell by cell (NaN equals
  nothing); against a Series, row by row when its index is the frame's index
  \<open>0 .. n-1\<close>, else \<open>ValueError\<close>.
\<close>

definition pd_eq_mask :: "int option list \<Rightarrow> int option squeezed \<Rightarrow> bool list py_result" where
  "pd_eq_mask col v =
     (case v of
        Scalar x \<Rightarrow> Inr (map (\<lambda>c. c \<noteq> None \<and> c = x) col)
      | Series s \<Rightarrow>
          if map fst s = [0..<length col]
          then Inr (map (\<lambda>(c, x). c \<noteq> None \<and> c = x) (zip col (map snd s)))
          else Inl ValueError)"

section \<open>The champion of a season\<close>

text \<open>\<open>races_yy['round'].max()\<close>, NaN for a season without races.\<close>

definition nb_races_yy :: "race_row list \<Rightarrow> int \<Rightarrow> int option" where
  "nb_races_yy rs yy =
     (let rounds = pd_keys race_round (filter (\<lambda>r. py_int (year r) = Some yy) rs) in
      if rounds = [] then None else Some (Max (set rounds)))"

definition race_id_last_race_yy :: "race_row list \<Rightarrow> int \<Rightarrow> int option squeezed" where
  "race_id_last_race_yy rs yy =
     pd_squeeze (map (\<lambda>(i, r). (i, py_int (raceId r)))
       (filter (\<lambda>(i, r). nb_races_yy rs yy \<noteq> None \<and> py_int (race_round r) = nb_races_yy rs yy
                        \<and> py_int (year r) = Some yy) (indexed rs)))"

definition constructor_id_champion_yy ::
  "constructor_standing_row list \<Rightarrow> int option squeezed \<Rightarrow> int option squeezed py_result" where
  "constructor_id_champion_yy cs last_id =
     (case pd_eq_mask (map (\<lambda>l. py_int (cs_raceId l)) cs) last_id of
        Inl e \<Rightarrow> Inl e
      | Inr msk \<Rightarrow>
          Inr (pd_squeeze (map (\<lambda>((i, l), b). (i, py_int (cs_constructorId l)))
                 (filter (\<lambda>((i, l), b). b \<and> py_int (cs_position l) = Some 1) (zip (indexed cs) msk)))))"

text \<open>
  The result: \<open>None\<close>, or the \<open>squeeze()\<close> of the names of the constructors
  with the champion's id (a name, or a Series when there is not exactly one).
\<close>

definition constructor_winner :: "f1_db \<Rightarrow> int \<Rightarrow> string squeezed option py_result" where
  "constructor_winner db yy =
     (case constructor_id_champion_yy (constructor_standings db) (race_id_last_race_yy (races db) yy) of
        Inl e \<Rightarrow> Inl e
      | Inr champ \<Rightarrow>
          (let cid = (case champ of Scalar c \<Rightarrow> Some c | Series [] \<Rightarrow> None | Series (x # xs) \<Rightarrow> Some (snd x)) in
           case cid of
             None \<Rightarrow> Inr None
           | Some c \<Rightarrow>
               Inr (Some (pd_squeeze (map (\<lambda>(i, k). (i, constructor_name k))
                     (filter (\<lambda>(i, k). c \<noteq> None \<and> py_int (constructorId k) = c) (indexed (constructors db))))))))"

section \<open>Championships per constructor, 1958 to 2024\<close>

text \<open>
  The counting loop \<open>if elt in counts.keys()\<close> hashes each result: a Series is
  unhashable and raises \<open>TypeError\<close>; \<open>None\<close> is counted like a name.
\<close>

definition champion_key :: "string squeezed option \<Rightarrow> string option py_result" where
  "champion_key r = (case r of None \<Rightarrow> Inr None | Some (Scalar n) \<Rightarrow> Inr (Some n) | Some (Series _) \<Rightarrow> Inl TypeError)"

text \<open>The counting loop over any list of seasons; the source runs it over \<open>range(1958, 2025)\<close>.\<close>

definition championship_counts_over :: "f1_db \<Rightarrow> int list \<Rightarrow> (string option, nat) dict py_result" where
  "championship_counts_over db years =
     (case py_map (constructor_winner db) years of
        Inl e \<Rightarrow> Inl e
      | Inr constructors_champions \<Rightarrow>
          map_sum id count_dict (py_map champion_key constructors_champions))"

definition championship_counts :: "f1_db \<Rightarrow> (string option, nat) dict py_result" where
  "championship_counts db = championship_counts_over db [1958..2024]"

text \<open>\<open>sort_values(by='championships', ascending=False).head(5)\<close>, taken stable.\<close>

definition championship_top5_over :: "f1_db \<Rightarrow> int list \<Rightarrow> (string option, nat) dict py_result" where
  "championship_top5_over db years =
     map_sum id (\<lambda>counts. take 5 (sorted_desc snd counts)) (championship_counts_over db years)"

definition championship_top5 :: "f1_db \<Rightarrow> (string option, nat) dict py_result" where
  "championship_top5 db = championship_top5_over db [1958..2024]"

section \<open>Example data\<close>

definition cw_race :: "string \<Rightarrow> string \<Rightarrow> string \<Rightarrow> race_row" where
  "cw_race i y r = \<lparr>raceId = i, year = y, race_round = r, race_circuitId = ''1''\<rparr>"

definition cw_standing :: "string \<Rightarrow> string \<Rightarrow> string \<Rightarrow> constructor_standing_row" where
  "cw_standing r c p = \<lparr>cs_raceId = r, cs_constructorId = c, cs_position = p\<rparr>"

text \<open>
  Two rounds of 2022 and one of 2023, with the constructor standings after each,
  and a race of 1957, before the constructors' championship existed.
\<close>

definition cw_db :: f1_db where
  "cw_db = \<lparr>drivers = [], results = [],
    races = [cw_race ''10'' ''1957'' ''1'', cw_race ''1073'' ''2022'' ''1'', cw_race ''1074'' ''2022'' ''2'',
             cw_race ''1098'' ''2023'' ''1''],
    driver_standings = [],
    constructor_standings = [cw_standing ''1073'' ''6'' ''1'', cw_standing ''1073'' ''9'' ''2'',
                             cw_standing ''1074'' ''9'' ''1'', cw_standing ''1074'' ''6'' ''2'',
                             cw_standing ''1098'' ''9'' ''1''],
    constructors = [\<lparr>constructorId = ''6'', constructor_name = ''Ferrari''\<rparr>,
                    \<lparr>constructorId = ''9'', constructor_name = ''Red Bull''\<rparr>],
    circuits = [], statuses = [], pit_stops = [], lap_times = [], qualifying = []\<rparr>"

section \<open>Selections\<close>

lemma zip_map_snd_self: "zip ys (map g (map snd ys)) = map (\<lambda>y. (y, g (snd y))) ys"
  by (induction ys) auto

lemma map_snd_indexed [simp]: "map snd (indexed xs) = xs"
  by (simp add: indexed_def)

lemma length_indexed [simp]: "length (indexed xs) = length xs"
  by (simp add: indexed_def)

lemma map_snd_filter_pairs: "map snd (filter (\<lambda>(i, x). P x) ys) = filter P (map snd ys)"
  by (induction ys) auto

lemma map_snd_filter_indexed: "map snd (filter (\<lambda>(i, x). P x) (indexed xs)) = filter P xs"
  by (simp only: map_snd_filter_pairs map_snd_indexed)

lemma filter_indexed_single:
  "filter P xs = [x] \<Longrightarrow> \<exists>i. filter (\<lambda>(i, x). P x) (indexed xs) = [(i, x)]"
  using map_snd_filter_indexed [of P xs] by (cases "filter (\<lambda>(i, x). P x) (indexed xs)") auto

lemma filter_indexed_Nil:
  "filter P xs = [] \<Longrightarrow> filter (\<lambda>(i, x). P x) (indexed xs) = []"
  using map_snd_filter_indexed [of P xs] by simp

lemma mask_select_pairs:
  "map (\<lambda>((i, l), b). h i l) (filter (\<lambda>((i, l), b). b \<and> Q l) (zip ys (map (\<lambda>c. c \<noteq> None \<and> c = Some v) (map g (map snd ys)))))
   = map (\<lambda>(i, l). h i l) (filter (\<lambda>(i, l). g l = Some v \<and> Q l) ys)"
  by (induction ys) auto

lemma pd_eq_mask_scalar_select:
  "map (\<lambda>((i, l), b). h i l) (filter (\<lambda>((i, l), b). b \<and> Q l) (zip (indexed xs) (map (\<lambda>c. c \<noteq> None \<and> c = Some v) (map g xs))))
   = map (\<lambda>(i, l). h i l) (filter (\<lambda>(i, l). g l = Some v \<and> Q l) (indexed xs))"
  using mask_select_pairs [of h Q "indexed xs" v g] by (simp only: map_snd_indexed)

lemma squeeze_single_select:
  "filter P xs = [x] \<Longrightarrow> pd_squeeze (map (\<lambda>(i, x). (i, f x)) (filter (\<lambda>(i, x). P x) (indexed xs))) = Scalar (f x)"
  by (drule filter_indexed_single) auto

lemma squeeze_empty_select:
  "filter P xs = [] \<Longrightarrow> pd_squeeze (map (\<lambda>(i, x). (i, f x)) (filter (\<lambda>(i, x). P x) (indexed xs))) = Series []"
  by (drule filter_indexed_Nil) simp

lemma nb_races_yy_None:
  "filter (\<lambda>r. py_int (year r) = Some yy) rs = [] \<Longrightarrow> nb_races_yy rs yy = None"
  by (simp add: nb_races_yy_def pd_keys_def)

lemma race_id_last_race_yy_single:
  assumes "nb_races_yy rs yy = Some nb"
    and "filter (\<lambda>r. py_int (race_round r) = Some nb \<and> py_int (year r) = Some yy) rs = [r]"
  shows "race_id_last_race_yy rs yy = Scalar (py_int (raceId r))"
  using squeeze_single_select [OF assms(2), of "\<lambda>r. py_int (raceId r)"] assms(1)
  by (simp add: race_id_last_race_yy_def)

lemma race_id_last_race_yy_no_race:
  "filter (\<lambda>r. py_int (year r) = Some yy) rs = [] \<Longrightarrow> race_id_last_race_yy rs yy = Series []"
  by (simp add: race_id_last_race_yy_def nb_races_yy_None)

lemma constructor_id_champion_yy_scalar:
  "constructor_id_champion_yy cs (Scalar (Some rid)) =
     Inr (pd_squeeze (map (\<lambda>(i, l). (i, py_int (cs_constructorId l)))
       (filter (\<lambda>(i, l). py_int (cs_raceId l) = Some rid \<and> py_int (cs_position l) = Some 1) (indexed cs))))"
  using pd_eq_mask_scalar_select [of "\<lambda>i l. (i, py_int (cs_constructorId l))" "\<lambda>l. py_int (cs_position l) = Some 1"
      cs rid "\<lambda>l. py_int (cs_raceId l)"]
  by (simp only: constructor_id_champion_yy_def pd_eq_mask_def squeezed.case sum.case map_map comp_def)

lemma constructor_winner_scalar:
  "constructor_id_champion_yy (constructor_standings db) (race_id_last_race_yy (races db) yy) = Inr (Scalar (Some cid)) \<Longrightarrow>
   constructor_winner db yy =
     Inr (Some (pd_squeeze (map (\<lambda>(i, k). (i, constructor_name k))
       (filter (\<lambda>(i, k). py_int (constructorId k) = Some cid) (indexed (constructors db))))))"
  by (simp add: constructor_winner_def)

section \<open>The champion of a season\<close>

text \<open>
  C26: when the last round of season \<open>yy\<close> is one race, exactly one constructor
  stands first after it, and exactly one constructor has that id,
  \<open>constructor_winner\<close> returns that constructor's name.
\<close>

theorem constructor_winner_champion:
  assumes "nb_races_yy (races db) yy = Some nb"
    and "filter (\<lambda>r. py_int (race_round r) = Some nb \<and> py_int (year r) = Some yy) (races db) = [r]"
    and "py_int (raceId r) = Some rid"
    and "filter (\<lambda>l. py_int (cs_raceId l) = Some rid \<and> py_int (cs_position l) = Some 1) (constructor_standings db) = [l]"
    and "py_int (cs_constructorId l) = Some cid"
    and "filter (\<lambda>k. py_int (constructorId k) = Some cid) (constructors db) = [k]"
  shows "constructor_winner db yy = Inr (Some (Scalar (constructor_name k)))"
proof -
  have "race_id_last_race_yy (races db) yy = Scalar (Some rid)"
    using race_id_last_race_yy_single [OF assms(1,2)] assms(3) by simp
  moreover have "constructor_id_champion_yy (constructor_standings db) (Scalar (Some rid)) = Inr (Scalar (Some cid))"
    using squeeze_single_select [OF assms(4), of "\<lambda>l. py_int (cs_constructorId l)"] assms(5)
    by (simp add: constructor_id_champion_yy_scalar)
  ultimately show ?thesis
    using constructor_winner_scalar squeeze_single_select [OF assms(6), of constructor_name] by simp
qed

theorem constructor_winner_champion_witness:
  "nb_races_yy (races cw_db) 2022 = Some 2 \<and> constructor_winner cw_db 2022 = Inr (Some (Scalar ''Red Bull''))"
proof -
  have h: "nb_races_yy (races cw_db) 2022 = Some 2"
    "filter (\<lambda>r. py_int (race_round r) = Some 2 \<and> py_int (year r) = Some 2022) (races cw_db) = [cw_race ''1074'' ''2022'' ''2'']"
    "py_int (raceId (cw_race ''1074'' ''2022'' ''2'')) = Some 1074"
    "filter (\<lambda>l. py_int (cs_raceId l) = Some 1074 \<and> py_int (cs_position l) = Some 1) (constructor_standings cw_db)
       = [cw_standing ''1074'' ''9'' ''1'']"
    "py_int (cs_constructorId (cw_standing ''1074'' ''9'' ''1'')) = Some 9"
    "filter (\<lambda>k. py_int (constructorId k) = Some 9) (constructors cw_db) = [\<lparr>constructorId = ''9'', constructor_name = ''Red Bull''\<rparr>]"
    by code_simp+
  show ?thesis using constructor_winner_champion [OF h] h(1) by simp
qed

text \<open>
  C27: for a season without races, \<open>race_id_last_race_yy\<close> is an empty Series and
  comparing the standings' \<open>raceId\<close> column with it raises \<open>ValueError\<close>
  (as soon as there are standings), where the docstring promises a name.
\<close>

theorem constructor_winner_no_season:
  assumes "filter (\<lambda>r. py_int (year r) = Some yy) (races db) = []"
    and "constructor_standings db \<noteq> []"
  shows "constructor_winner db yy = Inl ValueError"
proof -
  have "[] \<noteq> [0..<length (constructor_standings db)]" using assms(2) by (metis length_0_conv length_upt minus_nat.diff_0)
  then show ?thesis using assms(1)
    by (simp add: race_id_last_race_yy_no_race constructor_winner_def constructor_id_champion_yy_def pd_eq_mask_def)
qed

theorem constructor_winner_no_season_witness: "constructor_winner cw_db 2030 = Inl ValueError"
proof -
  have "filter (\<lambda>r. py_int (year r) = Some 2030) (races cw_db) = []" "constructor_standings cw_db \<noteq> []"
    by code_simp+
  then show ?thesis by (rule constructor_winner_no_season)
qed

text \<open>
  C28: when no constructor stands first after the last race of the season (the
  seasons before 1958 have no constructor standings), \<open>constructor_winner\<close>
  returns \<open>None\<close>.
\<close>

theorem constructor_winner_no_standing:
  assumes "nb_races_yy (races db) yy = Some nb"
    and "filter (\<lambda>r. py_int (race_round r) = Some nb \<and> py_int (year r) = Some yy) (races db) = [r]"
    and "py_int (raceId r) = Some rid"
    and "filter (\<lambda>l. py_int (cs_raceId l) = Some rid \<and> py_int (cs_position l) = Some 1) (constructor_standings db) = []"
  shows "constructor_winner db yy = Inr None"
proof -
  have "race_id_last_race_yy (races db) yy = Scalar (Some rid)"
    using race_id_last_race_yy_single [OF assms(1,2)] assms(3) by simp
  moreover have "constructor_id_champion_yy (constructor_standings db) (Scalar (Some rid)) = Inr (Series [])"
    using squeeze_empty_select [OF assms(4), of "\<lambda>l. py_int (cs_constructorId l)"]
    by (simp add: constructor_id_champion_yy_scalar)
  ultimately show ?thesis by (simp add: constructor_winner_def)
qed

theorem constructor_winner_no_standing_witness:
  "nb_races_yy (races cw_db) 1957 = Some 1 \<and> constructor_winner cw_db 1957 = Inr None"
proof -
  have h: "nb_races_yy (races cw_db) 1957 = Some 1"
    "filter (\<lambda>r. py_int (race_round r) = Some 1 \<and> py_int (year r) = Some 1957) (races cw_db) = [cw_race ''10'' ''1957'' ''1'']"
    "py_int (raceId (cw_race ''10'' ''1957'' ''1'')) = Some 10"
    "filter (\<lambda>l. py_int (cs_raceId l) = Some 10 \<and> py_int (cs_position l) = Some 1) (constructor_standings cw_db) = []"
    by code_simp+
  show ?thesis using constructor_winner_no_standing [OF h] h(1) by simp
qed

section \<open>The tally of championships\<close>

lemma championship_counts_over_Inr:
  assumes "championship_counts_over db ys = Inr counts"
  obtains ws ks where "py_map (constructor_winner db) ys = Inr ws" "py_map champion_key ws = Inr ks"
    "counts = count_dict ks" "length ks = length ys"
proof -
  obtain ws where ws: "py_map (constructor_winner db) ys = Inr ws"
    using assms by (cases "py_map (constructor_winner db) ys") (auto simp: championship_counts_over_def)
  then obtain ks where ks: "py_map champion_key ws = Inr ks" "counts = count_dict ks"
    using assms by (cases "py_map champion_key ws") (auto simp: championship_counts_over_def)
  have "length ks = length ys" using py_map_length [OF ws] py_map_length [OF ks(1)] by simp
  with ws ks show ?thesis by (rule that)
qed

lemma cw_db_counts:
  "championship_counts_over cw_db [1957, 2022, 2023] = Inr [(None, 1), (Some ''Red Bull'', 2)]"
  by code_simp

lemma sum_count_dict: "sum_list (map snd (count_dict ks)) = length ks"
  by (simp add: count_dict_eq_map comp_def sum_count_list_distinct)

text \<open>
  C29: a tally that completes has one entry per distinct champion and its
  counts add up to the number of seasons looked at.
\<close>

theorem championship_counts_total:
  assumes "championship_counts_over db ys = Inr counts"
  shows "distinct (map fst counts) \<and> sum_list (map snd counts) = length ys"
proof -
  obtain ws ks where "counts = count_dict ks" "length ks = length ys"
    using championship_counts_over_Inr [OF assms] by blast
  then show ?thesis by (simp add: keys_count_dict sum_count_dict)
qed

theorem championship_counts_total_witness:
  "championship_counts_over cw_db [1957, 2022, 2023] = Inr [(None, 1), (Some ''Red Bull'', 2)] \<and>
   distinct (map fst [(None :: string option, 1 :: nat), (Some ''Red Bull'', 2)]) \<and>
   sum_list (map snd [(None :: string option, 1 :: nat), (Some ''Red Bull'', 2)]) = length [1957 :: int, 2022, 2023]"
proof -
  note h = cw_db_counts
  show ?thesis using championship_counts_total [OF h] h by simp
qed

text \<open>
  The top five of the tally are the first five counts in decreasing order, and no
  constructor left out of them has more championships than one kept.
\<close>

theorem championship_top5_top:
  assumes "championship_counts_over db ys = Inr counts"
  shows "championship_top5_over db ys = Inr (take 5 (sorted_desc snd counts)) \<and>
         (\<forall>x \<in> set (take 5 (sorted_desc snd counts)). \<forall>y \<in> set counts - set (take 5 (sorted_desc snd counts)). snd y \<le> snd x)"
  using assms take_sorted_desc_top [of _ 5 snd counts] by (simp add: championship_top5_over_def)

theorem championship_top5_top_witness:
  "championship_top5_over cw_db [1957, 2022, 2023] = Inr [(Some ''Red Bull'', 2), (None, 1)]"
proof -
  note h = cw_db_counts
  have "take 5 (sorted_desc snd [(None :: string option, 1 :: nat), (Some ''Red Bull'', 2)]) = [(Some ''Red Bull'', 2), (None, 1)]"
    by code_simp
  then show ?thesis using championship_top5_top [OF h] by simp
qed

end
