(* ===== verification/App.thy ===== *)
theory App
  imports Py_Decimal
begin

text \<open>
  The desktop front end (src/src/app.py): the table \<open>question_data\<close> of the
  questions, their functions and their parameters; the question window of
  \<open>open_question_window_with_input\<close>, whose \<open>run()\<close> reads the entries, picks
  the pandas or the iterative function and shows the result or the error; and the
  export window, whose \<open>export()\<close> runs every question and writes
  \<open>results.txt\<close>. The queries themselves are the other theories; here a query is
  a name of the \<open>query\<close> datatype and the call \<open>func(*args)\<close> is a parameter
  \<open>call\<close> of the operations, together with \<open>render\<close> (the \<open>str()\<close> of a result)
  and \<open>msg\<close> (the \<open>str()\<close> of an exception). The widgets are not modelled: an
  entry is the text it holds, a radio button the Boolean it sets.
\<close>

section \<open>Values, parameter types and the question table\<close>

datatype ptype = TStr | TInt | TBool

text \<open>The Python values the entries produce and the table's defaults.\<close>

datatype py_val = PNone | PStr string | PInt int | PBool bool

text \<open>The functions app.py imports, by name.\<close>

datatype query =
    Q_at_least_n_races | Q_at_least_n_races_nopd | Q_ranking | Q_ranking_nopd
  | Q_driver_mean_grid | Q_driver_mean_grid_nopd | Q_get_driver_with_most_dnfs
  | Q_get_driver_with_most_dnfs_nopd | Q_most_dangerous_circuit | Q_constructor_winner
  | Q_most_constructor_championships_won | Q_nationalities
  | Q_most_technical_issues_constructors | Q_average_pit_stop_time

text \<open>
  The number of parameters of each function and how many have no default, from
  the \<open>def\<close> lines of src/src/analysis/.
\<close>

fun arity :: "query \<Rightarrow> nat \<times> nat" where
  "arity Q_at_least_n_races = (1, 1)"
| "arity Q_at_least_n_races_nopd = (1, 1)"
| "arity Q_ranking = (1, 1)"
| "arity Q_ranking_nopd = (1, 1)"
| "arity Q_driver_mean_grid = (2, 2)"
| "arity Q_driver_mean_grid_nopd = (2, 2)"
| "arity Q_get_driver_with_most_dnfs = (0, 0)"
| "arity Q_get_driver_with_most_dnfs_nopd = (0, 0)"
| "arity Q_most_dangerous_circuit = (0, 1)"
| "arity Q_constructor_winner = (1, 1)"
| "arity Q_most_constructor_championships_won = (0, 1)"
| "arity Q_nationalities = (0, 1)"
| "arity Q_most_technical_issues_constructors = (0, 1)"
| "arity Q_average_pit_stop_time = (0, 2)"

definition accepts_args :: "query \<Rightarrow> nat \<Rightarrow> bool" where
  "accepts_args f n \<longleftrightarrow> fst (arity f) \<le> n \<and> n \<le> snd (arity f)"

text \<open>\<open>func.__name__\<close>, as \<open>export()\<close> tests it.\<close>

fun func_name :: "query \<Rightarrow> string" where
  "func_name Q_at_least_n_races = ''at_least_n_races''"
| "func_name Q_at_least_n_races_nopd = ''at_least_n_races_nopd''"
| "func_name Q_ranking = ''ranking''"
| "func_name Q_ranking_nopd = ''ranking_nopd''"
| "func_name Q_driver_mean_grid = ''driver_mean_grid''"
| "func_name Q_driver_mean_grid_nopd = ''driver_mean_grid_nopd''"
| "func_name Q_get_driver_with_most_dnfs = ''get_driver_with_most_dnfs''"
| "func_name Q_get_driver_with_most_dnfs_nopd = ''get_driver_with_most_dnfs_nopd''"
| "func_name Q_most_dangerous_circuit = ''most_dangerous_circuit''"
| "func_name Q_constructor_winner = ''constructor_winner''"
| "func_name Q_most_constructor_championships_won = ''most_constructor_championships_won''"
| "func_name Q_nationalities = ''nationalities''"
| "func_name Q_most_technical_issues_constructors = ''most_technical_issues_constructors''"
| "func_name Q_average_pit_stop_time = ''average_pit_stop_time''"

record param_info =
  p_label :: string
  p_default :: py_val
  p_type :: ptype

type_synonym question = "string \<times> query \<times> query \<times> param_info list \<times> bool"

text \<open>
  Strings are byte strings: the right single quotation mark of two titles is its
  UTF-8 encoding, which keeps the equality of Python's strings.
\<close>

definition rsquo :: string where
  "rsquo = [CHR 0xE2, CHR 0x80, CHR 0x99]"

definition title_q5 :: string where
  "title_q5 = ''Which constructors have won the most Constructors'' @ rsquo @ '' Championships?''"

definition title_q6 :: string where
  "title_q6 = ''Which nationality has the highest number of F1 drivers?''"

definition question_data :: "question list" where
  "question_data =
    [(''Which drivers have won 30 or more races in their careers?'',
      Q_at_least_n_races, Q_at_least_n_races_nopd,
      [\<lparr>p_label = ''Minimum wins:'', p_default = PInt 30, p_type = TInt\<rparr>], True),
     (''What was the final drivers ranking for the 2023 season?'',
      Q_ranking, Q_ranking_nopd,
      [\<lparr>p_label = ''Year:'', p_default = PInt 2023, p_type = TInt\<rparr>], True),
     (''What is Lewis Hamilton'' @ CHR 0x27 # ''s average starting position?'',
      Q_driver_mean_grid, Q_driver_mean_grid_nopd,
      [\<lparr>p_label = ''First name:'', p_default = PStr ''Lewis'', p_type = TStr\<rparr>,
       \<lparr>p_label = ''Last name:'', p_default = PStr ''Hamilton'', p_type = TStr\<rparr>], True),
     (''Which drivers have recorded the most DNFs in their careers?'',
      Q_get_driver_with_most_dnfs, Q_get_driver_with_most_dnfs_nopd, [], True),
     (''Which circuit has been the most dangerous historically?'',
      Q_most_dangerous_circuit, Q_most_dangerous_circuit,
      [\<lparr>p_label = ''Country:'', p_default = PStr [], p_type = TStr\<rparr>], False),
     (''Which constructor won the Constructors'' @ rsquo @ '' Championship in 2023?'',
      Q_constructor_winner, Q_constructor_winner,
      [\<lparr>p_label = ''Year:'', p_default = PInt 2023, p_type = TInt\<rparr>], False),
     (title_q5, Q_most_constructor_championships_won, Q_most_constructor_championships_won, [], False),
     (title_q6, Q_nationalities, Q_nationalities, [], False),
     (''Which constructors have encountered the most technical failures?'',
      Q_most_technical_issues_constructors, Q_most_technical_issues_constructors,
      [\<lparr>p_label = ''Top:'', p_default = PInt 5, p_type = TInt\<rparr>], False),
     (''What is the average pit stop time across races?'',
      Q_average_pit_stop_time, Q_average_pit_stop_time,
      [\<lparr>p_label = ''Outliers:'', p_default = PStr ''False'', p_type = TBool\<rparr>,
       \<lparr>p_label = ''Sup:'', p_default = PInt 60, p_type = TInt\<rparr>], False)]"

section \<open>Reading an entry\<close>

text \<open>\<open>str()\<close> of a value.\<close>

fun py_str :: "py_val \<Rightarrow> string" where
  "py_str PNone = ''None''"
| "py_str (PStr s) = s"
| "py_str (PInt i) = int_str i"
| "py_str (PBool b) = (if b then ''True'' else ''False'')"

text \<open>
  \<open>str.strip()\<close> removes the characters \<open>str.isspace\<close> accepts; of the ASCII
  range these are tab to carriage return and the separators 28 to 32.
\<close>

definition py_isspace :: "char \<Rightarrow> bool" where
  "py_isspace c \<longleftrightarrow> (let n = (of_char c :: nat) in 9 \<le> n \<and> n \<le> 13 \<or> 28 \<le> n \<and> n \<le> 32)"

definition py_strip :: "string \<Rightarrow> string" where
  "py_strip s = rev (dropWhile py_isspace (rev (dropWhile py_isspace s)))"

text \<open>\<open>str.lower()\<close> on ASCII letters; no other character lowers to one of \<open>true\<close>.\<close>

definition py_lower :: "string \<Rightarrow> string" where
  "py_lower s = map (\<lambda>c. let n = (of_char c :: nat) in if 65 \<le> n \<and> n \<le> 90 then char_of (n + 32) else c) s"

text \<open>
  \<open>int()\<close> of the stripped text: an optional sign and decimal digits, single
  underscores allowed between digits.
\<close>

fun no_double_us :: "string \<Rightarrow> bool" where
  "no_double_us (a # b # cs) = (\<not> (a = CHR ''_'' \<and> b = CHR ''_'') \<and> no_double_us (b # cs))"
| "no_double_us _ = True"

definition int_text :: "string \<Rightarrow> int option" where
  "int_text s =
     (let sign = (if s \<noteq> [] \<and> (hd s = CHR ''-'' \<or> hd s = CHR ''+'') then [hd s] else []);
          ds = drop (length sign) s in
      if ds \<noteq> [] \<and> hd ds \<noteq> CHR ''_'' \<and> last ds \<noteq> CHR ''_'' \<and> no_double_us ds
      then py_int (sign @ filter (\<lambda>c. c \<noteq> CHR ''_'') ds) else None)"

text \<open>The body of the entry loop of \<open>run()\<close>: a blank entry is \<open>None\<close> unless the parameter is a string.\<close>

definition parse_entry :: "string \<Rightarrow> ptype \<Rightarrow> py_val py_result" where
  "parse_entry s typ =
     (let val = py_strip s in
      if val = [] \<and> typ \<noteq> TStr then Inr PNone
      else if typ = TInt then (case int_text val of None \<Rightarrow> Inl ValueError | Some i \<Rightarrow> Inr (PInt i))
      else if typ = TBool then Inr (PBool (py_lower val = ''true''))
      else Inr (PStr val))"

text \<open>The same loop in \<open>export()\<close>, which has no blank case.\<close>

definition parse_entry_export :: "string \<Rightarrow> ptype \<Rightarrow> py_val py_result" where
  "parse_entry_export s typ =
     (let val = py_strip s in
      if typ = TInt then (case int_text val of None \<Rightarrow> Inl ValueError | Some i \<Rightarrow> Inr (PInt i))
      else if typ = TBool then Inr (PBool (py_lower val = ''true''))
      else Inr (PStr val))"

definition run_values :: "(string \<times> ptype) list \<Rightarrow> py_val list py_result" where
  "run_values entries = py_map (\<lambda>(s, typ). parse_entry s typ) entries"

definition export_values :: "(string \<times> ptype) list \<Rightarrow> py_val list py_result" where
  "export_values entries = py_map (\<lambda>(s, typ). parse_entry_export s typ) entries"

text \<open>The text an entry starts with: \<open>str(default)\<close>, empty for \<open>None\<close> in the question window.\<close>

definition entry_default :: "param_info \<Rightarrow> string" where
  "entry_default p = (if p_default p = PNone then [] else py_str (p_default p))"

definition chosen_func :: "bool \<Rightarrow> bool \<Rightarrow> query \<Rightarrow> query \<Rightarrow> query" where
  "chosen_func allow_toggle use_pandas func_pandas func_nopd =
     (if allow_toggle \<and> use_pandas then func_pandas else func_nopd)"

section \<open>The question window\<close>

text \<open>
  The state of a question window: the functions and the toggle flag it was
  opened with, the \<open>use_pandas\<close> variable, the entries with their types, and
  the text of the result label.
\<close>

record qwindow =
  w_title :: string
  w_func_pandas :: query
  w_func_nopd :: query
  w_allow_toggle :: bool
  w_use_pandas :: bool
  w_entries :: "(string \<times> ptype) list"
  w_result :: string

definition open_window :: "question \<Rightarrow> qwindow" where
  "open_window q =
     (case q of (title, func_pandas, func_nopd, param_info, allow_toggle) \<Rightarrow>
        \<lparr>w_title = title, w_func_pandas = func_pandas, w_func_nopd = func_nopd,
         w_allow_toggle = allow_toggle, w_use_pandas = True,
         w_entries = map (\<lambda>info. (entry_default info, p_type info)) param_info, w_result = []\<rparr>)"

text \<open>
  Opening a question: the two chart questions call the pandas function at once
  (an exception goes to a message box); the others open the window.
\<close>

datatype 'r opened = Direct "'r py_result" | Opened qwindow

definition open_question_window_with_input :: "(query \<Rightarrow> py_val list \<Rightarrow> 'r py_result) \<Rightarrow> question \<Rightarrow> 'r opened" where
  "open_question_window_with_input call q =
     (if fst q \<in> set [title_q5, title_q6] then Direct (call (fst (snd q)) []) else Opened (open_window q))"

text \<open>\<open>run()\<close>: the new window, and the exception shown in a message box, if any.\<close>

definition run :: "(query \<Rightarrow> py_val list \<Rightarrow> 'r py_result) \<Rightarrow> ('r \<Rightarrow> string) \<Rightarrow> qwindow \<Rightarrow> qwindow \<times> py_error option" where
  "run call render w =
     (case run_values (w_entries w) of
        Inl e \<Rightarrow> (w, Some e)
      | Inr values \<Rightarrow>
          (case call (chosen_func (w_allow_toggle w) (w_use_pandas w) (w_func_pandas w) (w_func_nopd w)) values of
             Inl e \<Rightarrow> (w, Some e)
           | Inr result \<Rightarrow> (w\<lparr>w_result := render result\<rparr>, None)))"

text \<open>
  What the user can do in the window: type a text into an entry, pick a radio
  button (there are none without the toggle), press Run.
\<close>

datatype gui_event = Type_In nat string | Select_Pandas bool | Press_Run

fun window_event ::
  "(query \<Rightarrow> py_val list \<Rightarrow> 'r py_result) \<Rightarrow> ('r \<Rightarrow> string) \<Rightarrow> qwindow \<Rightarrow> gui_event \<Rightarrow> qwindow \<times> py_error option" where
  "window_event call render w (Type_In i s) =
     (if i < length (w_entries w) then (w\<lparr>w_entries := (w_entries w)[i := (s, snd (w_entries w ! i))]\<rparr>, None)
      else (w, None))"
| "window_event call render w (Select_Pandas b) =
     (if w_allow_toggle w then (w\<lparr>w_use_pandas := b\<rparr>, None) else (w, None))"
| "window_event call render w Press_Run = run call render w"

inductive window_reach ::
  "(query \<Rightarrow> py_val list \<Rightarrow> 'r py_result) \<Rightarrow> ('r \<Rightarrow> string) \<Rightarrow> question \<Rightarrow> qwindow \<Rightarrow> bool"
  for call render q where
  opened: "window_reach call render q (open_window q)"
| event: "window_reach call render q w \<Longrightarrow> window_reach call render q (fst (window_event call render w ev))"


section \<open>The export window\<close>

record export_item =
  x_title :: string
  x_func_pandas :: query
  x_func_nopd :: query
  x_use_pd :: bool
  x_entries :: "(string \<times> ptype) list"
  x_allow_toggle :: bool

definition make_selector :: "question \<Rightarrow> export_item" where
  "make_selector q =
     (case q of (title, func_pd, func_np, param_info, allow_toggle) \<Rightarrow>
        \<lparr>x_title = title, x_func_pandas = func_pd, x_func_nopd = func_np, x_use_pd = True,
         x_entries = map (\<lambda>param. (py_str (p_default param), p_type param)) param_info,
         x_allow_toggle = allow_toggle\<rparr>)"

definition export_data :: "export_item list" where
  "export_data = map make_selector question_data"

datatype export_cell = Graph_Saved string | Shown string | Failed py_error

text \<open>\<open>os.path.join\<close> of a directory and a relative file name (POSIX).\<close>

definition path_join :: "string \<Rightarrow> string \<Rightarrow> string" where
  "path_join a b = (if a = [] \<or> last a = CHR ''/'' then a @ b else a @ CHR ''/'' # b)"

definition graph_funcs :: "string list" where
  "graph_funcs = [''most_constructor_championships_won'', ''nationalities'']"

text \<open>One pass of the loop of \<open>export()\<close>, inside its \<open>try\<close>.\<close>

definition export_row ::
  "(query \<Rightarrow> py_val list \<Rightarrow> 'r py_result) \<Rightarrow> ('r \<Rightarrow> string) \<Rightarrow> string \<Rightarrow> export_item \<Rightarrow> string \<times> export_cell" where
  "export_row call render dir_path x =
     (x_title x,
      case export_values (x_entries x) of
        Inl e \<Rightarrow> Failed e
      | Inr args \<Rightarrow>
          (let func = chosen_func (x_allow_toggle x) (x_use_pd x) (x_func_pandas x) (x_func_nopd x) in
           if func_name func \<in> set graph_funcs then
             (let graph_path = path_join dir_path (func_name func @ ''.png'') in
              case call func [PStr graph_path] of Inl e \<Rightarrow> Failed e | Inr _ \<Rightarrow> Graph_Saved graph_path)
           else (case call func args of Inl e \<Rightarrow> Failed e | Inr result \<Rightarrow> Shown (render result))))"

definition nl :: string where
  "nl = [CHR 0x0A]"

fun cell_text :: "(py_error \<Rightarrow> string) \<Rightarrow> export_cell \<Rightarrow> string" where
  "cell_text msg (Graph_Saved p) = ''Graph saved to '' @ p"
| "cell_text msg (Shown s) = s"
| "cell_text msg (Failed e) = ''Error: '' @ msg e"

definition results_text :: "(py_error \<Rightarrow> string) \<Rightarrow> (string \<times> export_cell) list \<Rightarrow> string" where
  "results_text msg rows = concat (map (\<lambda>(title, res). title @ nl @ cell_text msg res @ nl @ nl) rows)"

text \<open>
  \<open>export()\<close>: nothing when the folder dialog is cancelled, else the path of
  \<open>results.txt\<close> and the text written to it.
\<close>

definition export ::
  "(query \<Rightarrow> py_val list \<Rightarrow> 'r py_result) \<Rightarrow> ('r \<Rightarrow> string) \<Rightarrow> (py_error \<Rightarrow> string) \<Rightarrow> string \<Rightarrow> export_item list
   \<Rightarrow> (string \<times> string) option" where
  "export call render msg dir_path items =
     (if dir_path = [] then None
      else Some (path_join dir_path ''results.txt'', results_text msg (map (export_row call render dir_path) items)))"

text \<open>The values a parameter of each type may receive: \<open>None\<close> for a blank non-string entry.\<close>

fun has_type :: "py_val \<Rightarrow> ptype \<Rightarrow> bool" where
  "has_type PNone typ = (typ \<noteq> TStr)"
| "has_type (PStr s) typ = (typ = TStr)"
| "has_type (PInt i) typ = (typ = TInt)"
| "has_type (PBool b) typ = (typ = TBool)"

text \<open>A sequence of events from a window.\<close>

definition window_events ::
  "(query \<Rightarrow> py_val list \<Rightarrow> 'r py_result) \<Rightarrow> ('r \<Rightarrow> string) \<Rightarrow> qwindow \<Rightarrow> gui_event list \<Rightarrow> qwindow" where
  "window_events call render w evs = foldl (\<lambda>w ev. fst (window_event call render w ev)) w evs"

text \<open>A default the window writes and reads back: a value of the parameter's type, a string without surrounding blanks.\<close>

fun default_ok :: "py_val \<Rightarrow> ptype \<Rightarrow> bool" where
  "default_ok PNone typ = (typ \<noteq> TStr)"
| "default_ok (PStr s) typ = (typ = TStr \<and> py_strip s = s)"
| "default_ok (PInt i) typ = (typ = TInt)"
| "default_ok (PBool b) typ = (typ = TBool)"

section \<open>Reading entries: lemmas\<close>

lemma py_strip_id: "list_all (\<lambda>c. \<not> py_isspace c) s \<Longrightarrow> py_strip s = s"
proof -
  assume a: "list_all (\<lambda>c. \<not> py_isspace c) s"
  then have "dropWhile py_isspace s = s" by (cases s) auto
  moreover have "dropWhile py_isspace (rev s) = rev s" using a by (cases "rev s") (auto simp: list_all_iff)
  ultimately show ?thesis by (simp add: py_strip_def)
qed

lemma ascii_digit_not_space: "ascii_digit c \<Longrightarrow> \<not> py_isspace c \<and> c \<noteq> CHR ''_''"
  by (auto simp: ascii_digit_def py_isspace_def Let_def)

lemma int_str_chars: "list_all (\<lambda>c. \<not> py_isspace c \<and> c \<noteq> CHR ''_'') (int_str i)"
proof -
  have "list_all (\<lambda>c. \<not> py_isspace c \<and> c \<noteq> CHR ''_'') (nat_str n)" for n
    using nat_str_digits [of n] ascii_digit_not_space by (simp add: list_all_iff)
  then show ?thesis by (simp add: int_str_def py_isspace_def)
qed

lemma no_double_us_free: "CHR ''_'' \<notin> set s \<Longrightarrow> no_double_us s"
  by (induction s rule: no_double_us.induct) auto

lemma int_text_plain: "CHR ''_'' \<notin> set s \<Longrightarrow> int_text s = py_int s"
proof (cases s)
  case Nil
  then show ?thesis by (simp add: int_text_def py_int_def parse_nat_def py_isdigit_def)
next
  case (Cons c cs)
  assume u: "CHR ''_'' \<notin> set s"
  have f: "filter (\<lambda>c. c \<noteq> CHR ''_'') cs = cs" using u Cons by (auto simp: filter_id_conv)
  have nd: "no_double_us cs" "no_double_us (c # cs)" using u Cons by (simp_all add: no_double_us_free)
  have l1: "cs \<noteq> [] \<Longrightarrow> last cs \<noteq> CHR ''_''"
  proof
    assume "cs \<noteq> []" "last cs = CHR ''_''"
    then have "CHR ''_'' \<in> set cs" by (metis last_in_set)
    then show False using u Cons by simp
  qed
  have l2: "last (c # cs) \<noteq> CHR ''_''"
    using u Cons last_in_set [of "c # cs"] by (metis list.distinct(1))
  note l = l1 l2
  have e: "py_int [CHR ''-''] = None" "py_int [CHR ''+''] = None"
    by (simp_all add: py_int_def parse_nat_def py_isdigit_def)
  show ?thesis
  proof (cases "c = CHR ''-'' \<or> c = CHR ''+''")
    case True
    then show ?thesis using Cons u f nd l e by (cases cs) (auto simp: int_text_def)
  next
    case False
    have cu: "c \<noteq> CHR ''_''" using u Cons by auto
    have "int_text (c # cs) = py_int (c # filter (\<lambda>c. c \<noteq> CHR ''_'') cs)"
      using False cu nd l2 by (simp add: int_text_def)
    then show ?thesis using f Cons by simp
  qed
qed

lemma py_strip_int_str [simp]: "py_strip (int_str i) = int_str i"
  using int_str_chars [of i] by (simp add: py_strip_id list_all_iff)

lemma int_text_int_str [simp]: "int_text (int_str i) = Some i"
proof -
  have "CHR ''_'' \<notin> set (int_str i)" using int_str_chars [of i] by (auto simp: list_all_iff)
  then show ?thesis by (simp add: int_text_plain)
qed

lemma int_str_ne [simp]: "int_str i \<noteq> []"
  using nat_str_Cons by (simp add: int_str_def) (metis list.distinct(1))

lemma py_strip_bool [simp]: "py_strip [] = []" "py_strip ''True'' = ''True''" "py_strip ''False'' = ''False''"
  by (simp_all add: py_strip_def py_isspace_def)

lemma py_lower_bool [simp]: "py_lower ''True'' = ''true''" "py_lower ''False'' = ''false''"
  by code_simp+

text \<open>
  C31: a default of the parameter's type survives the window: the text the entry
  starts with is read back by \<open>run()\<close> as the default itself.
\<close>

theorem entry_roundtrip:
  assumes "default_ok (p_default p) (p_type p)"
  shows "parse_entry (entry_default p) (p_type p) = Inr (p_default p)"
  using assms by (cases "p_default p"; cases "p_type p") (auto simp: parse_entry_def entry_default_def Let_def)

theorem entry_roundtrip_witness:
  "parse_entry (entry_default \<lparr>p_label = ''Year:'', p_default = PInt 2023, p_type = TInt\<rparr>) TInt = Inr (PInt 2023)"
proof -
  have "default_ok (p_default \<lparr>p_label = ''Year:'', p_default = PInt 2023, p_type = TInt\<rparr>)
          (p_type \<lparr>p_label = ''Year:'', p_default = PInt 2023, p_type = TInt\<rparr>)" by simp
  from entry_roundtrip [OF this] show ?thesis by simp
qed


text \<open>
  C32: a blank integer entry is \<open>None\<close> for \<open>run()\<close> but makes \<open>export()\<close>
  raise \<open>ValueError\<close> (\<open>int('')\<close>): the two windows disagree on the same text.
\<close>

theorem blank_int_entry:
  assumes "py_strip s = []"
  shows "parse_entry s TInt = Inr PNone \<and> parse_entry_export s TInt = Inl ValueError"
proof -
  have "int_text [] = None" by (simp add: int_text_def)
  then show ?thesis using assms by (simp add: parse_entry_def parse_entry_export_def)
qed

theorem blank_int_entry_witness:
  "parse_entry ''  '' TInt = Inr PNone \<and> parse_entry_export ''  '' TInt = Inl ValueError"
proof -
  have "py_strip ''  '' = []" by code_simp
  then show ?thesis by (rule blank_int_entry)
qed

section \<open>The question window: invariant and safety\<close>

inductive_cases window_reach_cases: "window_reach call render q w"

lemma run_fields: "\<exists>t. fst (run call render w) = w \<or> fst (run call render w) = w\<lparr>w_result := t\<rparr>"
  by (auto simp: run_def split: sum.splits)

lemma map_snd_update_same: "i < length xs \<Longrightarrow> map snd (xs[i := (s, snd (xs ! i))]) = map snd xs"
proof -
  assume "i < length xs"
  then have "(map snd xs)[i := snd (xs ! i)] = (map snd xs)[i := map snd xs ! i]" by simp
  then show ?thesis by (simp add: map_update)
qed

text \<open>What no event changes: the functions, the toggle, the entry types; and \<open>use_pandas\<close> stays set without the toggle.\<close>

definition window_inv :: "question \<Rightarrow> qwindow \<Rightarrow> bool" where
  "window_inv q w \<longleftrightarrow>
     (case q of (title, func_pandas, func_nopd, param_info, allow_toggle) \<Rightarrow>
        w_func_pandas w = func_pandas \<and> w_func_nopd w = func_nopd \<and> w_allow_toggle w = allow_toggle
        \<and> map snd (w_entries w) = map p_type param_info \<and> (\<not> allow_toggle \<longrightarrow> w_use_pandas w))"

lemma window_inv_open: "window_inv q (open_window q)"
  by (cases q) (auto simp: window_inv_def open_window_def comp_def)

lemma window_inv_event: "window_inv q w \<Longrightarrow> window_inv q (fst (window_event call render w ev))"
proof (cases ev)
  case Press_Run
  assume "window_inv q w"
  then show ?thesis using Press_Run run_fields [of call render w] by (cases q) (auto simp: window_inv_def)
qed (cases q; auto simp: window_inv_def map_snd_update_same)+

lemma window_reach_inv: "window_reach call render q w \<Longrightarrow> window_inv q w"
  by (induction rule: window_reach.induct) (auto intro: window_inv_open window_inv_event)

text \<open>Every question of the table fits its functions' signatures, and a question without toggle has one function.\<close>

lemma question_data_wf:
  "list_all (\<lambda>(title, func_pandas, func_nopd, param_info, allow_toggle).
      accepts_args func_pandas (length param_info) \<and> accepts_args func_nopd (length param_info)
      \<and> (\<not> allow_toggle \<longrightarrow> func_pandas = func_nopd)) question_data"
  by code_simp

lemma run_values_length: "run_values entries = Inr values \<Longrightarrow> length values = length entries"
  unfolding run_values_def by (rule py_map_length)

text \<open>
  C30: whatever the user types and selects, \<open>run()\<close> in the window of a question
  of the table calls the question's pandas function, unless the question offers
  the toggle and the user chose No, when it calls the iterative one; and the
  values it passes fit that function's signature, so the call raises no
  \<open>TypeError\<close> for the number of arguments.
\<close>

theorem window_run_safe:
  assumes "(title, func_pandas, func_nopd, param_info, allow_toggle) \<in> set question_data"
    and "window_reach call render (title, func_pandas, func_nopd, param_info, allow_toggle) w"
    and "run_values (w_entries w) = Inr values"
  shows "chosen_func (w_allow_toggle w) (w_use_pandas w) (w_func_pandas w) (w_func_nopd w)
           = (if allow_toggle \<and> \<not> w_use_pandas w then func_nopd else func_pandas)
         \<and> accepts_args (chosen_func (w_allow_toggle w) (w_use_pandas w) (w_func_pandas w) (w_func_nopd w)) (length values)"
proof -
  have inv: "window_inv (title, func_pandas, func_nopd, param_info, allow_toggle) w"
    using assms(2) by (rule window_reach_inv)
  have wf: "accepts_args func_pandas (length param_info)" "accepts_args func_nopd (length param_info)"
    "\<not> allow_toggle \<longrightarrow> func_pandas = func_nopd"
    using question_data_wf assms(1) by (auto simp: list_all_iff)
  have "length values = length param_info"
    using run_values_length [OF assms(3)] inv length_map [of snd "w_entries w"] length_map [of p_type param_info]
    by (simp add: window_inv_def)
  then show ?thesis using inv wf by (auto simp: window_inv_def chosen_func_def)
qed

theorem window_run_safe_witness:
  "let q = (''Which drivers have won 30 or more races in their careers?'', Q_at_least_n_races, Q_at_least_n_races_nopd,
            [\<lparr>p_label = ''Minimum wins:'', p_default = PInt 30, p_type = TInt\<rparr>], True);
       call = (\<lambda>f (args :: py_val list). (Inr (func_name f) :: string py_result));
       w = fst (window_event call id (open_window q) (Select_Pandas False))
   in chosen_func (w_allow_toggle w) (w_use_pandas w) (w_func_pandas w) (w_func_nopd w) = Q_at_least_n_races_nopd
      \<and> accepts_args Q_at_least_n_races_nopd (length [PInt 30])"
proof -
  define q where "q = (''Which drivers have won 30 or more races in their careers?'', Q_at_least_n_races, Q_at_least_n_races_nopd,
            [\<lparr>p_label = ''Minimum wins:'', p_default = PInt 30, p_type = TInt\<rparr>], True)"
  define call where "call = (\<lambda>f (args :: py_val list). (Inr (func_name f) :: string py_result))"
  define w where "w = fst (window_event call id (open_window q) (Select_Pandas False))"
  have m: "(''Which drivers have won 30 or more races in their careers?'', Q_at_least_n_races, Q_at_least_n_races_nopd,
            [\<lparr>p_label = ''Minimum wins:'', p_default = PInt 30, p_type = TInt\<rparr>], True) \<in> set question_data"
    by (simp add: question_data_def)
  have r: "window_reach call id q w"
    unfolding w_def by (rule window_reach.event [OF window_reach.opened])
  have v: "run_values (w_entries w) = Inr [PInt 30]"
    unfolding w_def q_def by code_simp
  have u: "\<not> w_use_pandas w" unfolding w_def q_def by (simp add: open_window_def)
  have "chosen_func (w_allow_toggle w) (w_use_pandas w) (w_func_pandas w) (w_func_nopd w) = Q_at_least_n_races_nopd
      \<and> accepts_args Q_at_least_n_races_nopd (length [PInt 30])"
    using window_run_safe [OF m r [unfolded q_def] v] u by auto
  then show ?thesis unfolding Let_def q_def [symmetric] call_def [symmetric] w_def [symmetric] .
qed

section \<open>The export\<close>

lemma map_fst_export_rows: "map fst (map (export_row call render dir_path) items) = map x_title items"
  by (simp add: export_row_def)

lemma export_data_titles: "map x_title export_data = map fst question_data"
  by (simp add: export_data_def make_selector_def split_def)

text \<open>
  Once a folder is chosen, \<open>export()\<close> writes \<open>results.txt\<close> in it with one
  block per question, in the order of the table, whatever the queries return or
  raise: an exception is caught in its own block.
\<close>

theorem export_every_question:
  assumes "dir_path \<noteq> []"
  shows "\<exists>rows. export call render msg dir_path export_data
                 = Some (path_join dir_path ''results.txt'', results_text msg rows)
               \<and> map fst rows = map fst question_data"
  using assms map_fst_export_rows [of call render dir_path export_data] export_data_titles
  by (auto simp: export_def)

theorem export_every_question_witness:
  "\<exists>rows. export (\<lambda>f (args :: py_val list). (Inl ValueError :: string py_result)) id (\<lambda>e. ''ValueError'') ''out'' export_data
            = Some (''out/results.txt'', results_text (\<lambda>e. ''ValueError'') rows)
          \<and> map fst rows = map fst question_data"
proof -
  have "path_join ''out'' ''results.txt'' = ''out/results.txt''" by (simp add: path_join_def)
  moreover have "''out'' \<noteq> []" by simp
  ultimately show ?thesis
    using export_every_question [of "''out''" "\<lambda>f (args :: py_val list). (Inl ValueError :: string py_result)" id
        "\<lambda>e. ''ValueError''"] by simp
qed

section \<open>Types of the arguments\<close>

lemma parse_entry_has_type: "parse_entry s typ = Inr v \<Longrightarrow> has_type v typ"
  by (cases "typ") (auto simp: parse_entry_def Let_def split: if_splits option.splits)

text \<open>
  C39: every argument \<open>run()\<close> passes has the type its parameter declares, or
  is \<open>None\<close> for a blank integer or Boolean entry: a string parameter never
  receives \<open>None\<close>, an integer parameter never a string.
\<close>

theorem run_values_typed:
  assumes "run_values entries = Inr vals"
  shows "list_all2 (\<lambda>v (s, typ). has_type v typ) vals entries"
  using assms
proof (induction entries arbitrary: vals)
  case Nil
  then show ?case by (simp add: run_values_def)
next
  case (Cons e es)
  obtain s t where e: "e = (s, t)" by (cases e)
  obtain v where v: "parse_entry s t = Inr v"
    using Cons.prems e by (cases "parse_entry s t") (auto simp: run_values_def)
  obtain vs where vs: "run_values es = Inr vs" "vals = v # vs"
    using Cons.prems e v by (cases "run_values es") (auto simp: run_values_def)
  show ?case using Cons.IH [OF vs(1)] vs(2) e parse_entry_has_type [OF v] by simp
qed

theorem run_values_typed_witness:
  "run_values [(''30'', TInt), ('' Lewis '', TStr), ([], TBool)] = Inr [PInt 30, PStr ''Lewis'', PNone]
   \<and> list_all2 (\<lambda>v (s, typ). has_type v typ) [PInt 30, PStr ''Lewis'', PNone] [(''30'', TInt), ('' Lewis '', TStr), ([], TBool)]"
proof -
  have r: "run_values [(''30'', TInt), ('' Lewis '', TStr), ([], TBool)] = Inr [PInt 30, PStr ''Lewis'', PNone]"
    by code_simp
  show ?thesis using run_values_typed [OF r] r by simp
qed

section \<open>Liveness of the question window\<close>

lemma window_reach_events: "window_reach call render q w \<Longrightarrow> window_reach call render q (window_events call render w evs)"
proof (induction evs arbitrary: w)
  case (Cons ev evs)
  then show ?case by (simp add: window_events_def window_reach.event)
qed (simp add: window_events_def)

lemma type_in_prefix:
  assumes "map snd (w_entries w) = map snd E" and "k \<le> length E"
  shows "window_events call render w (map (\<lambda>i. Type_In i (fst (E ! i))) [0..<k])
           = w\<lparr>w_entries := map (\<lambda>j. if j < k then E ! j else w_entries w ! j) [0..<length E]\<rparr>"
  using assms(2)
proof (induction k)
  case 0
  have "length (w_entries w) = length E" using assms(1) by (metis length_map)
  then have "map (\<lambda>j. w_entries w ! j) [0..<length E] = w_entries w" using map_nth [of "w_entries w"] by simp
  then show ?case by (simp add: window_events_def)
next
  case (Suc k)
  define M where "M k = map (\<lambda>j. if j < k then E ! j else w_entries w ! j) [0..<length E]" for k
  have len: "length (w_entries w) = length E" using assms(1) by (metis length_map)
  have kl: "k < length E" using Suc.prems by simp
  have sk: "snd (w_entries w ! k) = snd (E ! k)"
    using assms(1) kl len by (metis nth_map)
  have mk: "M k ! k = w_entries w ! k" using kl by (simp add: M_def)
  have upd: "(M k)[k := (fst (E ! k), snd (M k ! k))] = M (Suc k)"
  proof (rule nth_equalityI)
    show "length ((M k)[k := (fst (E ! k), snd (M k ! k))]) = length (M (Suc k))" by (simp add: M_def)
  next
    fix j assume "j < length ((M k)[k := (fst (E ! k), snd (M k ! k))])"
    then have j: "j < length E" by (simp add: M_def)
    show "(M k)[k := (fst (E ! k), snd (M k ! k))] ! j = M (Suc k) ! j"
      using j kl mk sk by (cases "j = k") (simp_all add: M_def nth_list_update)
  qed
  have "window_events call render w (map (\<lambda>i. Type_In i (fst (E ! i))) [0..<Suc k])
        = fst (window_event call render (w\<lparr>w_entries := M k\<rparr>) (Type_In k (fst (E ! k))))"
    using Suc.IH Suc.prems by (simp add: window_events_def M_def)
  also have "\<dots> = w\<lparr>w_entries := M (Suc k)\<rparr>"
    using kl upd by (simp add: M_def)
  finally show ?case by (simp add: M_def)
qed

lemma type_in_all:
  assumes "map snd (w_entries w) = map snd E"
  shows "window_events call render w (map (\<lambda>i. Type_In i (fst (E ! i))) [0..<length E]) = w\<lparr>w_entries := E\<rparr>"
proof -
  have eq: "map (\<lambda>j. if j < length E then E ! j else w_entries w ! j) [0..<length E] = E"
    by (rule nth_equalityI) simp_all
  have "window_events call render w (map (\<lambda>i. Type_In i (fst (E ! i))) [0..<length E])
          = w\<lparr>w_entries := map (\<lambda>j. if j < length E then E ! j else w_entries w ! j) [0..<length E]\<rparr>"
    by (rule type_in_prefix [OF assms order_refl])
  then show ?thesis unfolding eq .
qed

text \<open>
  C40: from every state of the window of a question of the table, whatever the
  user has typed and selected, the user can still get the answer on the
  defaults: retyping the default texts, choosing Pandas and pressing Run reaches
  a window whose result label shows the pandas function's result.
\<close>

theorem window_result_reachable:
  assumes "(title, func_pandas, func_nopd, param_info, allow_toggle) \<in> set question_data"
    and "window_reach call render (title, func_pandas, func_nopd, param_info, allow_toggle) w"
    and "run_values (w_entries (open_window (title, func_pandas, func_nopd, param_info, allow_toggle))) = Inr args"
    and "call func_pandas args = Inr r"
  shows "\<exists>w'. window_reach call render (title, func_pandas, func_nopd, param_info, allow_toggle) w' \<and> w_result w' = render r"
proof -
  let ?q = "(title, func_pandas, func_nopd, param_info, allow_toggle)"
  let ?E = "w_entries (open_window ?q)"
  have inv: "window_inv ?q w" using assms(2) by (rule window_reach_inv)
  have wf: "\<not> allow_toggle \<longrightarrow> func_pandas = func_nopd"
    using question_data_wf assms(1) by (auto simp: list_all_iff)
  have snd_eq: "map snd (w_entries w) = map snd ?E"
    using inv by (simp add: window_inv_def open_window_def comp_def)
  define w1 where "w1 = window_events call render w (map (\<lambda>i. Type_In i (fst (?E ! i))) [0..<length ?E])"
  have w1: "w1 = w\<lparr>w_entries := ?E\<rparr>" unfolding w1_def by (rule type_in_all [OF snd_eq])
  define w2 where "w2 = fst (window_event call render w1 (Select_Pandas True))"
  have w2: "w_entries w2 = ?E" "w_allow_toggle w2 = allow_toggle" "w_use_pandas w2"
    "w_func_pandas w2 = func_pandas" "w_func_nopd w2 = func_nopd"
    using inv by (auto simp: w2_def w1 window_inv_def)
  have ch: "chosen_func (w_allow_toggle w2) (w_use_pandas w2) (w_func_pandas w2) (w_func_nopd w2) = func_pandas"
    using w2 wf by (auto simp: chosen_func_def)
  define w3 where "w3 = fst (window_event call render w2 Press_Run)"
  have "w_result w3 = render r"
    using w2(1) ch assms(3,4) by (simp add: w3_def run_def)
  moreover have "window_reach call render ?q w3"
    unfolding w3_def w2_def w1_def
    by (intro window_reach.event window_reach_events assms(2))
  ultimately show ?thesis by blast
qed

theorem window_result_reachable_witness:
  "\<exists>w'. window_reach (\<lambda>f (args :: py_val list). (Inr (func_name f) :: string py_result)) id
          (''Which drivers have won 30 or more races in their careers?'', Q_at_least_n_races, Q_at_least_n_races_nopd,
           [\<lparr>p_label = ''Minimum wins:'', p_default = PInt 30, p_type = TInt\<rparr>], True) w'
        \<and> w_result w' = ''at_least_n_races''"
proof -
  have m: "(''Which drivers have won 30 or more races in their careers?'', Q_at_least_n_races, Q_at_least_n_races_nopd,
            [\<lparr>p_label = ''Minimum wins:'', p_default = PInt 30, p_type = TInt\<rparr>], True) \<in> set question_data"
    by (simp add: question_data_def)
  have v: "run_values (w_entries (open_window (''Which drivers have won 30 or more races in their careers?'',
             Q_at_least_n_races, Q_at_least_n_races_nopd,
             [\<lparr>p_label = ''Minimum wins:'', p_default = PInt 30, p_type = TInt\<rparr>], True))) = Inr [PInt 30]"
    by code_simp
  have c: "(\<lambda>f (args :: py_val list). (Inr (func_name f) :: string py_result)) Q_at_least_n_races [PInt 30]
             = Inr ''at_least_n_races''" by simp
  from window_result_reachable [where call = "\<lambda>f (args :: py_val list). (Inr (func_name f) :: string py_result)"
      and render = id, OF m window_reach.opened v c] show ?thesis by simp
qed

end
