(* ===== verification/Features.thy ===== *)
theory Features
  imports F1_Tables Frames
begin

text \<open>
  The feature builder of \<open>cluster_driving_styles\<close> (src/src/learning/clustering.py,
  lines 34-132): one row per driver of per-driver aggregates of results, status,
  lap times, qualifying and pit stops, outer-joined on \<open>driverId\<close>, left-joined
  with the drivers' names and three further aggregates, and filled with 0. The
  standardisation, k-means and PCA that follow are scikit-learn and not modelled.
  A numeric column read with \<open>pd.to_numeric(errors='coerce')\<close> is \<open>py_float\<close>
  (NaN is \<open>None\<close>); \<open>groupby('driverId')\<close> groups by the parsed id, drops rows
  whose id is NaN, and lists the groups by increasing id. The standard deviation
  columns are kept as the sample variance (\<open>ddof = 1\<close>) they are the square
  root of, to stay within the rationals.
\<close>

section \<open>Column statistics\<close>

definition to_numeric :: "string \<Rightarrow> rat option" where
  "to_numeric s = py_float s"

text \<open>\<open>Series.mean()\<close> and \<open>Series.count()\<close>, skipping NaN.\<close>

definition nan_mean :: "rat option list \<Rightarrow> rat option" where
  "nan_mean vs = (let xs = List.map_filter id vs in
                  if xs = [] then None else Some (sum_list xs / of_nat (length xs)))"

definition nan_count :: "rat option list \<Rightarrow> nat" where
  "nan_count vs = length (List.map_filter id vs)"

text \<open>The square of \<open>Series.std()\<close>: NaN below two values.\<close>

definition nan_var :: "rat option list \<Rightarrow> rat option" where
  "nan_var vs = (let xs = List.map_filter id vs; n = length xs in
                 if n < 2 then None
                 else Some (sum_list (map (\<lambda>x. (x - sum_list xs / of_nat n) ^ 2) xs) / of_nat (n - 1)))"

text \<open>The mean of a Boolean Series: the share of its rows that are \<open>True\<close>.\<close>

definition bool_mean :: "bool list \<Rightarrow> rat" where
  "bool_mean bs = of_nat (length (filter id bs)) / of_nat (length bs)"

text \<open>The groups of \<open>groupby(key)\<close>: the ids in increasing order, and the rows of one id.\<close>

definition group_keys :: "('r \<Rightarrow> string) \<Rightarrow> 'r list \<Rightarrow> int list" where
  "group_keys f rs = sort (remdups (pd_keys f rs))"

definition group_rows :: "('r \<Rightarrow> string) \<Rightarrow> 'r list \<Rightarrow> int \<Rightarrow> 'r list" where
  "group_rows f rs d = filter (\<lambda>r. py_int (f r) = Some d) rs"

text \<open>\<open>groupby(key)[col].agg(g).reset_index()\<close>: a table from id to value.\<close>

definition group_agg :: "('r \<Rightarrow> string) \<Rightarrow> ('r list \<Rightarrow> 'v) \<Rightarrow> 'r list \<Rightarrow> (int \<times> 'v) list" where
  "group_agg f g rs = map (\<lambda>d. (d, g (group_rows f rs d))) (group_keys f rs)"

text \<open>\<open>s.str.contains(r'Finished|\+')\<close>: the text holds \<open>Finished\<close> or a \<open>+\<close>.\<close>

definition str_contains :: "string \<Rightarrow> string \<Rightarrow> bool" where
  "str_contains sub s = list_ex (\<lambda>i. take (length sub) (drop i s) = sub) [0..<Suc (length s)]"

section \<open>The aggregates\<close>

definition position_order :: "result_row \<Rightarrow> rat option" where
  "position_order r = to_numeric (positionOrder r)"

definition win_rate :: "result_row list \<Rightarrow> (int \<times> rat option) list" where
  "win_rate rs = group_agg res_driverId (\<lambda>g. Some (bool_mean (map (\<lambda>r. position_order r = Some 1) g))) rs"

definition podium_rate :: "result_row list \<Rightarrow> (int \<times> rat option) list" where
  "podium_rate rs = group_agg res_driverId
     (\<lambda>g. Some (bool_mean (map (\<lambda>r. case position_order r of Some p \<Rightarrow> p \<le> 3 | None \<Rightarrow> False) g))) rs"

text \<open>
  \<open>status[status['status'].str.contains(...)]['statusId'].astype(int)\<close>; a NaN
  status text makes the mask non-Boolean and the selection raise \<open>ValueError\<close>.
\<close>

definition finished_ids :: "status_row list \<Rightarrow> int list py_result" where
  "finished_ids st =
     (if list_ex (\<lambda>s. pd_str (status s) = None) st then Inl ValueError
      else Inr (pd_keys statusId (filter (\<lambda>s. str_contains ''Finished'' (status s) \<or> str_contains ''+'' (status s)) st)))"

definition is_finished :: "int list \<Rightarrow> result_row \<Rightarrow> bool" where
  "is_finished ids r = (case to_numeric (res_statusId r) of Some s \<Rightarrow> s \<in> of_int ` set ids | None \<Rightarrow> False)"

definition finish_rate :: "int list \<Rightarrow> result_row list \<Rightarrow> (int \<times> rat option) list" where
  "finish_rate ids rs = group_agg res_driverId (\<lambda>g. Some (bool_mean (map (is_finished ids) g))) rs"

definition position_gain :: "result_row \<Rightarrow> rat option" where
  "position_gain r = (case (to_numeric (grid r), position_order r) of (Some g, Some p) \<Rightarrow> Some (g - p) | _ \<Rightarrow> None)"

definition avg_position_gain :: "result_row list \<Rightarrow> (int \<times> rat option) list" where
  "avg_position_gain rs = group_agg res_driverId (\<lambda>g. nan_mean (map position_gain g)) rs"

definition lap_stats :: "lap_time_row list \<Rightarrow> (int \<times> rat option \<times> rat option) list" where
  "lap_stats lts = group_agg lt_driverId
     (\<lambda>g. (nan_mean (map (\<lambda>l. to_numeric (lt_milliseconds l)) g), nan_var (map (\<lambda>l. to_numeric (lt_milliseconds l)) g))) lts"

text \<open>\<open>qualifying[['q1', 'q2', 'q3']].mean(axis=1)\<close>, then the mean per driver.\<close>

definition mean_qualifying_position :: "qualifying_row \<Rightarrow> rat option" where
  "mean_qualifying_position q = nan_mean [to_numeric (q1 q), to_numeric (q2 q), to_numeric (q3 q)]"

definition mean_qual :: "qualifying_row list \<Rightarrow> (int \<times> rat option) list" where
  "mean_qual qs = group_agg q_driverId (\<lambda>g. nan_mean (map mean_qualifying_position g)) qs"

definition pit_agg :: "pit_stop_row list \<Rightarrow> (int \<times> rat option \<times> rat option) list" where
  "pit_agg ps = group_agg ps_driverId
     (\<lambda>g. (nan_mean (map (\<lambda>p. to_numeric (ps_milliseconds p)) g),
           Some (of_nat (nan_count (map (\<lambda>p. to_numeric (ps_milliseconds p)) g))))) ps"

definition mean_race_pos :: "result_row list \<Rightarrow> (int \<times> rat option) list" where
  "mean_race_pos rs = group_agg res_driverId (\<lambda>g. nan_mean (map position_order g)) rs"

definition position_std :: "result_row list \<Rightarrow> (int \<times> rat option) list" where
  "position_std rs = group_agg res_driverId (\<lambda>g. nan_var (map position_order g)) rs"

definition podium_when_finished :: "int list \<Rightarrow> result_row list \<Rightarrow> (int \<times> rat option) list" where
  "podium_when_finished ids rs = group_agg res_driverId
     (\<lambda>g. Some (bool_mean (map (\<lambda>r. case position_order r of Some p \<Rightarrow> p \<le> 3 | None \<Rightarrow> False) g)))
     (filter (is_finished ids) rs)"

text \<open>\<open>mean_race_pos.merge(mean_qual, on='driverId')\<close> and the delta column.\<close>

definition qualif_vs_race :: "result_row list \<Rightarrow> qualifying_row list \<Rightarrow> (int \<times> rat option) list" where
  "qualif_vs_race rs qs =
     map (\<lambda>((d, mr), (_, mq)). (d, case (mq, mr) of (Some a, Some b) \<Rightarrow> Some (a - b) | _ \<Rightarrow> None))
       (merge_inner fst fst (mean_race_pos rs) (mean_qual qs))"

section \<open>The feature table\<close>

text \<open>
  \<open>reduce(lambda left, right: pd.merge(left, right, on='driverId', how='outer'), dfs)\<close>:
  every aggregate has one row per id, so each outer merge holds one row per id of
  either side, the ids sorted.
\<close>

definition merge_outer_keys :: "int list \<Rightarrow> int list \<Rightarrow> int list" where
  "merge_outer_keys left right = sort (remdups (left @ right))"

definition df_pilotes_keys :: "int list \<Rightarrow> result_row list \<Rightarrow> lap_time_row list \<Rightarrow> qualifying_row list \<Rightarrow> pit_stop_row list \<Rightarrow> int list" where
  "df_pilotes_keys ids rs lts qs ps =
     foldl merge_outer_keys (map fst (avg_position_gain rs))
       [map fst (win_rate rs), map fst (podium_rate rs), map fst (finish_rate ids rs),
        map fst (lap_stats lts), map fst (mean_qual qs), map fst (pit_agg ps)]"

definition lookup_nan :: "(int \<times> rat option) list \<Rightarrow> int \<Rightarrow> rat option" where
  "lookup_nan tbl d = (case map_of tbl d of Some v \<Rightarrow> v | None \<Rightarrow> None)"

definition lookup_nan2 :: "(int \<times> rat option \<times> rat option) list \<Rightarrow> int \<Rightarrow> rat option \<times> rat option" where
  "lookup_nan2 tbl d = (case map_of tbl d of Some v \<Rightarrow> v | None \<Rightarrow> (None, None))"

text \<open>\<open>fillna(0)\<close>: a missing number becomes 0; a missing name becomes the number 0.\<close>

definition fill0 :: "rat option \<Rightarrow> rat" where
  "fill0 v = (case v of Some x \<Rightarrow> x | None \<Rightarrow> 0)"

datatype name_cell = Name string | Zero

definition fill_name :: "string option \<Rightarrow> name_cell" where
  "fill_name v = (case v of Some s \<Rightarrow> Name s | None \<Rightarrow> Zero)"

record feature_row =
  fr_driverId :: int
  fr_avg_position_gain :: rat
  fr_win_rate :: rat
  fr_podium_rate :: rat
  fr_finish_rate :: rat
  fr_avg_lap_time :: rat
  fr_std_lap_time_sq :: rat
  fr_mean_qualifying_position :: rat
  fr_avg_pit_stop_time :: rat
  fr_avg_pit_stop_count :: rat
  fr_forename :: name_cell
  fr_surname :: name_cell
  fr_name :: name_cell
  fr_qualif_vs_race_delta :: rat
  fr_position_std_sq :: rat
  fr_podium_when_finished_rate :: rat

text \<open>
  The row of id \<open>d\<close> after the left merge with the driver row \<open>dr\<close> (if any),
  the name column, the three further left merges and \<open>fillna(0)\<close>.
\<close>

definition feature_row_of :: "int list \<Rightarrow> f1_db \<Rightarrow> int \<Rightarrow> driver_row option \<Rightarrow> feature_row" where
  "feature_row_of ids db d dr =
     (let rs = results db; fore = (case dr of Some x \<Rightarrow> pd_str (forename x) | None \<Rightarrow> None);
          sur = (case dr of Some x \<Rightarrow> pd_str (surname x) | None \<Rightarrow> None) in
      \<lparr>fr_driverId = d,
       fr_avg_position_gain = fill0 (lookup_nan (avg_position_gain rs) d),
       fr_win_rate = fill0 (lookup_nan (win_rate rs) d),
       fr_podium_rate = fill0 (lookup_nan (podium_rate rs) d),
       fr_finish_rate = fill0 (lookup_nan (finish_rate ids rs) d),
       fr_avg_lap_time = fill0 (fst (lookup_nan2 (lap_stats (lap_times db)) d)),
       fr_std_lap_time_sq = fill0 (snd (lookup_nan2 (lap_stats (lap_times db)) d)),
       fr_mean_qualifying_position = fill0 (lookup_nan (mean_qual (qualifying db)) d),
       fr_avg_pit_stop_time = fill0 (fst (lookup_nan2 (pit_agg (pit_stops db)) d)),
       fr_avg_pit_stop_count = fill0 (snd (lookup_nan2 (pit_agg (pit_stops db)) d)),
       fr_forename = fill_name fore,
       fr_surname = fill_name sur,
       fr_name = fill_name (case (fore, sur) of (Some a, Some b) \<Rightarrow> Some (a @ '' '' @ b) | _ \<Rightarrow> None),
       fr_qualif_vs_race_delta = fill0 (lookup_nan (qualif_vs_race rs (qualifying db)) d),
       fr_position_std_sq = fill0 (lookup_nan (position_std rs) d),
       fr_podium_when_finished_rate = fill0 (lookup_nan (podium_when_finished ids rs) d)\<rparr>)"

definition build_features :: "f1_db \<Rightarrow> feature_row list py_result" where
  "build_features db =
     (case finished_ids (statuses db) of
        Inl e \<Rightarrow> Inl e
      | Inr ids \<Rightarrow>
          Inr (map (\<lambda>(d, dr). feature_row_of ids db d dr)
                 (merge_left Some (\<lambda>x. py_int (driverId x))
                    (df_pilotes_keys ids (results db) (lap_times db) (qualifying db) (pit_stops db)) (drivers db))))"

section \<open>Example data\<close>

definition fb_result :: "string \<Rightarrow> string \<Rightarrow> string \<Rightarrow> string \<Rightarrow> result_row" where
  "fb_result d g po st = \<lparr>res_raceId = ''1'', res_driverId = d, res_constructorId = ''1'', grid = g,
                          position = po, positionOrder = po, res_statusId = st\<rparr>"

text \<open>
  Two drivers with results, laps, a pit stop and a qualifying row whose times are
  written as the dataset writes them; a third driver only in drivers.csv.
\<close>

definition fb_db :: f1_db where
  "fb_db = \<lparr>drivers = [\<lparr>driverId = ''1'', forename = ''Lewis'', surname = ''Hamilton'', nationality = ''British''\<rparr>,
                       \<lparr>driverId = ''2'', forename = ''Max'', surname = ''Verstappen'', nationality = ''Dutch''\<rparr>,
                       \<lparr>driverId = ''3'', forename = ''Test'', surname = ''Driver'', nationality = ''British''\<rparr>],
    results = [fb_result ''1'' ''2'' ''1'' ''1'', fb_result ''1'' ''3'' ''4'' ''11'', fb_result ''2'' ''1'' ''2'' ''5''],
    races = [], driver_standings = [], constructor_standings = [], constructors = [], circuits = [],
    statuses = [\<lparr>statusId = ''1'', status = ''Finished''\<rparr>, \<lparr>statusId = ''5'', status = ''Engine''\<rparr>,
                \<lparr>statusId = ''11'', status = ''+1 Lap''\<rparr>],
    pit_stops = [\<lparr>ps_driverId = ''1'', ps_milliseconds = ''22''\<rparr>],
    lap_times = [\<lparr>lt_driverId = ''1'', lt_milliseconds = ''90''\<rparr>, \<lparr>lt_driverId = ''2'', lt_milliseconds = ''91''\<rparr>],
    qualifying = [\<lparr>q_driverId = ''1'', q1 = ''1:26.572'', q2 = [CHR 0x5C, CHR ''N''], q3 = [CHR 0x5C, CHR ''N'']\<rparr>]\<rparr>"

definition fb_rows :: "feature_row list" where
  "fb_rows = [feature_row_of [1, 11] fb_db 1 (Some (hd (drivers fb_db))),
              feature_row_of [1, 11] fb_db 2 (Some (drivers fb_db ! 1))]"

section \<open>Groups and joins\<close>

lemma set_group_keys [simp]: "set (group_keys f rs) = set (pd_keys f rs)"
  by (simp add: group_keys_def)

lemma keys_group_agg [simp]: "fst ` set (group_agg f g rs) = set (pd_keys f rs)"
  by (simp add: group_agg_def image_image)

lemma map_of_map_pair: "map_of (map (\<lambda>k. (k, h k)) ks) x = (if x \<in> set ks then Some (h x) else None)"
  by (induction ks) auto

lemma map_of_group_agg:
  "map_of (group_agg f g rs) d = (if d \<in> set (pd_keys f rs) then Some (g (group_rows f rs d)) else None)"
  by (simp add: group_agg_def map_of_map_pair)

lemma group_rows_ne: "group_rows f rs d \<noteq> [] \<longleftrightarrow> d \<in> set (pd_keys f rs)"
  by (auto simp: group_rows_def pd_keys_def set_map_filter_iff filter_empty_conv)

lemma set_merge_outer_fold:
  "set (foldl merge_outer_keys k ks) = set k \<union> \<Union> (set ` set ks)"
  by (induction ks arbitrary: k) (auto simp: merge_outer_keys_def)

lemma set_df_pilotes_keys:
  "set (df_pilotes_keys ids rs lts qs ps) =
     set (pd_keys res_driverId rs) \<union> set (pd_keys lt_driverId lts) \<union> set (pd_keys q_driverId qs) \<union> set (pd_keys ps_driverId ps)"
  unfolding df_pilotes_keys_def set_merge_outer_fold
  by (auto simp: win_rate_def podium_rate_def finish_rate_def
      avg_position_gain_def lap_stats_def mean_qual_def pit_agg_def)

lemma fst_set_match: "fst ` set (case zs of [] \<Rightarrow> [(x, None)] | ms \<Rightarrow> map (\<lambda>y. (x, Some y)) ms) = {x}"
  by (cases zs) auto

lemma fst_merge_left: "fst ` set (merge_left f g xs ys) = set xs"
  by (induction xs) (simp_all add: merge_left_def image_Un fst_set_match)

lemma build_features_rows:
  assumes "build_features db = Inr rows" and "r \<in> set rows"
  obtains ids d dr where "finished_ids (statuses db) = Inr ids"
    "(d, dr) \<in> set (merge_left Some (\<lambda>x. py_int (driverId x))
                  (df_pilotes_keys ids (results db) (lap_times db) (qualifying db) (pit_stops db)) (drivers db))"
    "r = feature_row_of ids db d dr"
  using assms by (cases "finished_ids (statuses db)") (auto simp: build_features_def)

lemma fill0_group_rate:
  "fill0 (lookup_nan (group_agg f (\<lambda>g. Some (bool_mean (map P g))) rs) d)
     = of_nat (length (filter P (group_rows f rs d))) / of_nat (length (group_rows f rs d))"
proof (cases "d \<in> set (pd_keys f rs)")
  case True
  then show ?thesis by (simp add: lookup_nan_def map_of_group_agg fill0_def bool_mean_def comp_def)
next
  case False
  then have "group_rows f rs d = []" using group_rows_ne by blast
  then show ?thesis using False by (simp add: lookup_nan_def map_of_group_agg fill0_def)
qed

lemma fb_db_features: "build_features fb_db = Inr fb_rows"
  unfolding fb_rows_def by code_simp

section \<open>Properties of the feature table\<close>

text \<open>
  C34: the feature table has a row for exactly the drivers with a result, a lap
  time, a qualifying row or a pit stop: the final left merge with drivers.csv adds
  none, so a driver who appears only in drivers.csv gets no row, where the spec
  asks for an all-zero feature vector.
\<close>

theorem feature_rows_drivers:
  assumes "build_features db = Inr rows"
  shows "fr_driverId ` set rows =
           set (pd_keys res_driverId (results db)) \<union> set (pd_keys lt_driverId (lap_times db))
           \<union> set (pd_keys q_driverId (qualifying db)) \<union> set (pd_keys ps_driverId (pit_stops db))"
proof -
  obtain ids where ids: "finished_ids (statuses db) = Inr ids"
    using assms by (cases "finished_ids (statuses db)") (auto simp: build_features_def)
  let ?m = "merge_left Some (\<lambda>x. py_int (driverId x))
              (df_pilotes_keys ids (results db) (lap_times db) (qualifying db) (pit_stops db)) (drivers db)"
  have "rows = map (\<lambda>(d, dr). feature_row_of ids db d dr) ?m"
    using assms ids by (simp add: build_features_def)
  then have "fr_driverId ` set rows = fst ` set ?m"
    by (force simp: feature_row_of_def Let_def)
  then show ?thesis by (simp add: fst_merge_left set_df_pilotes_keys)
qed

theorem feature_rows_drivers_witness:
  "\<exists>rows. build_features fb_db = Inr rows \<and> fr_driverId ` set rows = {1, 2} \<and> 3 \<notin> fr_driverId ` set rows"
proof -
  note r = fb_db_features
  have k: "set (pd_keys res_driverId (results fb_db)) = {1, 2}" "set (pd_keys lt_driverId (lap_times fb_db)) = {1, 2}"
    "set (pd_keys q_driverId (qualifying fb_db)) = {1}" "set (pd_keys ps_driverId (pit_stops fb_db)) = {1}"
    by code_simp+
  have "fr_driverId ` set fb_rows = {1, 2}" using feature_rows_drivers [OF r] k by auto
  with r show ?thesis by auto
qed

text \<open>
  C35: the win rate and the podium rate of a driver's row are the shares of the
  driver's results finishing first and in the top three (a result whose
  \<open>positionOrder\<close> does not parse counts as neither); a driver without results
  has 0.
\<close>

theorem feature_result_rates:
  assumes "build_features db = Inr rows" and "r \<in> set rows"
  shows "fr_win_rate r = of_nat (length (filter (\<lambda>x. position_order x = Some 1) (group_rows res_driverId (results db) (fr_driverId r))))
                         / of_nat (length (group_rows res_driverId (results db) (fr_driverId r)))
       \<and> fr_podium_rate r = of_nat (length (filter (\<lambda>x. case position_order x of Some p \<Rightarrow> p \<le> 3 | None \<Rightarrow> False)
                                         (group_rows res_driverId (results db) (fr_driverId r))))
                         / of_nat (length (group_rows res_driverId (results db) (fr_driverId r)))"
proof -
  obtain ids d dr where "r = feature_row_of ids db d dr"
    using build_features_rows [OF assms] by blast
  then show ?thesis
    by (simp add: feature_row_of_def Let_def win_rate_def podium_rate_def fill0_group_rate)
qed

theorem feature_result_rates_witness:
  "build_features fb_db = Inr fb_rows \<and> feature_row_of [1, 11] fb_db 1 (Some (hd (drivers fb_db))) \<in> set fb_rows
   \<and> fr_win_rate (feature_row_of [1, 11] fb_db 1 (Some (hd (drivers fb_db)))) = 1 / 2
   \<and> fr_podium_rate (feature_row_of [1, 11] fb_db 1 (Some (hd (drivers fb_db)))) = 1 / 2"
proof -
  let ?r = "feature_row_of [1, 11] fb_db 1 (Some (hd (drivers fb_db)))"
  have m: "?r \<in> set fb_rows" by (simp add: fb_rows_def)
  have i: "fr_driverId ?r = 1" by (simp add: feature_row_of_def Let_def)
  have g: "group_rows res_driverId (results fb_db) 1 = [fb_result ''1'' ''2'' ''1'' ''1'', fb_result ''1'' ''3'' ''4'' ''11'']"
    "position_order (fb_result ''1'' ''2'' ''1'' ''1'') = Some 1" "position_order (fb_result ''1'' ''3'' ''4'' ''11'') = Some 4"
    by code_simp+
  show ?thesis using feature_result_rates [OF fb_db_features m] fb_db_features m i g by simp
qed

text \<open>
  The qualifying columns q1-q3 hold lap times such as \<open>1:26.572\<close>, which
  \<open>to_numeric\<close> turns into NaN: the mean qualifying "position" is NaN for
  every row, and 0 after \<open>fillna\<close>.
\<close>

lemma fb_qualifying_zero:
  "mean_qual (qualifying fb_db) = [(1, None)] \<and> fr_mean_qualifying_position (hd fb_rows) = 0"
  by (simp add: fb_rows_def, code_simp)

end
