(* ===== verification/Timing.thy ===== *)
theory Timing
  imports Py_Decimal
begin

text \<open>
  The timing harness: \<open>compare_execution_time\<close> (src/src/analysis/compare.py) runs
  two functions alternately \<open>repeats\<close> times, reads \<open>time.perf_counter()\<close> around
  each call and returns the mean time of each and their difference;
  \<open>show_comparison_result\<close> (src/src/app.py) formats them with six decimals, or
  shows the exception. The clock is explicit state: a rational number of seconds.
  A call is a function from the clock before it to its outcome (an exception or
  none) and the clock after it; reading the clock takes no time. Python's floats
  are exact rationals here.
\<close>

type_synonym clock = rat

type_synonym timed_call = "clock \<Rightarrow> py_error option \<times> clock"

record timing_result =
  vanilla :: rat
  modules :: rat
  difference :: rat

section \<open>The loop\<close>

text \<open>
  \<open>for _ in range(repeats)\<close> with the clock and the two running totals; round
  \<open>i\<close> times \<open>fct_vanilla\<close>, then \<open>fct_with_module\<close>. An exception leaves the loop.
\<close>

function timing_loop :: "timed_call \<Rightarrow> timed_call \<Rightarrow> int \<Rightarrow> int \<Rightarrow> clock \<times> rat \<times> rat \<Rightarrow> (clock \<times> rat \<times> rat) py_result" where
  "timing_loop fct_vanilla fct_with_module repeats i (clk, total_time_vanilla, total_time_other) =
     (if i < repeats then
        (case fct_vanilla clk of
           (Some e, _) \<Rightarrow> Inl e
         | (None, clk1) \<Rightarrow>
             (case fct_with_module clk1 of
                (Some e, _) \<Rightarrow> Inl e
              | (None, clk2) \<Rightarrow>
                  timing_loop fct_vanilla fct_with_module repeats (i + 1)
                    (clk2, total_time_vanilla + (clk1 - clk), total_time_other + (clk2 - clk1))))
      else Inr (clk, total_time_vanilla, total_time_other))"
  by pat_completeness auto
termination
  by (relation "measure (\<lambda>(_, _, repeats, i, _). nat (repeats - i))") auto

declare timing_loop.simps [simp del]

text \<open>The averages; \<open>repeats = 0\<close> divides by zero.\<close>

definition compare_execution_time :: "timed_call \<Rightarrow> timed_call \<Rightarrow> int \<Rightarrow> clock \<Rightarrow> timing_result py_result" where
  "compare_execution_time fct_vanilla fct_with_module repeats clk =
     (case timing_loop fct_vanilla fct_with_module repeats 0 (clk, 0, 0) of
        Inl e \<Rightarrow> Inl e
      | Inr (_, total_time_vanilla, total_time_other) \<Rightarrow>
          if repeats = 0 then Inl ZeroDivisionError
          else (let avg_time_vanilla = total_time_vanilla / of_int repeats;
                    avg_time_other = total_time_other / of_int repeats in
                Inr \<lparr>vanilla = avg_time_vanilla, modules = avg_time_other,
                     difference = avg_time_vanilla - avg_time_other\<rparr>))"

section \<open>The message\<close>

text \<open>
  \<open>f"{x:.6f}"\<close>: rounded half to even at six decimals; the sign of a negative
  number is kept even when it rounds to zero.
\<close>

definition fmt_6f :: "rat \<Rightarrow> string" where
  "fmt_6f x =
     (let r = py_round (x * 10 ^ 6); a = nat \<bar>r\<bar>; frac = nat_str (a mod 10 ^ 6) in
      (if x < 0 then ''-'' else []) @ nat_str (a div 10 ^ 6) @ ''.''
      @ replicate (6 - length frac) CHR ''0'' @ frac)"

datatype message = Info string string | Error_Box string py_error

definition show_comparison_result :: "timed_call \<Rightarrow> timed_call \<Rightarrow> clock \<Rightarrow> message" where
  "show_comparison_result func_vanilla func_pandas clk =
     (case compare_execution_time func_vanilla func_pandas 10 clk of
        Inl e \<Rightarrow> Error_Box ''Error'' e
      | Inr result \<Rightarrow>
          Info ''Execution Time Comparison''
            (''Vanilla Python: '' @ fmt_6f (vanilla result) @ '' s\<newline>''
             @ ''Pandas: '' @ fmt_6f (modules result) @ '' s\<newline>''
             @ ''Difference: '' @ fmt_6f (difference result) @ '' s''))"

section \<open>The specification: mean durations\<close>

text \<open>
  What the docstring promises: the mean of the durations of the \<open>repeats\<close> calls
  of each function, and their difference. \<open>call_durations\<close> lists the durations
  of the rounds from a clock, or the first exception.
\<close>

fun call_durations :: "timed_call \<Rightarrow> timed_call \<Rightarrow> nat \<Rightarrow> clock \<Rightarrow> ((rat \<times> rat) list \<times> clock) py_result" where
  "call_durations fv fm 0 clk = Inr ([], clk)"
| "call_durations fv fm (Suc n) clk =
     (case fv clk of
        (Some e, _) \<Rightarrow> Inl e
      | (None, clk1) \<Rightarrow>
          (case fm clk1 of
             (Some e, _) \<Rightarrow> Inl e
           | (None, clk2) \<Rightarrow> map_sum id (\<lambda>(ds, c). ((clk1 - clk, clk2 - clk1) # ds, c)) (call_durations fv fm n clk2)))"

definition mean_spec :: "(rat \<times> rat) list \<Rightarrow> timing_result" where
  "mean_spec ds =
     (let n = of_nat (length ds); mv = sum_list (map fst ds) / n; mm = sum_list (map snd ds) / n in
      \<lparr>vanilla = mv, modules = mm, difference = mv - mm\<rparr>)"

section \<open>The loop against the specification\<close>

lemma map_sum_Inr_iff: "map_sum f g x = Inr y \<longleftrightarrow> (\<exists>z. x = Inr z \<and> y = g z)"
  by (cases x) auto

lemma timing_loop_durations_n:
  "nat (repeats - i) = n \<Longrightarrow>
   timing_loop fv fm repeats i (clk, tv, tm) =
     map_sum id (\<lambda>(ds, c). (c, tv + sum_list (map fst ds), tm + sum_list (map snd ds)))
       (call_durations fv fm n clk)"
proof (induction n arbitrary: i clk tv tm)
  case 0
  then show ?case by (subst timing_loop.simps) simp
next
  case (Suc n)
  then have lt: "i < repeats" and n: "nat (repeats - (i + 1)) = n" by simp_all
  show ?case
  proof (cases "fv clk")
    case (Pair ev clk1)
    show ?thesis
    proof (cases ev)
      case None
      show ?thesis
      proof (cases "fm clk1")
        case (Pair em clk2)
        then show ?thesis
          using lt Suc.IH [OF n, of clk2] \<open>fv clk = (ev, clk1)\<close> None
          by (subst timing_loop.simps) (cases em; cases "call_durations fv fm n clk2"; auto simp: algebra_simps)
      qed
    qed (use lt Pair in \<open>subst timing_loop.simps, simp\<close>)
  qed
qed

lemma timing_loop_durations:
  "timing_loop fv fm repeats i (clk, tv, tm) =
     map_sum id (\<lambda>(ds, c). (c, tv + sum_list (map fst ds), tm + sum_list (map snd ds)))
       (call_durations fv fm (nat (repeats - i)) clk)"
  by (rule timing_loop_durations_n) simp

lemma call_durations_length: "call_durations fv fm n clk = Inr (ds, c) \<Longrightarrow> length ds = n"
proof (induction n arbitrary: clk ds)
  case (Suc n)
  then show ?case
    by (auto split: prod.splits option.splits simp: map_sum_Inr_iff)
qed simp

lemma call_durations_Inr:
  assumes "\<forall>c. fst (fv c) = None" "\<forall>c. fst (fm c) = None"
  shows "\<exists>ds c'. call_durations fv fm n clk = Inr (ds, c')"
proof (induction n arbitrary: clk)
  case (Suc n)
  obtain clk1 where 1: "fv clk = (None, clk1)" using assms(1) by (metis prod.collapse)
  obtain clk2 where 2: "fm clk1 = (None, clk2)" using assms(2) by (metis prod.collapse)
  from Suc [of clk2] 1 2 show ?case by auto
qed simp

section \<open>Properties of the harness\<close>

text \<open>
  C36: \<open>compare_execution_time\<close> refines its specification: for a positive
  \<open>repeats\<close>, the result is the mean duration of each function's calls, and
  their difference, over the rounds the calls take on the clock; an exception of
  either call is the result.
\<close>

theorem compare_refines_mean:
  assumes "0 < repeats"
  shows "compare_execution_time fv fm repeats clk =
           map_sum id (\<lambda>(ds, c). mean_spec ds) (call_durations fv fm (nat repeats) clk)"
proof (cases "call_durations fv fm (nat repeats) clk")
  case (Inl e)
  then show ?thesis by (simp add: compare_execution_time_def timing_loop_durations)
next
  case (Inr r)
  obtain ds c where r: "r = (ds, c)" by (cases r)
  have "of_nat (length ds) = (of_int repeats :: rat)"
    using call_durations_length [OF Inr [unfolded r]] assms by simp
  then show ?thesis
    using Inr r assms by (simp add: compare_execution_time_def timing_loop_durations mean_spec_def Let_def)
qed

theorem compare_refines_mean_witness:
  "compare_execution_time (\<lambda>c. (None, c + 1/10)) (\<lambda>c. (None, c + 3/100)) 10 0
     = Inr \<lparr>vanilla = 1/10, modules = 3/100, difference = 7/100\<rparr>"
proof -
  have "call_durations (\<lambda>c. (None, c + 1/10)) (\<lambda>c. (None, c + 3/100)) (nat 10) 0
          = Inr (replicate 10 (1/10, 3/100), 13/10)"
    by (simp add: numeral_eq_Suc)
  then show ?thesis
    using compare_refines_mean [of 10 "\<lambda>c. (None, c + 1/10)" "\<lambda>c. (None, c + 3/100)" 0]
    by (simp add: mean_spec_def Let_def numeral_eq_Suc)
qed

text \<open>
  C37: when neither function raises, the loop returns normally after exactly
  \<open>max 0 repeats\<close> rounds, with the two totals of the rounds' durations.
\<close>

theorem timing_loop_terminates:
  assumes "\<forall>c. fst (fv c) = None" "\<forall>c. fst (fm c) = None"
  shows "\<exists>ds c'. call_durations fv fm (nat repeats) clk = Inr (ds, c') \<and> length ds = nat repeats
           \<and> timing_loop fv fm repeats 0 (clk, 0, 0) = Inr (c', sum_list (map fst ds), sum_list (map snd ds))"
proof -
  obtain ds c' where d: "call_durations fv fm (nat repeats) clk = Inr (ds, c')"
    using call_durations_Inr [OF assms] by blast
  then show ?thesis
    using call_durations_length [OF d] by (simp add: timing_loop_durations)
qed

theorem timing_loop_terminates_witness:
  "timing_loop (\<lambda>c. (None, c + 2)) (\<lambda>c. (None, c + 1)) 3 0 (0, 0, 0) = Inr (9, 6, 3)"
proof -
  have "\<forall>c. fst ((\<lambda>c. (None :: py_error option, c + (2 :: rat))) c) = None"
       "\<forall>c. fst ((\<lambda>c. (None :: py_error option, c + (1 :: rat))) c) = None" by simp_all
  from timing_loop_terminates [OF this, of 3 0] obtain ds c' where
    "call_durations (\<lambda>c. (None, c + 2)) (\<lambda>c. (None, c + 1)) (nat 3) 0 = Inr (ds, c')"
    "timing_loop (\<lambda>c. (None, c + 2)) (\<lambda>c. (None, c + 1)) 3 0 (0, 0, 0) = Inr (c', sum_list (map fst ds), sum_list (map snd ds))"
    by blast
  moreover have "call_durations (\<lambda>c. (None, c + 2)) (\<lambda>c. (None, c + 1)) (nat 3) (0 :: rat) = Inr ([(2, 1), (2, 1), (2, 1)], 9)"
    by (simp add: numeral_eq_Suc)
  ultimately show ?thesis by simp
qed

text \<open>
  C38: with \<open>repeats = 0\<close> the averages divide by zero and the call raises
  \<open>ZeroDivisionError\<close>; with a negative \<open>repeats\<close> no function is run and all
  three times are 0.
\<close>

theorem compare_nonpositive_repeats:
  assumes "repeats \<le> 0"
  shows "compare_execution_time fv fm repeats clk =
           (if repeats = 0 then Inl ZeroDivisionError else Inr \<lparr>vanilla = 0, modules = 0, difference = 0\<rparr>)"
  using assms by (subst compare_execution_time_def, subst timing_loop.simps) simp

theorem compare_nonpositive_repeats_witness:
  "compare_execution_time (\<lambda>c. (None, c + 1)) (\<lambda>c. (None, c + 1)) 0 0 = Inl ZeroDivisionError
   \<and> compare_execution_time (\<lambda>c. (None, c + 1)) (\<lambda>c. (None, c + 1)) (-1) 0 = Inr \<lparr>vanilla = 0, modules = 0, difference = 0\<rparr>"
  using compare_nonpositive_repeats [of 0 "\<lambda>c. (None, c + 1)" "\<lambda>c. (None, c + 1)" 0]
        compare_nonpositive_repeats [of "-1" "\<lambda>c. (None, c + 1)" "\<lambda>c. (None, c + 1)" 0]
  by simp

end
