(* ===== verification/Charts.thy ===== *)
theory Charts
  imports Failures Constructors Circuits
begin

text \<open>
  The two chart functions: \<open>nationalities\<close> (src/src/analysis/pandas/q6_graph.py)
  and \<open>most_constructor_championships_won\<close> (src/src/analysis/pandas/q5_graph.py).
  Their effect is a matplotlib figure, shown in a window or saved to
  \<open>save_path\<close>. A figure is modelled by what the calls put into it: the kind of
  plot, the bars with their labels and heights in drawing order, the title and
  axis labels, the text annotations and the axis settings. The rendering itself
  is matplotlib and is not modelled.
\<close>

section \<open>Figures\<close>

record bar_chart =
  chart_kind :: string
  chart_figsize :: "(nat \<times> nat) option"
  chart_title :: string
  chart_xlabel :: string
  chart_ylabel :: string
  chart_bars :: "(string \<times> nat) list"
  chart_color :: "string option"
  chart_legend :: bool
  chart_xtick_rotation :: nat
  chart_xtick_length :: "nat option"
  chart_spines_visible :: bool
  chart_texts :: "(rat \<times> nat \<times> string) list"
  chart_y_inverted :: bool
  chart_x_axis_visible :: bool

text \<open>\<open>if save_path: plt.savefig(save_path) else: plt.show()\<close>, then \<open>plt.close()\<close>.\<close>

datatype chart_effect = Saved string bar_chart | Shown bar_chart

definition save_or_show :: "string option \<Rightarrow> bar_chart \<Rightarrow> chart_effect" where
  "save_or_show save_path fig = (if py_truthy save_path then Saved (the save_path) fig else Shown fig)"

definition plain_chart :: "string \<Rightarrow> (string \<times> nat) list \<Rightarrow> bar_chart" where
  "plain_chart kind bars =
     \<lparr>chart_kind = kind, chart_figsize = None, chart_title = [], chart_xlabel = [], chart_ylabel = [],
      chart_bars = bars, chart_color = None, chart_legend = True, chart_xtick_rotation = 0,
      chart_xtick_length = None, chart_spines_visible = True, chart_texts = [],
      chart_y_inverted = False, chart_x_axis_visible = True\<rparr>"

section \<open>Drivers per nationality (q6)\<close>

definition nationalities :: "f1_db \<Rightarrow> string option \<Rightarrow> chart_effect" where
  "nationalities db save_path =
     (let counts = nationalities_counts (drivers db);
          graph = (plain_chart ''bar'' counts)
            \<lparr>chart_figsize := Some (16, 8),
             chart_title := ''Drivers'' @ CHR 0x27 # '' nationalities since 1950'',
             chart_xlabel := ''Nationality'', chart_ylabel := ''Number of drivers'',
             chart_xtick_rotation := 90, chart_xtick_length := Some 0,
             chart_spines_visible := False\<rparr> in
      save_or_show save_path graph)"

section \<open>Constructors' championships (q5)\<close>

text \<open>The index of the tally is the champion's name, or \<open>None\<close>, which the plot labels \<open>None\<close>.\<close>

definition champion_label :: "string option \<Rightarrow> string" where
  "champion_label k = (case k of Some n \<Rightarrow> n | None \<Rightarrow> ''None'')"

text \<open>\<open>for index, value in enumerate(top5['championships']): plt.text(value + 0.1, index, str(value))\<close>.\<close>

definition count_texts :: "(string option \<times> nat) list \<Rightarrow> (rat \<times> nat \<times> string) list" where
  "count_texts top5 = map (\<lambda>(index, (_, value)). (of_nat value + 1/10, index, nat_str value)) (enumerate 0 top5)"

definition most_constructor_championships_won :: "f1_db \<Rightarrow> string option \<Rightarrow> chart_effect py_result" where
  "most_constructor_championships_won db save_path =
     (case championship_top5 db of
        Inl e \<Rightarrow> Inl e
      | Inr top5 \<Rightarrow>
          Inr (save_or_show save_path
            ((plain_chart ''barh'' (map (\<lambda>(k, c). (champion_label k, c)) top5))
              \<lparr>chart_color := Some ''purple'', chart_legend := False,
               chart_title := ''Top 5 Constructors with Most Championships'',
               chart_xlabel := ''Number of Championships'', chart_ylabel := ''Constructor'',
               chart_y_inverted := True, chart_texts := count_texts top5,
               chart_x_axis_visible := False\<rparr>)))"

section \<open>Properties of the charts\<close>

text \<open>
  The nationality chart draws one bar per nationality, tallest first, and the
  bars add up to the number of drivers with a nationality; it is saved exactly
  when \<open>save_path\<close> is a non-empty string.
\<close>

lemma nationalities_chart:
  "\<exists>fig. nationalities db save_path = (if py_truthy save_path then Saved (the save_path) fig else Shown fig)
     \<and> chart_bars fig = nationalities_counts (drivers db) \<and> desc_by snd (chart_bars fig)
     \<and> sum_list (map snd (chart_bars fig)) = length (filter (\<lambda>d. pd_str (nationality d) \<noteq> None) (drivers db))"
  by (simp add: nationalities_def save_or_show_def plain_chart_def Let_def nationalities_counts_def
      sum_value_counts length_pd_strs value_counts_desc)

lemma enumerate_nth: "i < length xs \<Longrightarrow> enumerate n xs ! i = (n + i, xs ! i)"
  by (simp add: nth_enumerate_eq)

text \<open>
  The championship chart: at most five horizontal bars, the most titles first
  (drawn at the top, the y axis being inverted), each with its count written
  0.1 to the right of its end.
\<close>

lemma championship_chart:
  assumes "most_constructor_championships_won db save_path = Inr eff"
  obtains top5 fig where "championship_top5 db = Inr top5"
    "eff = (if py_truthy save_path then Saved (the save_path) fig else Shown fig)"
    "length (chart_bars fig) \<le> 5" "desc_by snd (chart_bars fig)" "chart_y_inverted fig"
    "\<forall>i < length (chart_bars fig).
        chart_texts fig ! i = (of_nat (snd (chart_bars fig ! i)) + 1/10, i, nat_str (snd (chart_bars fig ! i)))"
proof -
  obtain top5 where t: "championship_top5 db = Inr top5"
    using assms by (cases "championship_top5 db") (auto simp: most_constructor_championships_won_def)
  obtain counts where c: "top5 = take 5 (sorted_desc snd counts)"
    using t by (cases "championship_counts db") (auto simp: championship_top5_def championship_top5_over_def championship_counts_def)
  have d: "desc_by snd top5"
    unfolding c by (rule sorted_wrt_take [OF sorted_desc_sorted])
  let ?fig = "(plain_chart ''barh'' (map (\<lambda>(k, c). (champion_label k, c)) top5))
              \<lparr>chart_color := Some ''purple'', chart_legend := False,
               chart_title := ''Top 5 Constructors with Most Championships'',
               chart_xlabel := ''Number of Championships'', chart_ylabel := ''Constructor'',
               chart_y_inverted := True, chart_texts := count_texts top5,
               chart_x_axis_visible := False\<rparr>"
  have "eff = (if py_truthy save_path then Saved (the save_path) ?fig else Shown ?fig)"
    using assms t by (simp add: most_constructor_championships_won_def save_or_show_def)
  moreover have "length (chart_bars ?fig) \<le> 5" using c by (simp add: plain_chart_def)
  moreover have "desc_by snd (chart_bars ?fig)"
    using d by (simp add: plain_chart_def sorted_wrt_map case_prod_beta)
  moreover have "\<forall>i < length (chart_bars ?fig).
      chart_texts ?fig ! i = (of_nat (snd (chart_bars ?fig ! i)) + 1/10, i, nat_str (snd (chart_bars ?fig ! i)))"
    by (simp add: plain_chart_def count_texts_def enumerate_nth case_prod_beta)
  ultimately show ?thesis using t that by simp
qed

end
