(* ===== verification/Clustering.thy ===== *)
theory Clustering
  imports Features Py_Text
begin

text \<open>
  The rest of \<open>cluster_driving_styles\<close> (src/src/learning/clustering.py, lines
  133-205): standardisation, the elbow loop of k-means for \<open>k = 1..10\<close>, the
  final k-means with 3 clusters, the PCA, the four output files, and the table of
  the drivers' names per cluster. scikit-learn is a library the source only
  calls: its results enter as a parameter \<open>sk\<close> (the inertias, the cluster
  label of each row, the PCA contributions as CSV text). What the program itself
  computes from them is modelled: the error k-means raises with fewer rows than
  clusters, the grouping of the names by cluster, the padded table and its CSV
  text, and which files are written.
\<close>

record sk_results =
  sk_inertias :: "rat list"
  sk_labels :: "nat list"
  sk_pca_contrib_csv :: string

section \<open>The table of clusters\<close>

text \<open>\<open>df_pilotes.groupby('cluster')['name'].apply(list).to_dict()\<close>: the names of each label, in row order, by increasing label.\<close>

definition cluster_groups :: "(nat \<times> name_cell) list \<Rightarrow> (nat \<times> name_cell list) list" where
  "cluster_groups rows = map (\<lambda>k. (k, map snd (filter (\<lambda>r. fst r = k) rows))) (sort (remdups (map fst rows)))"

text \<open>
  \<open>max(len(names) for names in clusters.values())\<close> (\<open>ValueError\<close> on no
  cluster) and the columns \<open>Cluster i\<close>, each padded with empty strings to that
  length.
\<close>

definition cluster_table :: "(nat \<times> name_cell) list \<Rightarrow> (string \<times> name_cell list) list py_result" where
  "cluster_table rows =
     (let clusters = cluster_groups rows in
      if clusters = [] then Inl ValueError
      else (let max_len = Max (set (map (\<lambda>(_, names). length names) clusters)) in
            Inr (map (\<lambda>(i, names). (''Cluster '' @ nat_str i, names @ replicate (max_len - length names) (Name [])))
                   clusters)))"

section \<open>CSV text\<close>

text \<open>
  \<open>to_csv(index=False)\<close> with the default minimal quoting: a field holding a
  comma, a quote or a line break is quoted, its quotes doubled; the number 0
  that \<open>fillna(0)\<close> left in a name is written \<open>0\<close>.
\<close>

definition csv_field :: "string \<Rightarrow> string" where
  "csv_field s =
     (if list_ex (\<lambda>c. c \<in> set [CHR '','', CHR 0x22, CHR 0x0A, CHR 0x0D]) s
      then CHR 0x22 # concat (map (\<lambda>c. if c = CHR 0x22 then [c, c] else [c]) s) @ [CHR 0x22]
      else s)"

definition cell_str :: "name_cell \<Rightarrow> string" where
  "cell_str c = (case c of Name s \<Rightarrow> s | Zero \<Rightarrow> ''0'')"

text \<open>The csv writer quotes a row made of one empty field, to tell it from an empty line.\<close>

fun csv_line :: "string list \<Rightarrow> string" where
  "csv_line [] = []"
| "csv_line [f] = (if f = [] then [CHR 0x22, CHR 0x22] else csv_field f)"
| "csv_line (f # fs) = csv_field f @ '','' @ csv_line fs"

definition table_csv :: "(string \<times> name_cell list) list \<Rightarrow> string" where
  "table_csv tbl =
     csv_line (map fst tbl) @ [CHR 0x0A]
     @ concat (map (\<lambda>i. csv_line (map (\<lambda>(_, col). cell_str (col ! i)) tbl) @ [CHR 0x0A])
                 [0..<(case tbl of [] \<Rightarrow> 0 | (_, col) # _ \<Rightarrow> length col)])"

text \<open>
  Reading one line back as the csv reader does: a field that starts with a
  quote runs to the closing quote, a doubled quote inside standing for one.
\<close>

fun csv_split :: "string \<Rightarrow> string \<Rightarrow> bool \<Rightarrow> string list" where
  "csv_split [] cur q = [cur]"
| "csv_split (c # cs) cur False =
     (if c = CHR '','' then cur # csv_split cs [] False
      else if c = CHR 0x22 \<and> cur = [] then csv_split cs [] True
      else csv_split cs (cur @ [c]) False)"
| "csv_split (c # cs) cur True =
     (if c = CHR 0x22 then
        (case cs of
           d # ds \<Rightarrow> (if d = CHR 0x22 then csv_split ds (cur @ [c]) True else csv_split cs cur False)
         | [] \<Rightarrow> csv_split [] cur False)
      else csv_split cs (cur @ [c]) True)"

section \<open>The pipeline\<close>

datatype output_file = Png string | Csv string string

text \<open>
  The pipeline after the feature table: \<open>KMeans(n_clusters=k).fit\<close> raises
  \<open>ValueError\<close> when there are fewer rows than clusters, which the elbow loop
  reaches at \<open>k = 10\<close> (an empty table already fails in \<open>StandardScaler\<close>);
  then the cluster table, and the files written when \<open>save_outputs\<close> holds.
\<close>

definition cluster_driving_styles :: "f1_db \<Rightarrow> bool \<Rightarrow> (feature_row list \<Rightarrow> sk_results) \<Rightarrow> output_file list py_result" where
  "cluster_driving_styles db save_outputs sk =
     (case build_features db of
        Inl e \<Rightarrow> Inl e
      | Inr df_pilotes \<Rightarrow>
          if length df_pilotes < 10 then Inl ValueError
          else (case cluster_table (zip (sk_labels (sk df_pilotes)) (map fr_name df_pilotes)) of
                  Inl e \<Rightarrow> Inl e
                | Inr cluster_tbl \<Rightarrow>
                    Inr (if save_outputs
                         then [Png ''elbow_method.png'', Png ''pca_visualization.png'',
                               Csv ''pca_contributions.csv'' (sk_pca_contrib_csv (sk df_pilotes)),
                               Csv ''clusters.csv'' (table_csv cluster_tbl)]
                         else [])))"

section \<open>The k-means window\<close>

text \<open>
  \<open>open_kmeans_window\<close> (src/src/app.py): after the folder dialog it runs the
  pipeline with \<open>save_outputs=True\<close>, moves the four files into the folder,
  reads \<open>clusters.csv\<close> back and previews its first ten rows, every cell
  left-justified to 30 characters, under a fixed header for three clusters. A
  cell \<open>read_csv\<close> reads as NaN (an empty field, or one of its NA strings) is
  printed empty. The figures and the PCA contributions text are not modelled.
\<close>

definition file_name :: "output_file \<Rightarrow> string" where
  "file_name f = (case f of Png n \<Rightarrow> n | Csv n _ \<Rightarrow> n)"

text \<open>The lines of a file; the newline that ends the last line opens no further line.\<close>

fun split_nl :: "string \<Rightarrow> string \<Rightarrow> string list" where
  "split_nl [] cur = (if cur = [] then [] else [cur])"
| "split_nl (c # cs) cur = (if c = CHR 0x0A then cur # split_nl cs [] else split_nl cs (cur @ [c]))"

definition csv_lines :: "string \<Rightarrow> string list" where
  "csv_lines text = split_nl text []"

definition clusters_csv :: "output_file list \<Rightarrow> string" where
  "clusters_csv outs = (case find (\<lambda>f. file_name f = ''clusters.csv'') outs of Some (Csv _ t) \<Rightarrow> t | _ \<Rightarrow> [])"

definition read_table :: "string \<Rightarrow> string list list" where
  "read_table text = map (\<lambda>l. csv_split l [] False) (csv_lines text)"

definition preview_cell :: "string \<Rightarrow> string" where
  "preview_cell cell = py_ljust (case pd_str cell of Some s \<Rightarrow> s | None \<Rightarrow> []) 30"

definition cluster_preview :: "string list list \<Rightarrow> string" where
  "cluster_preview table =
     py_ljust ''Cluster 0'' 30 @ py_ljust ''Cluster 1'' 30 @ py_ljust ''Cluster 2'' 30 @ [CHR 0x0A]
     @ replicate 90 CHR ''-'' @ [CHR 0x0A]
     @ concat (map (\<lambda>row. concat (map preview_cell row) @ [CHR 0x0A]) (take 10 (drop 1 table)))"

datatype kmeans_outcome = K_Cancelled | K_Error py_error | K_Done "string list" string string

definition open_kmeans_window :: "f1_db \<Rightarrow> (feature_row list \<Rightarrow> sk_results) \<Rightarrow> string \<Rightarrow> kmeans_outcome" where
  "open_kmeans_window db sk folder =
     (if folder = [] then K_Cancelled
      else (case cluster_driving_styles db True sk of
              Inl e \<Rightarrow> K_Error e
            | Inr outs \<Rightarrow>
                K_Done (map (\<lambda>f. folder @ ''/'' @ file_name f) outs)
                  (cluster_preview (read_table (clusters_csv outs)))
                  (''Clustering finished. Results exported to : '' @ folder)))"

section \<open>Properties\<close>

lemma mset_filter_split: "mset xs = mset (filter P xs) + mset (filter (\<lambda>x. \<not> P x) xs)"
  by (simp only: mset_filter) (rule multiset_partition)

lemma mset_concat_filter_keys:
  assumes "distinct ks" "fst ` set xs \<subseteq> set ks"
  shows "mset (concat (map (\<lambda>k. filter (\<lambda>r. fst r = k) xs) ks)) = mset xs"
  using assms
proof (induction ks arbitrary: xs)
  case Nil
  then have "xs = []" by auto
  then show ?case by simp
next
  case (Cons k ks)
  let ?rest = "filter (\<lambda>r. fst r \<noteq> k) xs"
  have "filter (\<lambda>r. fst r = k') xs = filter (\<lambda>r. fst r = k') ?rest" if "k' \<in> set ks" for k'
  proof -
    have "k' \<noteq> k" using Cons.prems(1) that by auto
    then show ?thesis unfolding filter_filter by (intro filter_cong) auto
  qed
  then have same: "map (\<lambda>k'. filter (\<lambda>r. fst r = k') xs) ks = map (\<lambda>k'. filter (\<lambda>r. fst r = k') ?rest) ks"
    by (rule map_cong [OF refl])
  have IH: "mset (concat (map (\<lambda>k'. filter (\<lambda>r. fst r = k') ?rest) ks)) = mset ?rest"
    using Cons.prems by (intro Cons.IH) auto
  have "mset (concat (map (\<lambda>k. filter (\<lambda>r. fst r = k) xs) (k # ks)))
          = mset (filter (\<lambda>r. fst r = k) xs) + mset (concat (map (\<lambda>k'. filter (\<lambda>r. fst r = k') xs) ks))"
    by simp
  also have "\<dots> = mset xs"
    unfolding same IH by (rule mset_filter_split [symmetric])
  finally show ?case .
qed

text \<open>
  The cluster table is a partition of the rows: pairing every name of a column
  with the column's label gives back the (label, name) rows, up to order.
\<close>

lemma cluster_groups_partition:
  "mset (concat (map (\<lambda>(k, ns). map (Pair k) ns) (cluster_groups rows))) = mset rows"
proof -
  have "map (\<lambda>(k, ns). map (Pair k) ns) (cluster_groups rows)
          = map (\<lambda>k. filter (\<lambda>r. fst r = k) rows) (sort (remdups (map fst rows)))"
    by (auto simp: cluster_groups_def comp_def intro!: map_cong map_idI)
  then show ?thesis by (simp add: mset_concat_filter_keys)
qed

text \<open>Every column of the table has the length of the longest cluster.\<close>

lemma cluster_table_rectangular:
  assumes "cluster_table rows = Inr tbl"
  shows "tbl \<noteq> [] \<and> (\<forall>c \<in> set tbl. length (snd c) = Max (set (map (\<lambda>(_, names). length names) (cluster_groups rows))))"
proof -
  let ?G = "cluster_groups rows"
  let ?m = "Max (set (map (\<lambda>(_, names). length names) ?G))"
  have ne: "?G \<noteq> []" and t: "tbl = map (\<lambda>(i, names). (''Cluster '' @ nat_str i, names @ replicate (?m - length names) (Name []))) ?G"
    using assms by (auto simp: cluster_table_def Let_def split: if_splits)
  have "length names \<le> ?m" if "(i, names) \<in> set ?G" for i names
    using that by (intro Max_ge) force+
  then show ?thesis using ne t by auto
qed

text \<open>
  The pipeline needs ten drivers: with fewer feature rows the elbow loop's
  \<open>KMeans(n_clusters=10)\<close> raises \<open>ValueError\<close>, whatever scikit-learn
  would compute; the example data has two.
\<close>

lemma cluster_driving_styles_few_rows:
  "build_features db = Inr rows \<Longrightarrow> length rows < 10 \<Longrightarrow> cluster_driving_styles db b sk = Inl ValueError"
  by (simp add: cluster_driving_styles_def)

lemma cluster_driving_styles_example: "cluster_driving_styles fb_db b sk = Inl ValueError"
  by (rule cluster_driving_styles_few_rows [OF fb_db_features]) (simp add: fb_rows_def)

text \<open>Files are written exactly when \<open>save_outputs\<close> holds; \<open>clusters.csv\<close> holds the cluster table.\<close>

lemma cluster_driving_styles_outputs:
  assumes "cluster_driving_styles db save_outputs sk = Inr outs"
  shows "\<exists>rows tbl. build_features db = Inr rows \<and> 10 \<le> length rows
           \<and> cluster_table (zip (sk_labels (sk rows)) (map fr_name rows)) = Inr tbl
           \<and> (save_outputs \<longrightarrow> Csv ''clusters.csv'' (table_csv tbl) \<in> set outs) \<and> (\<not> save_outputs \<longrightarrow> outs = [])"
  using assms
  by (auto simp: cluster_driving_styles_def split: sum.splits if_splits)

section \<open>The CSV round trip\<close>

lemma csv_split_plain:
  "CHR 0x22 \<notin> set f \<Longrightarrow> CHR '','' \<notin> set f \<Longrightarrow> csv_split (f @ r) cur False = csv_split r (cur @ f) False"
proof (induction f arbitrary: cur)
  case (Cons c f)
  have "c \<noteq> CHR 0x22" "c \<noteq> CHR '',''" using Cons.prems by auto
  then show ?case using Cons by simp
qed simp

lemma csv_split_quoted:
  "(case r of d # _ \<Rightarrow> d \<noteq> CHR 0x22 | [] \<Rightarrow> True) \<Longrightarrow>
   csv_split (concat (map (\<lambda>c. if c = CHR 0x22 then [c, c] else [c]) f) @ CHR 0x22 # r) cur True = csv_split r (cur @ f) False"
proof (induction f arbitrary: cur)
  case Nil
  then show ?case by (cases r) auto
next
  case (Cons c f)
  then show ?case by (cases "c = CHR 0x22") auto
qed

lemma csv_split_field:
  assumes "case r of d # _ \<Rightarrow> d = CHR '','' | [] \<Rightarrow> True" and "csv_field f \<noteq> []"
  shows "csv_split (csv_field f @ r) [] False = csv_split r f False"
proof (cases "list_ex (\<lambda>c. c \<in> set [CHR '','', CHR 0x22, CHR 0x0A, CHR 0x0D]) f")
  case True
  have "(case r of d # _ \<Rightarrow> d \<noteq> CHR 0x22 | [] \<Rightarrow> True)" using assms(1) by (cases r) auto
  then show ?thesis using True csv_split_quoted [of r f "[]"] by (simp add: csv_field_def)
next
  case False
  then have "CHR 0x22 \<notin> set f" "CHR '','' \<notin> set f" by (auto simp: list_ex_iff)
  then show ?thesis using False csv_split_plain [of f r "[]"] by (simp add: csv_field_def)
qed

lemma csv_field_Nil [simp]: "csv_field [] = []"
  by (simp add: csv_field_def)

lemma csv_split_empty_field: "csv_split (CHR '','' # r) [] False = [] # csv_split r [] False"
  by simp

text \<open>
  Reading back a line the writer wrote gives its fields: the quoting of
  \<open>csv_field\<close> and of a lone empty field is undone exactly.
\<close>

lemma csv_line_roundtrip: "fs \<noteq> [] \<Longrightarrow> csv_split (csv_line fs) [] False = fs"
proof (induction fs rule: csv_line.induct)
  case (2 f)
  show ?case
  proof (cases "f = []")
    case True
    then show ?thesis by simp
  next
    case False
    then have "csv_field f \<noteq> []" by (auto simp: csv_field_def)
    then show ?thesis using False csv_split_field [of "[]" f] by simp
  qed
next
  case (3 f g gs)
  have rest: "csv_split (csv_line (g # gs)) [] False = g # gs" using "3.IH" by simp
  show ?case
  proof (cases "f = []")
    case True
    then show ?thesis using rest by simp
  next
    case False
    then have ne: "csv_field f \<noteq> []" by (auto simp: csv_field_def)
    have "csv_split (csv_field f @ CHR '','' # csv_line (g # gs)) [] False
            = csv_split (CHR '','' # csv_line (g # gs)) f False"
      using csv_split_field [of "CHR '','' # csv_line (g # gs)" f] ne by simp
    then show ?thesis using rest by simp
  qed
qed simp

section \<open>Reading the cluster table back\<close>

lemma split_nl_line:
  "CHR 0x0A \<notin> set l \<Longrightarrow> split_nl (l @ CHR 0x0A # rest) cur = (cur @ l) # split_nl rest []"
proof (induction l arbitrary: cur)
  case (Cons c l)
  have "c \<noteq> CHR 0x0A" using Cons.prems by auto
  then show ?case using Cons by simp
qed simp

lemma split_nl_lines:
  "\<forall>l \<in> set ls. CHR 0x0A \<notin> set l \<Longrightarrow> split_nl (concat (map (\<lambda>l. l @ [CHR 0x0A]) ls)) [] = ls"
  by (induction ls) (simp_all add: split_nl_line)

lemma csv_field_no_nl: "CHR 0x0A \<notin> set f \<Longrightarrow> CHR 0x0A \<notin> set (csv_field f)"
  by (auto simp: csv_field_def)

lemma csv_line_no_nl: "\<forall>f \<in> set fs. CHR 0x0A \<notin> set f \<Longrightarrow> CHR 0x0A \<notin> set (csv_line fs)"
  by (induction fs rule: csv_line.induct) (auto dest: csv_field_no_nl)

text \<open>
  The rows of a table as the file holds them: the header of column names, then
  row \<open>i\<close> of every column.
\<close>

lemma table_csv_lines:
  "table_csv tbl = concat (map (\<lambda>l. l @ [CHR 0x0A])
      (map csv_line (map fst tbl # map (\<lambda>i. map (\<lambda>(_, col). cell_str (col ! i)) tbl)
                                       [0..<(case tbl of [] \<Rightarrow> 0 | (_, col) # _ \<Rightarrow> length col)])))"
  by (simp add: table_csv_def comp_def)

text \<open>
  Writing the cluster table to CSV and reading it back gives its cells again,
  as long as no name holds a line break.
\<close>

lemma read_table_csv:
  assumes "tbl \<noteq> []" and "\<forall>(h, col) \<in> set tbl. CHR 0x0A \<notin> set h \<and> (\<forall>c \<in> set col. CHR 0x0A \<notin> set (cell_str c))"
    and "\<forall>c \<in> set tbl. length (snd c) = length (snd (hd tbl))"
  shows "read_table (table_csv tbl) =
           map fst tbl # map (\<lambda>i. map (\<lambda>(_, col). cell_str (col ! i)) tbl) [0..<length (snd (hd tbl))]"
proof -
  let ?rows = "map fst tbl # map (\<lambda>i. map (\<lambda>(_, col). cell_str (col ! i)) tbl) [0..<length (snd (hd tbl))]"
  have n: "(case tbl of [] \<Rightarrow> 0 | (_, col) # _ \<Rightarrow> length col) = length (snd (hd tbl))"
    using assms(1) by (cases tbl) auto
  have fields: "\<forall>r \<in> set ?rows. \<forall>f \<in> set r. CHR 0x0A \<notin> set f"
  proof -
    have cellok: "CHR 0x0A \<notin> set (cell_str (col ! i))" if "(h, col) \<in> set tbl" "i < length (snd (hd tbl))" for h col i
    proof -
      have "i < length col" using assms(3) that by force
      then show ?thesis using assms(2) that(1) by (auto dest!: bspec [of _ _ "(h, col)"])
    qed
    then show ?thesis using assms(2) by (auto simp: case_prod_beta)
  qed
  have ne: "\<forall>r \<in> set ?rows. r \<noteq> []" using assms(1) by auto
  have lines: "\<forall>l \<in> set (map csv_line ?rows). CHR 0x0A \<notin> set l"
  proof
    fix l assume "l \<in> set (map csv_line ?rows)"
    then obtain r where r: "r \<in> set ?rows" "l = csv_line r" unfolding set_map by blast
    show "CHR 0x0A \<notin> set l" unfolding r(2) by (rule csv_line_no_nl) (use fields r(1) in blast)
  qed
  have "csv_lines (table_csv tbl) = map csv_line ?rows"
    unfolding csv_lines_def table_csv_lines n by (rule split_nl_lines [OF lines])
  then show ?thesis using ne by (simp add: read_table_def comp_def csv_line_roundtrip map_idI)
qed

lemma fr_name_no_nl:
  assumes "build_features db = Inr rows" and "r \<in> set rows"
    and "\<forall>d \<in> set (drivers db). CHR 0x0A \<notin> set (forename d) \<and> CHR 0x0A \<notin> set (surname d)"
  shows "CHR 0x0A \<notin> set (cell_str (fr_name r))"
proof -
  obtain ids d dr where m: "(d, dr) \<in> set (merge_left Some (\<lambda>x. py_int (driverId x))
                  (df_pilotes_keys ids (results db) (lap_times db) (qualifying db) (pit_stops db)) (drivers db))"
    and r: "r = feature_row_of ids db d dr"
    using build_features_rows [OF assms(1,2)] by blast
  show ?thesis
  proof (cases dr)
    case None
    then show ?thesis using r by (simp add: feature_row_of_def Let_def fill_name_def cell_str_def)
  next
    case (Some x)
    then have "x \<in> set (drivers db)" using m merge_left_Some by fastforce
    then show ?thesis using Some r assms(3)
      by (auto simp: feature_row_of_def Let_def fill_name_def cell_str_def pd_str_def split: option.splits)
  qed
qed

lemma nat_str_no_nl: "CHR 0x0A \<notin> set (nat_str n)"
  using nat_str_digits [of n] by (auto simp: list_all_iff ascii_digit_def)

lemma cluster_table_cells:
  assumes "cluster_table rows = Inr tbl" and "(h, col) \<in> set tbl"
  shows "(\<exists>i. h = ''Cluster '' @ nat_str i) \<and> (\<forall>c \<in> set col. c = Name [] \<or> c \<in> snd ` set rows)"
  using assms by (auto simp: cluster_table_def cluster_groups_def Let_def image_iff split: if_splits)

text \<open>
  Composition of the pipeline, the file it writes and the window that reads it:
  after a successful run the k-means window has moved the four files into the
  folder, and its preview shows the first ten rows of the cluster table the
  pipeline computed (the names, as long as no driver's name holds a line break).
\<close>

lemma kmeans_window_preview:
  assumes "open_kmeans_window db sk folder = K_Done paths prev msg"
    and "\<forall>d \<in> set (drivers db). CHR 0x0A \<notin> set (forename d) \<and> CHR 0x0A \<notin> set (surname d)"
  shows "\<exists>rows tbl. build_features db = Inr rows \<and> cluster_table (zip (sk_labels (sk rows)) (map fr_name rows)) = Inr tbl
           \<and> paths = [folder @ ''/elbow_method.png'', folder @ ''/pca_visualization.png'',
                      folder @ ''/pca_contributions.csv'', folder @ ''/clusters.csv'']
           \<and> prev = cluster_preview (map fst tbl # map (\<lambda>i. map (\<lambda>(_, col). cell_str (col ! i)) tbl) [0..<length (snd (hd tbl))])"
proof -
  obtain outs where f: "folder \<noteq> []" and o: "cluster_driving_styles db True sk = Inr outs"
    and p: "paths = map (\<lambda>f. folder @ ''/'' @ file_name f) outs"
    and v: "prev = cluster_preview (read_table (clusters_csv outs))"
    using assms(1) by (auto simp: open_kmeans_window_def split: if_splits sum.splits)
  obtain rows tbl where b: "build_features db = Inr rows" and t: "cluster_table (zip (sk_labels (sk rows)) (map fr_name rows)) = Inr tbl"
    and outs: "outs = [Png ''elbow_method.png'', Png ''pca_visualization.png'',
                       Csv ''pca_contributions.csv'' (sk_pca_contrib_csv (sk rows)), Csv ''clusters.csv'' (table_csv tbl)]"
    using o by (auto simp: cluster_driving_styles_def split: sum.splits if_splits)
  have rect: "tbl \<noteq> []" "\<forall>c \<in> set tbl. length (snd c) = length (snd (hd tbl))"
  proof -
    show ne: "tbl \<noteq> []" using cluster_table_rectangular [OF t] by blast
    have "hd tbl \<in> set tbl" using ne by simp
    then show "\<forall>c \<in> set tbl. length (snd c) = length (snd (hd tbl))"
      using cluster_table_rectangular [OF t] by simp
  qed
  have nl: "\<forall>(h, col) \<in> set tbl. CHR 0x0A \<notin> set h \<and> (\<forall>c \<in> set col. CHR 0x0A \<notin> set (cell_str c))"
  proof (intro ballI, clarify)
    fix h col assume hc: "(h, col) \<in> set tbl"
    show "CHR 0x0A \<notin> set h \<and> (\<forall>c \<in> set col. CHR 0x0A \<notin> set (cell_str c))"
    proof (intro conjI ballI)
      obtain i where "h = ''Cluster '' @ nat_str i" using cluster_table_cells [OF t hc] by blast
      then show "CHR 0x0A \<notin> set h" using nat_str_no_nl [of i] by simp
    next
      fix c assume "c \<in> set col"
      then have "c = Name [] \<or> c \<in> snd ` set (zip (sk_labels (sk rows)) (map fr_name rows))"
        using cluster_table_cells [OF t hc] by blast
      then show "CHR 0x0A \<notin> set (cell_str c)"
        using fr_name_no_nl [OF b _ assms(2)] by (auto simp: cell_str_def dest!: set_zip_rightD)
    qed
  qed
  have "clusters_csv outs = table_csv tbl" by (simp add: outs clusters_csv_def file_name_def)
  then show ?thesis
    using b t p v read_table_csv [OF rect(1) nl rect(2)] by (simp add: outs file_name_def)
qed

end
