(* ===== verification/Spec2Isabelle.thy ===== *)
theory Spec2Isabelle
  imports Wins Ranking Mean_Grid Dnf Pit_Stops Failures Circuits Constructors App Features Timing Charts Clustering
begin

text \<open>
  \<^bold>\<open>A verification library for the Formula 1 world championship analysis
  (tajas7/Formula1_world_championships).\<close>

  \<^bold>\<open>The program.\<close> A static dataset of CSV tables (drivers, results, races,
  standings, constructors, circuits, status codes, pit stops, lap times,
  qualifying) is read into memory and a fixed set of questions is answered over
  it. Four questions are answered twice: by an iterative strategy over the rows
  \<open>parse_csv\<close> returns (src/src/analysis/homemade/, functions ending in
  \<open>_nopd\<close>) and by a pandas strategy (src/src/analysis/pandas/). The other
  questions have the pandas strategy only. A feature builder and a clustering
  pipeline (src/src/learning/clustering.py) derive a per-driver feature table and
  cluster it; a desktop GUI (src/src/app.py) and a timing harness
  (src/src/analysis/compare.py) call the queries. No query changes any state: each
  is a function of the dataset, and the model is a set of functions of the record
  \<open>f1_db\<close>. Every raise of the source is a value of \<open>py_error + 'a\<close>.

  \<^bold>\<open>Theories.\<close>
  \<^item> Runtime: \<open>Py_Prelude\<close> (exceptions, \<open>dict\<close> as an insertion-ordered
    association list, loops that may raise as \<open>py_map\<close>), \<open>Py_Sort\<close> (the
    stable \<open>sorted(\<dots>, reverse=True)\<close> as \<open>sorted_desc\<close>, top-k, its
    decorate-sort-undecorate code equation), \<open>Py_Decimal\<close> (\<open>int()\<close>/\<open>str()\<close>
    on decimal strings with the round trip \<open>py_int (int_str i) = Some i\<close>,
    \<open>float()\<close> as rationals, \<open>max\<close>, round half to even and its bounds and
    monotonicity), \<open>Py_Text\<close> (\<open>ljust\<close>, \<open>rjust\<close>, \<open>center\<close>, \<open>join\<close>).
  \<^item> \<open>Frames\<close>: the pandas operations (\<open>groupby().size()\<close>, \<open>value_counts\<close>,
    \<open>head\<close>, inner and left \<open>merge\<close>, \<open>isin\<close>, \<open>mean\<close>/\<open>min\<close>/\<open>max\<close>, the
    numeric and text readings of a column with \<open>read_csv\<close>'s NaN cells) and their
    lemmas relating them to the dict idioms.
  \<^item> \<open>F1_Tables\<close>: one record per CSV file, every field the string the file
    holds, and \<open>f1_db\<close>. \<open>Report_Format\<close>: \<open>format_dict\<close>, the iterative layout.
  \<^item> One theory per question: \<open>Wins\<close> (mandatory1.py, both strategies),
    \<open>Ranking\<close> (mandatory2.py, both), \<open>Mean_Grid\<close> (q1.py, both), \<open>Dnf\<close>
    (q2.py, both), \<open>Failures\<close> (q7.py and the data part of q6_graph.py),
    \<open>Pit_Stops\<close> (q8.py), \<open>Circuits\<close> (q3.py), \<open>Constructors\<close> (q4.py and the
    data part of q5_graph.py, with pandas' \<open>squeeze()\<close> and the comparison of a
    column with a Series).
  \<^item> \<open>App\<close>: the desktop front end (app.py): the table \<open>question_data\<close>, the
    question window of \<open>open_question_window_with_input\<close> as a state (entries,
    \<open>use_pandas\<close>, result label) with a step function for the user's events and
    the reachability relation \<open>window_reach\<close>, \<open>run()\<close> with its entry parsing
    and its choice of function, the Compare arguments, and \<open>export()\<close> with
    \<open>make_selector\<close> and the text of \<open>results.txt\<close>. The queries enter as
    parameters \<open>call\<close> (the call \<open>func(*args)\<close>), \<open>render\<close> (\<open>str\<close> of a
    result) and \<open>msg\<close> (\<open>str\<close> of an exception), so the lemmas hold for every
    query.
  \<^item> \<open>Features\<close>: the feature builder of clustering.py (lines 34-132): every
    per-driver aggregate as a \<open>groupby\<close> table, the reduce of outer merges, the
    left merges and \<open>fillna(0)\<close>, giving \<open>build_features\<close>.
  \<^item> \<open>Timing\<close>: the timing harness, \<open>compare_execution_time\<close> (compare.py) and
    \<open>show_comparison_result\<close> (app.py). The clock is explicit state: a call is a
    function from the clock before it to its outcome and the clock after it.
    The loop over \<open>range(repeats)\<close> is a \<open>function\<close> with a measure; the
    specification it refines is \<open>mean_spec\<close> of the rounds' durations
    (\<open>call_durations\<close>).
  \<^item> \<open>Charts\<close>: the figures of q5_graph.py and q6_graph.py as records of what
    the matplotlib calls put into them (bars in drawing order, titles, labels,
    annotations, axis settings) and the save-or-show effect.
  \<^item> \<open>Clustering\<close>: the rest of \<open>cluster_driving_styles\<close>, with the
    scikit-learn results as a parameter: the \<open>ValueError\<close> of k-means with fewer
    than ten drivers, the names grouped by cluster (a partition of the rows),
    the padded cluster table (rectangular) and its CSV text, and the files
    written when \<open>save_outputs\<close> holds. The CSV writer's minimal quoting
    is inverted by a line reader (\<open>csv_line_roundtrip\<close>, \<open>read_table_csv\<close>),
    and the k-means window of app.py (\<open>open_kmeans_window\<close>) is modelled
    from the folder dialog on: \<open>kmeans_window_preview\<close> shows that, after a
    successful run, its preview is the first ten rows of the cluster table the
    pipeline computed, read back from \<open>clusters.csv\<close>.

  \<^bold>\<open>Correspondence.\<close> Each definition carries the name of the source function,
  or of the local variable it computes, and the manifest maps it to its lines.
  The iterative strategy compares the strings of the CSV fields; the pandas
  strategy compares the integers \<open>read_csv\<close> parsed, modelled by \<open>py_int\<close> on the
  same fields, a cell that does not parse being NaN (\<open>None\<close>). pandas'
  \<open>sort_values\<close> and \<open>value_counts\<close> are taken with a stable sort. Floats are
  exact rationals; they agree with the doubles on the short decimals of the data.

  \<^bold>\<open>What is proved.\<close>
  \<^item> Equivalence of the strategies where it holds: wins (multisets of rows, C1),
    top-3 DNF drivers (same list, C2), mean grid position (same sentence, C3),
    under hypotheses on the data that the theorems state (canonical numeric
    fields, unique ids, a status table the allow-list and the regex agree on).
  \<^item> Functional properties: ranks 1..N with non-increasing points in both
    rankings, descending win counts, monotonicity in the threshold, the
    tie-break counts, the top-k property of the DNF list, exact counts of the
    failure report and of the nationalities, the most dangerous circuit as a
    maximum (within the country asked for), the season's constructor champion
    as the leader after the last round, the championship tally and its top five.
  \<^item> The front end: an invariant of the question window by rule induction over
    \<open>window_reach\<close>, from which \<open>run()\<close> always calls the question's own function
    (the iterative one only when chosen) with a number of arguments its
    signature accepts; the round trip of a default through its entry; the
    defaults each window passes; the blank integer entry that \<open>run()\<close> passes as
    \<open>None\<close> and \<open>export()\<close> rejects; one block per question in \<open>results.txt\<close>;
    every argument of \<open>run()\<close> has its parameter's type (or is \<open>None\<close>); and,
    as a liveness property, from every reachable window the answer on the
    defaults can still be reached by retyping them and pressing Run.
  \<^item> The timing harness refines its specification (mean durations and their
    difference), its loop returns after exactly \<open>max 0 repeats\<close> rounds when no
    call raises, and \<open>repeats = 0\<close> raises \<open>ZeroDivisionError\<close>.
  \<^item> The feature table: its rows are exactly the drivers with results, laps,
    qualifying rows or pit stops (so, against the spec, a driver only in
    drivers.csv has none), and its win and podium rates are the shares of the
    driver's results; the qualifying times never parse, so the mean qualifying
    position is 0 for everybody.
  \<^item> Divergences and errors, each a theorem at a concrete input: the string
    maximum of race ids in the iterative ranking, the \<open>+100 Laps\<close> status, ties
    ordered differently, homonym drivers, unknown drivers
    (\<open>UnboundLocalError\<close> vs. \<open>ValueError\<close>), empty selections that crash one
    strategy only, a negative \<open>top_n\<close>, a season without races that makes the
    constructor query raise \<open>ValueError\<close>, a season without standings that
    makes it return \<open>None\<close>.
  \<^item> Bounds: the rounded mean grid place and the pit-stop statistics lie
    within their data; the spec's examples of q1 and q8 evaluate as stated.

  \<^bold>\<open>Evaluation.\<close> No loop needs fuel: every loop of the source runs over a
  finite table and is a \<open>fold\<close>, a \<open>filter\<close> or structural recursion, except
  the timing loop (below), which has a measure. Concrete
  examples are small tables evaluated by \<open>code_simp\<close>, or by \<open>simp\<close> where the
  numbers are large, since \<open>code_simp\<close> computes with natural numbers in unary.

  \<^bold>\<open>Loops.\<close> The only loop whose bound is not a list is the timing loop over
  \<open>range(repeats)\<close> with an integer \<open>repeats\<close>: it is a \<open>function\<close> whose
  termination is proved with the measure \<open>nat (repeats - i)\<close>, and
  \<open>timing_loop_terminates\<close> states that it returns normally after exactly
  \<open>max 0 repeats\<close> rounds when no call raises.

  \<^bold>\<open>Not modelled.\<close> CSV parsing and delimiter sniffing (csv.Sniffer, file I/O),
  the GUI widgets, layout, CSV previews and code viewer, the folder dialog (its
  answer is a parameter), the PCA contributions text of the k-means window, and
  the writing of files (the text written is modelled), the pixel rendering of
  the charts (their content is modelled), the str() of each query's result (the parameter \<open>render\<close>), the
  real clock (\<open>time.perf_counter\<close>: the model takes the calls' effect on the
  clock as given, and reading it as free),
  and the numerics of the scikit-learn fits (StandardScaler, k-means++ with a
  random seed, PCA by SVD), which enter the model as a parameter, together
  with the elbow and PCA figures beyond their file names. The two
  standard-deviation columns of the feature table are modelled by their squares,
  since the square root leaves the rationals.
\<close>

end
